theory Spec2Isabelle
  imports Complex_Main "HOL-Library.Word"
begin

unbundle bit_operations_syntax

section \<open>Lab and ICCBased colour space writing (devices/vector/gdevpdfk.c)\<close>

text \<open>
  C \<open>double\<close> and \<open>float\<close> values are modelled as real numbers: arithmetic is exact, and
  a division is only meaningful where the divisor is not zero (the theorems say so in their
  hypotheses).  C \<open>uint\<close> is \<open>32 word\<close>, \<open>byte\<close> is \<open>8 word\<close>, C \<open>int\<close> values that stay
  small are \<open>int\<close>.
\<close>

type_synonym byte = "8 word"
type_synonym uint = "32 word"

subsection \<open>Data\<close>

text \<open>\<open>gs_vector3\<close>: three floats \<open>u\<close>, \<open>v\<close>, \<open>w\<close>.\<close>

record gs_vector3 =
  u :: real
  v :: real
  w :: real

text \<open>\<open>gs_range\<close>: a closed interval \<open>rmin .. rmax\<close>.\<close>

record gs_range =
  rmin :: real
  rmax :: real

text \<open>\<open>gs_matrix3\<close>: three column vectors.\<close>

record gs_matrix3 =
  cu :: gs_vector3
  cv :: gs_vector3
  cw :: gs_vector3

text \<open>
  The part of \<open>gs_cie_common\<close> (and of \<open>gs_cie_abc\<close>, which starts with it) that this file
  reads: \<open>points.WhitePoint\<close>, the three \<open>DecodeLMN.procs\<close> and, through the cast to
  \<open>gs_cie_abc\<close> in \<open>add_trc\<close>, the three \<open>DecodeABC.procs\<close>.
\<close>

record gs_cie_common =
  points_WhitePoint :: gs_vector3
  DecodeLMN_procs :: "(real \<Rightarrow> real) list"
  DecodeABC_procs :: "(real \<Rightarrow> real) list"

text \<open>
  The colour space indices that the file distinguishes (\<open>gs_color_space_index_...\<close>); every
  other index is \<open>gs_color_space_index_Other\<close>.
\<close>

datatype gs_color_space_index =
    gs_color_space_index_DeviceGray
  | gs_color_space_index_DeviceRGB
  | gs_color_space_index_DeviceCMYK
  | gs_color_space_index_CIEDEFG
  | gs_color_space_index_CIEDEF
  | gs_color_space_index_CIEABC
  | gs_color_space_index_CIEA
  | gs_color_space_index_ICC
  | gs_color_space_index_Other

text \<open>The declared data colour space of an ICC profile (\<open>gsicc_colorbuffer_t\<close>).\<close>

datatype gsicc_colorbuffer_t =
    gsUNDEFINED | gsGRAY | gsRGB | gsCMYK | gsCIELAB | gsCIEXYZ | gsNCHANNEL | gsNAMED

text \<open>
  \<open>cmm_profile_t\<close>, the fields read here.  \<open>profile_handle\<close> is \<open>True\<close> when the pointer is
  not \<open>NULL\<close>.
\<close>

record cmm_profile_t =
  data_cs :: gsicc_colorbuffer_t
  num_comps :: int
  buffer :: "byte list"
  buffer_size :: nat
  profile_handle :: bool

text \<open>
  \<open>gs_color_space\<close>: the two accessors \<open>gs_color_space_get_index\<close> and
  \<open>gs_color_space_num_components\<close> are fields; \<open>base_space\<close> is \<open>None\<close> for \<open>NULL\<close>, and
  of the space it points to only the index is read.
\<close>

record gs_color_space =
  gs_color_space_get_index :: gs_color_space_index
  gs_color_space_num_components :: int
  cmm_icc_profile_data :: cmm_profile_t
  base_space :: "gs_color_space_index option"

text \<open>The graphics state is opaque to this file.\<close>

datatype gs_gstate = Gs_gstate

text \<open>\<open>cie_cache_one_step_t\<close>.\<close>

datatype cie_cache_one_step_t = ONE_STEP_NOT | ONE_STEP_LMN | ONE_STEP_ABC

text \<open>The error codes that the file itself raises; any other negative code is \<open>gs_error_other\<close>.\<close>

datatype gs_error =
    gs_error_VMerror | gs_error_rangecheck | gs_error_undefined | gs_error_other int

subsection \<open>The output-object graph\<close>

text \<open>
  Values of the output-object graph.  A stream object is held in an array by reference
  (\<open>COS_OBJECT_stream\<close>); its contents are threaded through the functions that write to it.
\<close>

datatype cos_value =
    cos_c_string_value string
  | cos_int_value int
  | cos_real_value real
  | cos_resource_value gs_color_space_index
  | COS_OBJECT_array "cos_value list"
  | COS_OBJECT_dict "(string \<times> cos_value) list"
  | COS_OBJECT_stream

type_synonym cos_array_t = "cos_value list"
type_synonym cos_dict_t = "(string \<times> cos_value) list"

record cos_stream_t =
  cos_stream_dict :: cos_dict_t
  cos_stream_bytes :: "byte list"
  stream_id :: int

text \<open>
  \<open>gx_device_pdf\<close>: the compatibility level, and the state of the collaborators behind the
  device: \<open>pending\<close> scripts the outcome of the next calls into the output-object graph
  (\<open>None\<close> succeeds, \<open>Some e\<close> fails with \<open>e\<close>; an empty script means every call succeeds),
  \<open>next_id\<close> is the next object id, \<open>resources\<close> the chain \<open>resourceOther\<close>, \<open>written\<close>
  the objects written out, \<open>messages\<close> what \<open>emprintf\<close> printed.
\<close>

record gx_device_pdf =
  CompatibilityLevel :: real
  pending :: "gs_error option list"
  next_id :: int
  resources :: "(int \<times> cos_stream_t) list"
  written :: "cos_stream_t list"
  messages :: "string list"

text \<open>
  Collaborators that compute values, none of them among the sources, taken as parameters:
  the colour-management service (\<open>gsicc_...\<close>), the concretization procedures of the
  interpreter (\<open>gx_psconcretize_...\<close>, each giving \<open>xyz_float[3]\<close> for the client colour),
  \<open>pdf_cspace_init_Device\<close> (the index of the device space it makes, \<open>None\<close> if it makes
  none) and the constant \<open>gx_cie_cache_size\<close>.
\<close>

record collaborators =
  gsicc_getprofilevers :: "cmm_profile_t \<Rightarrow> byte \<times> byte"
  gsicc_initialize_default_profile :: "cmm_profile_t \<Rightarrow> cmm_profile_t"
  gsicc_create_getv2buffer :: "gs_gstate \<Rightarrow> cmm_profile_t \<Rightarrow> byte list"
  gx_psconcretize_CIEA :: "real list \<Rightarrow> gs_color_space \<Rightarrow> real list"
  gx_psconcretize_CIEABC :: "real list \<Rightarrow> gs_color_space \<Rightarrow> real list"
  gx_psconcretize_CIEDEF :: "real list \<Rightarrow> gs_color_space \<Rightarrow> real list"
  gx_psconcretize_CIEDEFG :: "real list \<Rightarrow> gs_color_space \<Rightarrow> real list"
  pdf_cspace_init_Device :: "int \<Rightarrow> gs_color_space_index option"
  gx_cie_cache_size :: nat

text \<open>
  Modelled from the spec: the output-object graph is not among the sources; the
  specification gives its contract as "allocate, append bytes, finish" on a growable byte
  stream, "put key, add element" on dictionaries and arrays, and a resource registration,
  where an allocation failure is an error.  \<open>collaborator_call\<close> is the outcome of one
  call into it: the next scripted outcome, or success when the script is empty.
\<close>

definition collaborator_call :: "gx_device_pdf \<Rightarrow> gs_error option \<times> gx_device_pdf" where
  "collaborator_call pdev =
     (case pending pdev of
        [] \<Rightarrow> (None, pdev)
      | r # rs \<Rightarrow> (r, pdev\<lparr>pending := rs\<rparr>))"

text \<open>
  Modelled from the spec: \<open>cos_array_add\<close> (and \<open>cos_array_add_real\<close>, \<open>cos_array_add_object\<close>) of the
  output-object graph, "add element": the value is appended to the array, or the call fails.
\<close>

definition cos_array_add ::
  "gx_device_pdf \<Rightarrow> cos_array_t \<Rightarrow> cos_value \<Rightarrow> (gs_error + unit) \<times> gx_device_pdf \<times> cos_array_t"
where
  "cos_array_add pdev pca val =
     (case collaborator_call pdev of
        (Some e, pdev') \<Rightarrow> (Inl e, pdev', pca)
      | (None, pdev') \<Rightarrow> (Inr (), pdev', pca @ [val]))"

text \<open>
  Modelled from the spec: \<open>cos_array_alloc\<close> of the output-object graph, "allocate": an empty
  array, or a null pointer when the allocation fails.
\<close>

definition cos_array_alloc :: "gx_device_pdf \<Rightarrow> cos_array_t option \<times> gx_device_pdf" where
  "cos_array_alloc pdev =
     (case collaborator_call pdev of
        (Some e, pdev') \<Rightarrow> (None, pdev')
      | (None, pdev') \<Rightarrow> (Some [], pdev'))"

text \<open>
  Modelled from the spec: \<open>cos_dict_alloc\<close> of the output-object graph, "allocate": an empty
  dictionary, or a null pointer when the allocation fails.
\<close>

definition cos_dict_alloc :: "gx_device_pdf \<Rightarrow> cos_dict_t option \<times> gx_device_pdf" where
  "cos_dict_alloc pdev =
     (case collaborator_call pdev of
        (Some e, pdev') \<Rightarrow> (None, pdev')
      | (None, pdev') \<Rightarrow> (Some [], pdev'))"

text \<open>
  Modelled from the spec: \<open>cos_dict_put_c_key\<close> (and its variants for an integer and for an
  object) of the output-object graph, "put key": the pair is added, or the call fails.
\<close>

definition cos_dict_put ::
  "gx_device_pdf \<Rightarrow> cos_dict_t \<Rightarrow> string \<Rightarrow> cos_value \<Rightarrow>
     (gs_error + unit) \<times> gx_device_pdf \<times> cos_dict_t"
where
  "cos_dict_put pdev pcd key val =
     (case collaborator_call pdev of
        (Some e, pdev') \<Rightarrow> (Inl e, pdev', pcd)
      | (None, pdev') \<Rightarrow> (Inr (), pdev', pcd @ [(key, val)]))"

text \<open>
  Modelled from the spec: \<open>cos_stream_alloc\<close> of the output-object graph, "allocate": an empty
  stream with an empty dictionary and no id yet, or a null pointer when the allocation fails.
\<close>

definition cos_stream_alloc :: "gx_device_pdf \<Rightarrow> cos_stream_t option \<times> gx_device_pdf" where
  "cos_stream_alloc pdev =
     (case collaborator_call pdev of
        (Some e, pdev') \<Rightarrow> (None, pdev')
      | (None, pdev') \<Rightarrow>
          (Some \<lparr>cos_stream_dict = [], cos_stream_bytes = [], stream_id = 0\<rparr>, pdev'))"

text \<open>
  Modelled from the spec: \<open>cos_stream_add_bytes(pdev, pcs, data, size)\<close> of the output-object
  graph, "append bytes": the first \<open>size\<close> bytes of \<open>data\<close> (\<open>n\<close> and \<open>dat\<close> below) are
  appended, or the call fails.
\<close>

definition cos_stream_add_bytes ::
  "gx_device_pdf \<Rightarrow> cos_stream_t \<Rightarrow> byte list \<Rightarrow> nat \<Rightarrow>
     (gs_error + unit) \<times> gx_device_pdf \<times> cos_stream_t"
where
  "cos_stream_add_bytes pdev pcstrm dat n =
     (case collaborator_call pdev of
        (Some e, pdev') \<Rightarrow> (Inl e, pdev', pcstrm)
      | (None, pdev') \<Rightarrow>
          (Inr (), pdev', pcstrm\<lparr>cos_stream_bytes := cos_stream_bytes pcstrm @ take n dat\<rparr>))"

text \<open>
  Modelled from the spec: \<open>gx_cie_to_xyz_alloc\<close>, which is not among the sources, allocates the
  graphics state that the concretization needs; the allocation may fail.
\<close>

definition gx_cie_to_xyz_alloc :: "gx_device_pdf \<Rightarrow> (gs_error + gs_gstate) \<times> gx_device_pdf" where
  "gx_cie_to_xyz_alloc pdev =
     (case collaborator_call pdev of
        (Some e, pdev') \<Rightarrow> (Inl e, pdev')
      | (None, pdev') \<Rightarrow> (Inr Gs_gstate, pdev'))"

text \<open>
  Modelled from the spec: \<open>pdf_obj_ref\<close>, which is not among the sources, "assigns a persistent
  identity": it hands out the next object id.
\<close>

definition pdf_obj_ref :: "gx_device_pdf \<Rightarrow> int \<times> gx_device_pdf" where
  "pdf_obj_ref pdev = (next_id pdev, pdev\<lparr>next_id := next_id pdev + 1\<rparr>)"

text \<open>
  Modelled from the spec: \<open>cos_write_object\<close> of the output-object graph, "finish": the object
  is written out, or the call fails.
\<close>

definition cos_write_object ::
  "gx_device_pdf \<Rightarrow> cos_stream_t \<Rightarrow> (gs_error + unit) \<times> gx_device_pdf"
where
  "cos_write_object pdev pcstrm =
     (case collaborator_call pdev of
        (Some e, pdev') \<Rightarrow> (Inl e, pdev')
      | (None, pdev') \<Rightarrow> (Inr (), pdev'\<lparr>written := written pdev' @ [pcstrm]\<rparr>))"

text \<open>
  Modelled from the spec: \<open>pdf_alloc_resource\<close>, which is not among the sources, is the
  "resource-registration call"; together with the assignment \<open>pres->object = pcstrm\<close> that
  follows a successful call, the stream joins the resource chain under the id it has then.
\<close>

definition pdf_alloc_resource ::
  "gx_device_pdf \<Rightarrow> cos_stream_t \<Rightarrow> (gs_error + unit) \<times> gx_device_pdf"
where
  "pdf_alloc_resource pdev pcstrm =
     (case collaborator_call pdev of
        (Some e, pdev') \<Rightarrow> (Inl e, pdev')
      | (None, pdev') \<Rightarrow>
          (Inr (), pdev'\<lparr>resources := resources pdev' @ [(stream_id pcstrm, pcstrm)]\<rparr>))"

text \<open>
  Modelled from the spec: \<open>pdf_color_space_named\<close>, which is not among the sources, yields the
  value that names a colour space, or fails.
\<close>

definition pdf_color_space_named ::
  "gx_device_pdf \<Rightarrow> gs_color_space_index \<Rightarrow> (gs_error + cos_value) \<times> gx_device_pdf"
where
  "pdf_color_space_named pdev pcs_alt =
     (case collaborator_call pdev of
        (Some e, pdev') \<Rightarrow> (Inl e, pdev')
      | (None, pdev') \<Rightarrow> (Inr (cos_resource_value pcs_alt), pdev'))"

text \<open>
  Modelled from the spec: \<open>pdf_finish_cie_space\<close>, which is not among the sources, completes
  a CIE-based space with its dictionary, or fails.
\<close>

definition pdf_finish_cie_space ::
  "gx_device_pdf \<Rightarrow> cos_array_t \<Rightarrow> cos_dict_t \<Rightarrow> (gs_error + unit) \<times> gx_device_pdf \<times> cos_array_t"
where
  "pdf_finish_cie_space pdev pca pcd =
     (case collaborator_call pdev of
        (Some e, pdev') \<Rightarrow> (Inl e, pdev', pca)
      | (None, pdev') \<Rightarrow> (Inr (), pdev', pca @ [COS_OBJECT_dict pcd]))"

text \<open>
  Modelled from the spec: \<open>emprintf\<close>, which is not among the sources, prints a message.
\<close>

definition emprintf :: "gx_device_pdf \<Rightarrow> string \<Rightarrow> gx_device_pdf" where
  "emprintf pdev msg = pdev\<lparr>messages := messages pdev @ [msg]\<rparr>"

subsection \<open>CIE space synthesis\<close>

text \<open>
  \<open>cie_to_xyz\<close>: the arrays \<open>in\<close>, \<open>xyz_float[3]\<close> and \<open>out[3]\<close> are lists; the result is the
  return code (always 0) and \<open>out\<close>.  The \<open>default\<close> case of the switch clears \<open>xyz_float\<close>.
\<close>

definition cie_to_xyz ::
  "collaborators \<Rightarrow> real list \<Rightarrow> gs_color_space \<Rightarrow> gs_cie_common \<Rightarrow> int \<times> real list"
where
  "cie_to_xyz ext inp pcs pciec =
     (let ncomp = gs_color_space_num_components pcs;
          cs_index = gs_color_space_get_index pcs;
          pWhitePoint = points_WhitePoint pciec;
          cc = take (nat ncomp) inp;
          xyz_float0 =
            (case cs_index of
               gs_color_space_index_CIEA \<Rightarrow> gx_psconcretize_CIEA ext cc pcs
             | gs_color_space_index_CIEABC \<Rightarrow> gx_psconcretize_CIEABC ext cc pcs
             | gs_color_space_index_CIEDEF \<Rightarrow> gx_psconcretize_CIEDEF ext cc pcs
             | gs_color_space_index_CIEDEFG \<Rightarrow> gx_psconcretize_CIEDEFG ext cc pcs
             | _ \<Rightarrow> [0, 0, 0]);
          xyz_float =
            (if cs_index = gs_color_space_index_CIEA
             then (xyz_float0[0 := u pWhitePoint * xyz_float0 ! 1])
                    [2 := w pWhitePoint * xyz_float0 ! 1]
             else xyz_float0)
      in (0, [xyz_float ! 0 * 0.9642 / u pWhitePoint,
              xyz_float ! 1,
              xyz_float ! 2 * 0.8249 / w pWhitePoint]))"

text \<open>
  \<open>pdf_cie_add_ranges\<close>: the loop over \<open>prange[0 .. n-1]\<close> stops at the first failing
  \<open>cos_array_add_real\<close>.
\<close>

fun pdf_cie_add_ranges_loop ::
  "gx_device_pdf \<Rightarrow> cos_array_t \<Rightarrow> gs_range list \<Rightarrow> bool \<Rightarrow>
     (gs_error + unit) \<times> gx_device_pdf \<times> cos_array_t"
where
  "pdf_cie_add_ranges_loop pdev pca [] clamp = (Inr (), pdev, pca)"
| "pdf_cie_add_ranges_loop pdev pca (r # rs) clamp =
     (let rmin' = (if clamp \<and> rmin r < 0 then 0 else rmin r);
          rmax' = (if clamp \<and> rmax r > 1 then 1 else rmax r)
      in case cos_array_add pdev pca (cos_real_value rmin') of
           (Inl e, pdev1, pca1) \<Rightarrow> (Inl e, pdev1, pca1)
         | (Inr _, pdev1, pca1) \<Rightarrow>
             (case cos_array_add pdev1 pca1 (cos_real_value rmax') of
                (Inl e, pdev2, pca2) \<Rightarrow> (Inl e, pdev2, pca2)
              | (Inr _, pdev2, pca2) \<Rightarrow> pdf_cie_add_ranges_loop pdev2 pca2 rs clamp))"

definition pdf_cie_add_ranges ::
  "gx_device_pdf \<Rightarrow> cos_dict_t \<Rightarrow> gs_range list \<Rightarrow> nat \<Rightarrow> bool \<Rightarrow>
     (gs_error + unit) \<times> gx_device_pdf \<times> cos_dict_t"
where
  "pdf_cie_add_ranges pdev pcd prange n clamp =
     (case cos_array_alloc pdev of
        (None, pdev0) \<Rightarrow> (Inl gs_error_VMerror, pdev0, pcd)
      | (Some pca, pdev0) \<Rightarrow>
          (case pdf_cie_add_ranges_loop pdev0 pca (take n prange) clamp of
             (Inl e, pdev1, pca1) \<Rightarrow> (Inl e, pdev1, pcd)
           | (Inr _, pdev1, pca1) \<Rightarrow>
               cos_dict_put pdev1 pcd ''/Range'' (COS_OBJECT_array pca1)))"

subsection \<open>Lab space writing and synthesis\<close>

text \<open>\<open>lab_g_inverse\<close>; \<open>pow(v, 1.0 / 3)\<close> is \<open>v powr (1 / 3)\<close>.\<close>

definition lab_g_inverse :: "real \<Rightarrow> real" where
  "lab_g_inverse x =
     (if x \<ge> (6 * 6 * 6) / (29 * 29 * 29) then x powr (1 / 3)
      else x * (841 / 108) + 4 / 29)"

text \<open>
  \<open>lab_g_inverse\<close> as the machine evaluates it, with every rounding of the \<open>double\<close>
  arithmetic written out: \<open>rnd\<close> is the rounding of an exact result to a \<open>double\<close> and
  \<open>pw\<close> is the library function \<open>pow\<close>.  The constants \<open>6.0 * 6.0 * 6.0\<close> and
  \<open>29 * 29 * 29\<close> are computed exactly; the quotients \<open>216.0 / 24389\<close>, \<open>1.0 / 3\<close>,
  \<open>841.0 / 108\<close> and \<open>4.0 / 29\<close>, the product and the sum are rounded.
\<close>

definition lab_g_inverse_fp ::
  "(real \<Rightarrow> real) \<Rightarrow> (real \<Rightarrow> real \<Rightarrow> real) \<Rightarrow> real \<Rightarrow> real"
where
  "lab_g_inverse_fp rnd pw x =
     (if x \<ge> rnd ((6 * 6 * 6) / (29 * 29 * 29)) then pw x (rnd (1 / 3))
      else rnd (rnd (x * rnd (841 / 108)) + rnd (4 / 29)))"

text \<open>
  What the arithmetic of the machine guarantees.  A rounding to the nearest \<open>double\<close> (53
  significant bits) has a relative error of at most \<open>2^-53\<close> on the range of the normal
  numbers; a \<open>pow\<close> that is accurate to one unit in the last place has a relative error
  of at most \<open>2^-52\<close> there.
\<close>

definition double_rounding :: "(real \<Rightarrow> real) \<Rightarrow> bool" where
  "double_rounding rnd \<longleftrightarrow>
     (\<forall>x. 1 / 2 ^ 1022 \<le> \<bar>x\<bar> \<and> \<bar>x\<bar> < 2 ^ 1024 \<longrightarrow> \<bar>rnd x - x\<bar> \<le> \<bar>x\<bar> / 2 ^ 53)"

definition pow_accurate :: "(real \<Rightarrow> real \<Rightarrow> real) \<Rightarrow> bool" where
  "pow_accurate pw \<longleftrightarrow>
     (\<forall>x y. 0 < x \<and> 1 / 2 ^ 1022 \<le> x powr y \<and> x powr y < 2 ^ 1024 \<longrightarrow>
            \<bar>pw x y - x powr y\<bar> \<le> (x powr y) / 2 ^ 52)"

text \<open>
  A rounding to nearest with 53 significant bits (\<open>\<lfloor>log 2 \<bar>x\<bar>\<rfloor>\<close> is the binary exponent of
  \<open>x\<close>; the exponent range is not bounded, and a tie is rounded upwards).
\<close>

definition round_to_double :: "real \<Rightarrow> real" where
  "round_to_double x =
     (if x = 0 then 0
      else real_of_int (round (x / 2 powr (real_of_int \<lfloor>log 2 \<bar>x\<bar>\<rfloor> - 52))) *
           2 powr (real_of_int \<lfloor>log 2 \<bar>x\<bar>\<rfloor> - 52))"

text \<open>
  \<open>xyz_to_lab\<close>: the arrays \<open>xyz[3]\<close> and \<open>lab[3]\<close> are lists of three; the function stores
  \<open>L\<close> in \<open>lab[1]\<close>, \<open>a*\<close> in \<open>lab[0]\<close> and \<open>b*\<close> in \<open>lab[2]\<close>.
\<close>

definition xyz_to_lab :: "real list \<Rightarrow> gs_cie_common \<Rightarrow> real list" where
  "xyz_to_lab xyz pciec =
     (let pWhitePoint = points_WhitePoint pciec;
          L0 = lab_g_inverse (xyz ! 1 / v pWhitePoint) * 116 - 16;
          L = (if L0 < 0 then 0 else if L0 > 100 then 100 else L0);
          lunit = (L + 16) / 116
      in [(lab_g_inverse (xyz ! 0 / u pWhitePoint) - lunit) * 500,
          L,
          (lab_g_inverse (xyz ! 2 / w pWhitePoint) - lunit) * - 200])"

text \<open>
  \<open>lab_range\<close>: the ranges of \<open>lab[1]\<close> and \<open>lab[2]\<close> over the \<open>2^ncomp\<close> corners of the
  input domain.  \<open>range_out[0]\<close> is never written nor read; it is a fixed placeholder here.
\<close>

definition lab_range_corner ::
  "collaborators \<Rightarrow> gs_color_space \<Rightarrow> gs_cie_common \<Rightarrow> gs_range list \<Rightarrow>
     gs_range list \<Rightarrow> nat \<Rightarrow> gs_range list"
where
  "lab_range_corner ext pcs pciec ranges range_out i =
     (let ncomp = gs_color_space_num_components pcs;
          inp = map (\<lambda>j. if bit i j then rmax (ranges ! j) else rmin (ranges ! j))
                  [0 ..< nat ncomp]
      in case cie_to_xyz ext inp pcs pciec of
           (code, xyz) \<Rightarrow>
             if code \<ge> 0
             then (let lab = xyz_to_lab xyz pciec
                   in foldl (\<lambda>ro j. ro[j := \<lparr>rmin = min (rmin (ro ! j)) (lab ! j),
                                             rmax = max (rmax (ro ! j)) (lab ! j)\<rparr>])
                        range_out [1, 2])
             else range_out)"

definition lab_range ::
  "collaborators \<Rightarrow> gx_device_pdf \<Rightarrow> gs_color_space \<Rightarrow> gs_cie_common \<Rightarrow> gs_range list \<Rightarrow>
     (gs_error + gs_range list) \<times> gx_device_pdf"
where
  "lab_range ext pdev pcs pciec ranges =
     (let ncomp = gs_color_space_num_components pcs
      in case gx_cie_to_xyz_alloc pdev of
           (Inl e, pdev') \<Rightarrow> (Inl e, pdev')
         | (Inr pgs, pdev') \<Rightarrow>
             (let range_out0 = [\<lparr>rmin = 0, rmax = 0\<rparr>,
                                \<lparr>rmin = 1000, rmax = - 1000\<rparr>,
                                \<lparr>rmin = 1000, rmax = - 1000\<rparr>]
              in (Inr (foldl (lab_range_corner ext pcs pciec ranges) range_out0
                         [0 ..< 2 ^ nat ncomp]),
                  pdev')))"

text \<open>\<open>pdf_put_lab_color_space\<close>: \<open>ranges + 1\<close> is the array from its second element on.\<close>

definition pdf_put_lab_color_space ::
  "gx_device_pdf \<Rightarrow> cos_array_t \<Rightarrow> cos_dict_t \<Rightarrow> gs_range list \<Rightarrow>
     (gs_error + unit) \<times> gx_device_pdf \<times> cos_array_t \<times> cos_dict_t"
where
  "pdf_put_lab_color_space pdev pca pcd ranges =
     (case cos_array_add pdev pca (cos_c_string_value ''/Lab'') of
        (Inl e, pdev1, pca1) \<Rightarrow> (Inl e, pdev1, pca1, pcd)
      | (Inr _, pdev1, pca1) \<Rightarrow>
          (case pdf_cie_add_ranges pdev1 pcd (drop 1 ranges) 2 False of
             (code, pdev2, pcd2) \<Rightarrow> (code, pdev2, pca1, pcd2)))"

text \<open>
  \<open>pdf_convert_cie_to_lab\<close>: the statement \<open>if (1) return_error(gs_error_rangecheck);\<close>
  stands before the body, which is kept here as the source has it.
\<close>

definition pdf_convert_cie_to_lab ::
  "collaborators \<Rightarrow> gx_device_pdf \<Rightarrow> cos_array_t \<Rightarrow> gs_color_space \<Rightarrow> gs_cie_common \<Rightarrow>
     gs_range list \<Rightarrow> (gs_error + unit) \<times> gx_device_pdf \<times> cos_array_t"
where
  "pdf_convert_cie_to_lab ext pdev pca pcs pciec prange =
     (if True then (Inl gs_error_rangecheck, pdev, pca)
      else
        (case cos_dict_alloc pdev of
           (None, pdev0) \<Rightarrow> (Inl gs_error_VMerror, pdev0, pca)
         | (Some pcd, pdev0) \<Rightarrow>
             (case lab_range ext pdev0 pcs pciec prange of
                (Inl e, pdev1) \<Rightarrow> (Inl e, pdev1, pca)
              | (Inr ranges, pdev1) \<Rightarrow>
                  (case pdf_put_lab_color_space pdev1 pca pcd ranges of
                     (Inl e, pdev2, pca2, pcd2) \<Rightarrow> (Inl e, pdev2, pca2)
                   | (Inr _, pdev2, pca2, pcd2) \<Rightarrow> pdf_finish_cie_space pdev2 pca2 pcd2))))"

subsection \<open>Bytes, big-endian integers and casts\<close>

text \<open>The 8-bit value of a C character.\<close>

definition byte_of_char :: "char \<Rightarrow> byte" where
  "byte_of_char c = word_of_nat (of_char c)"

definition bytes_of_string :: "string \<Rightarrow> byte list" where
  "bytes_of_string s = map byte_of_char s"

text \<open>
  \<open>memcpy(dst + off, src, n)\<close> on arrays as lists: \<open>n\<close> bytes of \<open>src\<close> replace the
  bytes of \<open>dst\<close> from \<open>off\<close> on.
\<close>

definition memcpy :: "byte list \<Rightarrow> nat \<Rightarrow> byte list \<Rightarrow> nat \<Rightarrow> byte list" where
  "memcpy dst off src n = take off dst @ take n src @ drop (off + n) dst"

text \<open>\<open>set_uint32\<close>: the four bytes of a \<open>uint\<close>, most significant first.\<close>

definition set_uint32 :: "uint \<Rightarrow> byte list" where
  "set_uint32 val =
     [ucast (drop_bit 24 val), ucast (drop_bit 16 val), ucast (drop_bit 8 val), ucast val]"

text \<open>
  The reading of four bytes as a big-endian \<open>uint\<close>, which is how a reader of the profile
  decodes what \<open>set_uint32\<close> wrote.
\<close>

definition get_uint32 :: "byte list \<Rightarrow> uint" where
  "get_uint32 bs =
     push_bit 24 (ucast (bs ! 0)) OR push_bit 16 (ucast (bs ! 1)) OR
     push_bit 8 (ucast (bs ! 2)) OR ucast (bs ! 3)"

text \<open>
  The reading of four bytes as a signed fixed-point number with 16 fractional bits, which is
  how a reader of the profile decodes what \<open>set_XYZ\<close> wrote.
\<close>

definition get_s15Fixed16 :: "byte list \<Rightarrow> real" where
  "get_s15Fixed16 bs = real_of_int (sint (get_uint32 bs)) / 65536"

text \<open>The cast \<open>(int)\<close> of a \<open>double\<close>: truncation towards zero.\<close>

definition c_int :: "real \<Rightarrow> int" where
  "c_int r = (if 0 \<le> r then \<lfloor>r\<rfloor> else \<lceil>r\<rceil>)"

text \<open>\<open>set_XYZ\<close>: \<open>set_uint32(bytes, (uint)(int)(value * 65536))\<close>.\<close>

definition set_XYZ :: "real \<Rightarrow> byte list" where
  "set_XYZ val = set_uint32 (word_of_int (c_int (val * 65536)))"

text \<open>\<open>set_sample16\<close>: a 16-bit sample of a value in \<open>[0, 1]\<close>, clamped, big-endian.\<close>

definition set_sample16 :: "real \<Rightarrow> byte list" where
  "set_sample16 r =
     (let value0 = c_int (r * 65535);
          val = (if value0 < 0 then 0 else if value0 > 65535 then 65535 else value0)
      in [word_of_int (val div 256), word_of_int val])"

text \<open>
  Modelled from the spec: the macro \<open>round_up(value, modulus)\<close> is declared in a header that
  is not among the sources; the specification says that a tag's contribution to the offset
  is "its declared length rounded up to the next multiple of 4".  On \<open>uint\<close> the sum
  \<open>value + (modulus - 1)\<close> wraps around like every other \<open>uint\<close> operation.
\<close>

definition round_up :: "uint \<Rightarrow> uint \<Rightarrow> uint" where
  "round_up val modulus = (val + (modulus - 1)) div modulus * modulus"

subsection \<open>ICCBased space writing and synthesis\<close>

text \<open>
  The alternate-space block of \<open>pdf_make_iccbased\<close>: with an alternate space, a device space
  is implicit and any other is named under \<open>/Alternate\<close>; without one, only 1, 3 or 4
  components are accepted.
\<close>

definition pdf_make_iccbased_alternate ::
  "gx_device_pdf \<Rightarrow> cos_stream_t \<Rightarrow> int \<Rightarrow> gs_color_space_index option \<Rightarrow>
     (gs_error + unit) \<times> gx_device_pdf \<times> cos_stream_t"
where
  "pdf_make_iccbased_alternate pdev pcstrm ncomps pcs_alt =
     (case pcs_alt of
        Some gs_color_space_index_DeviceGray \<Rightarrow> (Inr (), pdev, pcstrm)
      | Some gs_color_space_index_DeviceRGB \<Rightarrow> (Inr (), pdev, pcstrm)
      | Some gs_color_space_index_DeviceCMYK \<Rightarrow> (Inr (), pdev, pcstrm)
      | Some alt \<Rightarrow>
          (case pdf_color_space_named pdev alt of
             (Inl e, pdev1) \<Rightarrow> (Inl e, pdev1, pcstrm)
           | (Inr val, pdev1) \<Rightarrow>
               (case cos_dict_put pdev1 (cos_stream_dict pcstrm) ''/Alternate'' val of
                  (code, pdev2, pcd) \<Rightarrow> (code, pdev2, pcstrm\<lparr>cos_stream_dict := pcd\<rparr>)))
      | None \<Rightarrow>
          (if ncomps \<noteq> 1 \<and> ncomps \<noteq> 3 \<and> ncomps \<noteq> 4
           then (Inl gs_error_rangecheck, pdev, pcstrm)
           else (Inr (), pdev, pcstrm)))"

text \<open>
  \<open>pdf_make_iccbased\<close>: on success the new stream is returned (\<open>*ppcstrm\<close>); at \<open>fail\<close> the
  stream is freed and only the code is returned.  The parameters \<open>pgs\<close>, \<open>prange\<close> and
  \<open>pprange\<close> are not used by the body.
\<close>

definition pdf_make_iccbased ::
  "gx_device_pdf \<Rightarrow> cos_array_t \<Rightarrow> int \<Rightarrow> gs_color_space_index option \<Rightarrow>
     (gs_error + cos_stream_t) \<times> gx_device_pdf \<times> cos_array_t"
where
  "pdf_make_iccbased pdev pca ncomps pcs_alt =
     (case cos_array_add pdev pca (cos_c_string_value ''/ICCBased'') of
        (Inl e, pdev1, pca1) \<Rightarrow> (Inl e, pdev1, pca1)
      | (Inr _, pdev1, pca1) \<Rightarrow>
          (case cos_stream_alloc pdev1 of
             (None, pdev2) \<Rightarrow> (Inl gs_error_VMerror, pdev2, pca1)
           | (Some pcstrm, pdev2) \<Rightarrow>
               (case cos_dict_put pdev2 (cos_stream_dict pcstrm) ''/N'' (cos_int_value ncomps) of
                  (Inl e, pdev3, pcd) \<Rightarrow> (Inl e, pdev3, pca1)
                | (Inr _, pdev3, pcd) \<Rightarrow>
                    (case pdf_make_iccbased_alternate pdev3 (pcstrm\<lparr>cos_stream_dict := pcd\<rparr>)
                            ncomps pcs_alt of
                       (Inl e, pdev4, pcstrm4) \<Rightarrow> (Inl e, pdev4, pca1)
                     | (Inr _, pdev4, pcstrm4) \<Rightarrow>
                         (case cos_array_add pdev4 pca1 COS_OBJECT_stream of
                            (Inl e, pdev5, pca5) \<Rightarrow> (Inl e, pdev5, pca5)
                          | (Inr _, pdev5, pca5) \<Rightarrow> (Inr pcstrm4, pdev5, pca5))))))"

text \<open>\<open>pdf_finish_iccbased\<close>: assign an id and write the object out.\<close>

definition pdf_finish_iccbased ::
  "gx_device_pdf \<Rightarrow> cos_stream_t \<Rightarrow> (gs_error + unit) \<times> gx_device_pdf"
where
  "pdf_finish_iccbased pdev pcstrm =
     (case pdf_obj_ref pdev of
        (new_id, pdev1) \<Rightarrow> cos_write_object pdev1 (pcstrm\<lparr>stream_id := new_id\<rparr>))"

text \<open>
  \<open>icc_a2b0_t\<close> and \<open>profile_table_t\<close>.  The function pointer \<open>write\<close> and its argument
  \<open>write_data\<close> are one value: \<open>Write_trc_abc\<close>, \<open>Write_trc_lmn\<close> and \<open>Write_a2b0\<close> stand for
  the three functions, each with the data it is given.  The field \<open>length\<close> is \<open>tbl_length\<close>,
  \<open>write\<close> is \<open>write_proc\<close>, and \<open>pcs\<close> of \<open>icc_a2b0_t\<close> is \<open>a2b0_pcs\<close>.  \<open>ranges\<close> is \<open>None\<close> for \<open>NULL\<close>, and else the
  array from the element it points to on.
\<close>

record icc_a2b0_t =
  header :: "byte list"
  a2b0_pcs :: gs_color_space
  num_points :: int
  count :: int

datatype table_writer =
    Write_trc_abc gs_cie_common
  | Write_trc_lmn gs_cie_common
  | Write_a2b0 icc_a2b0_t

record profile_table_t =
  tag :: string
  data :: "byte list"
  tbl_length :: uint
  data_length :: uint
  write_proc :: "table_writer option"
  ranges :: "gs_range list option"

definition add_table :: "string \<Rightarrow> byte list \<Rightarrow> uint \<Rightarrow> profile_table_t" where
  "add_table tag' data' length' =
     \<lparr>tag = tag', data = data', tbl_length = length', data_length = length',
      write_proc = None, ranges = None\<rparr>"

definition add_table_xyz3 :: "string \<Rightarrow> gs_vector3 \<Rightarrow> profile_table_t" where
  "add_table_xyz3 tag' pv =
     add_table tag'
       (bytes_of_string ''XYZ '' @ [0, 0, 0, 0] @ set_XYZ (u pv) @ set_XYZ (v pv) @ set_XYZ (w pv))
       20"

definition add_trc ::
  "collaborators \<Rightarrow> string \<Rightarrow> gs_cie_common \<Rightarrow> cie_cache_one_step_t \<Rightarrow> profile_table_t"
where
  "add_trc ext tag' pciec one_step =
     (let count' = gx_cie_cache_size ext;
          bytes' = bytes_of_string ''curv'' @ [0, 0, 0, 0] @ set_uint32 (word_of_nat count');
          pnt = add_table tag' bytes' 12
      in pnt\<lparr>tbl_length := tbl_length pnt + word_of_nat (count' * 2),
             write_proc := Some (if one_step = ONE_STEP_ABC then Write_trc_abc pciec
                            else Write_trc_lmn pciec)\<rparr>)"

definition rgb_to_index :: "profile_table_t \<Rightarrow> nat" where
  "rgb_to_index pnt =
     (if tag pnt ! 0 = CHR ''r'' then 0 else if tag pnt ! 0 = CHR ''g'' then 1 else 2)"

definition cache_arg :: "int \<Rightarrow> int \<Rightarrow> gs_range option \<Rightarrow> real" where
  "cache_arg i denom range' =
     (let arg = real_of_int i / real_of_int denom
      in case range' of
           None \<Rightarrow> arg
         | Some r \<Rightarrow> arg * (rmax r - rmin r) + rmin r)"

text \<open>
  \<open>write_trc_abc\<close> and \<open>write_trc_lmn\<close>: \<open>gx_cie_cache_size\<close> samples of one decoding
  procedure; the table's \<open>ranges\<close> points to the one range of its channel.
\<close>

definition trc_samples :: "collaborators \<Rightarrow> (real \<Rightarrow> real) \<Rightarrow> profile_table_t \<Rightarrow> byte list" where
  "trc_samples ext proc pnt =
     concat (map (\<lambda>i. set_sample16
                         (proc (cache_arg (int i) (int (gx_cie_cache_size ext) - 1)
                                  (map_option (\<lambda>rs. rs ! 0) (ranges pnt)))))
               [0 ..< gx_cie_cache_size ext])"

definition write_trc_abc ::
  "collaborators \<Rightarrow> gx_device_pdf \<Rightarrow> cos_stream_t \<Rightarrow> profile_table_t \<Rightarrow> gs_cie_common \<Rightarrow>
     (gs_error + unit) \<times> gx_device_pdf \<times> cos_stream_t"
where
  "write_trc_abc ext pdev pcstrm pnt pabc =
     (let ci = rgb_to_index pnt;
          proc = DecodeABC_procs pabc ! ci
      in cos_stream_add_bytes pdev pcstrm (trc_samples ext proc pnt)
           (gx_cie_cache_size ext * 2))"

definition write_trc_lmn ::
  "collaborators \<Rightarrow> gx_device_pdf \<Rightarrow> cos_stream_t \<Rightarrow> profile_table_t \<Rightarrow> gs_cie_common \<Rightarrow>
     (gs_error + unit) \<times> gx_device_pdf \<times> cos_stream_t"
where
  "write_trc_lmn ext pdev pcstrm pnt pciec =
     (let ci = rgb_to_index pnt;
          proc = DecodeLMN_procs pciec ! ci
      in cos_stream_add_bytes pdev pcstrm (trc_samples ext proc pnt)
           (gx_cie_cache_size ext * 2))"

text \<open>The \<open>a2b0\<close> lookup table.\<close>

definition NUM_IN_ENTRIES :: nat where "NUM_IN_ENTRIES = 2"
definition NUM_OUT_ENTRIES :: nat where "NUM_OUT_ENTRIES = 2"
definition MAX_CLUT_ENTRIES :: real where "MAX_CLUT_ENTRIES = 2500"
definition MAX_ICC_XYZ_VALUE :: real where "MAX_ICC_XYZ_VALUE = 1 + 32767 / 32768"

definition a2b0_data :: "byte list" where
  "a2b0_data =
     bytes_of_string ''mft2'' @
     [0, 0, 0, 0,
      0,
      3,
      0,
      0,
      0, 1, 0, 0,  0, 0, 0, 0,  0, 0, 0, 0,
      0, 0, 0, 0,  0, 1, 0, 0,  0, 0, 0, 0,
      0, 0, 0, 0,  0, 0, 0, 0,  0, 1, 0, 0,
      0, word_of_nat NUM_IN_ENTRIES,
      0, word_of_nat NUM_OUT_ENTRIES]"

text \<open>
  \<open>add_a2b0\<close>: \<open>pow\<close> is \<open>powr\<close>; the callers pass the number of components of a CIE-based
  space, which is at least 1.  The result is \<open>*pa2b\<close> and the table.
\<close>

definition add_a2b0 :: "int \<Rightarrow> gs_color_space \<Rightarrow> icc_a2b0_t \<times> profile_table_t" where
  "add_a2b0 ncomps pcs =
     (let num_points0 = \<lfloor>MAX_CLUT_ENTRIES powr (1 / real_of_int ncomps)\<rfloor>;
          num_points' = min num_points0 255;
          header' = (a2b0_data[8 := word_of_int ncomps])[10 := word_of_int num_points'];
          count' = c_int (real_of_int num_points' powr real_of_int ncomps);
          a2b = \<lparr>header = header', a2b0_pcs = pcs, num_points = num_points', count = count'\<rparr>;
          pnt = add_table ''A2B0'' header'
                  (word_of_int (52 + ncomps * 2 * int NUM_IN_ENTRIES + count' * (3 * 2)
                                 + 3 * 2 * int NUM_OUT_ENTRIES))
      in (a2b, pnt\<lparr>data_length := 52, write_proc := Some (Write_a2b0 a2b)\<rparr>))"

text \<open>
  The inner loop of \<open>write_a2b0\<close> that fills \<open>in[j]\<close> for \<open>j = ncomps - 1\<close> down to 0 while
  \<open>n\<close> is divided by \<open>num_points\<close>; the first argument is \<open>j + 1\<close>.
\<close>

fun a2b0_inputs :: "nat \<Rightarrow> int \<Rightarrow> int \<Rightarrow> gs_range list option \<Rightarrow> real list" where
  "a2b0_inputs 0 n np rs = []"
| "a2b0_inputs (Suc j) n np rs =
     a2b0_inputs j (n div np) np rs @
       [cache_arg (n mod np) (np - 1) (map_option (\<lambda>r. r ! j) rs)]"

definition a2b0_entry ::
  "collaborators \<Rightarrow> profile_table_t \<Rightarrow> icc_a2b0_t \<Rightarrow> gs_cie_common \<Rightarrow> nat \<Rightarrow> byte list"
where
  "a2b0_entry ext pnt pa2b pciec i =
     (let ncomps = uint (header pa2b ! 8);
          inp = a2b0_inputs (nat ncomps) (int i) (num_points pa2b) (ranges pnt);
          xyz = snd (cie_to_xyz ext inp (a2b0_pcs pa2b) pciec)
      in concat (map (\<lambda>j. set_sample16 (xyz ! j / MAX_ICC_XYZ_VALUE)) [0, 1, 2]))"

text \<open>The loop of \<open>write_a2b0\<close> over the entries; it stops at the first write that fails.\<close>

fun write_a2b0_entries ::
  "(nat \<Rightarrow> byte list) \<Rightarrow> gx_device_pdf \<Rightarrow> cos_stream_t \<Rightarrow> nat list \<Rightarrow>
     (gs_error + unit) \<times> gx_device_pdf \<times> cos_stream_t"
where
  "write_a2b0_entries entry pdev pcstrm [] = (Inr (), pdev, pcstrm)"
| "write_a2b0_entries entry pdev pcstrm (i # is) =
     (case cos_stream_add_bytes pdev pcstrm (entry i) 6 of
        (Inl e, pdev1, pcstrm1) \<Rightarrow> (Inl e, pdev1, pcstrm1)
      | (Inr _, pdev1, pcstrm1) \<Rightarrow> write_a2b0_entries entry pdev1 pcstrm1 is)"

definition v01 :: "byte list" where
  "v01 = [0, 0, 255, 255,  0, 0, 255, 255,  0, 0, 255, 255,  0, 0, 255, 255]"

definition write_a2b0 ::
  "collaborators \<Rightarrow> gx_device_pdf \<Rightarrow> cos_stream_t \<Rightarrow> profile_table_t \<Rightarrow> icc_a2b0_t \<Rightarrow>
     gs_cie_common \<Rightarrow> (gs_error + unit) \<times> gx_device_pdf \<times> cos_stream_t"
where
  "write_a2b0 ext pdev pcstrm pnt pa2b pciec =
     (let ncomps = uint (header pa2b ! 8)
      in case cos_stream_add_bytes pdev pcstrm v01 (nat (ncomps * 4)) of
           (Inl e, pdev1, pcstrm1) \<Rightarrow> (Inl e, pdev1, pcstrm1)
         | (Inr _, pdev1, pcstrm1) \<Rightarrow>
             (case gx_cie_to_xyz_alloc pdev1 of
                (Inl e, pdev2) \<Rightarrow> (Inl e, pdev2, pcstrm1)
              | (Inr pgs, pdev2) \<Rightarrow>
                  (case write_a2b0_entries (a2b0_entry ext pnt pa2b pciec) pdev2 pcstrm1
                          [0 ..< nat (count pa2b)] of
                     (Inl e, pdev3, pcstrm3) \<Rightarrow> (Inl e, pdev3, pcstrm3)
                   | (Inr _, pdev3, pcstrm3) \<Rightarrow>
                       cos_stream_add_bytes pdev3 pcstrm3 v01 (3 * 4))))"

text \<open>\<open>adjust_wp\<close>: each component scaled by the ratio of the two white points.\<close>

definition adjust_wp :: "gs_vector3 \<Rightarrow> gs_vector3 \<Rightarrow> gs_vector3 \<Rightarrow> gs_vector3" where
  "adjust_wp color_in wp_in wp_out =
     \<lparr>u = u color_in * u wp_out / u wp_in,
      v = v color_in * v wp_out / v wp_in,
      w = w color_in * w wp_out / w wp_in\<rparr>"

text \<open>The constant data of \<open>pdf_convert_cie_to_iccbased\<close>.\<close>

definition header_data :: "byte list" where
  "header_data =
     [0, 0, 0, 0,
      0, 0, 0, 0,
      0x02, 0x20, 0, 0] @
     bytes_of_string ''scnr'' @
     [0, 0, 0, 0] @
     bytes_of_string ''XYZ '' @
     [word_of_nat (2002 div 256), word_of_nat (2002 mod 256), 0, 1, 0, 1,
      0, 0, 0, 0, 0, 0] @
     bytes_of_string ''acsp'' @
     [0, 0, 0, 0,
      0, 0, 0, 3,
      0, 0, 0, 0, 0, 0, 0, 0,
      0, 0, 0, 0,
      0, 0, 0, 0, 0, 0, 0, 2]"

definition DESC_LENGTH :: nat where "DESC_LENGTH = 5"

definition desc_data :: "byte list" where
  "desc_data =
     bytes_of_string ''desc'' @
     [0, 0, 0, 0,
      0, 0, 0, word_of_nat (DESC_LENGTH + 1)] @
     bytes_of_string ''adhoc'' @ [0]"

definition cprt_data :: "byte list" where
  "cprt_data = bytes_of_string ''text'' @ [0, 0, 0, 0] @ bytes_of_string ''none'' @ [0]"

definition white_d50 :: gs_vector3 where
  "white_d50 = \<lparr>u = 0.9642, v = 1.0, w = 0.8249\<rparr>"

text \<open>
  The tables that \<open>pdf_convert_cie_to_iccbased\<close> constructs, in the order of the array
  \<open>tables\<close>: \<open>desc\<close>, \<open>wtpt\<close>, \<open>cprt\<close>, and then either the three curves and the three
  adjusted matrix columns, or the lookup table.  \<open>pmat\<close> is \<open>None\<close> for a null pointer and
  \<open>pprange\<close> is the value of \<open>*pprange\<close>.
\<close>

definition iccbased_tables ::
  "collaborators \<Rightarrow> gs_color_space \<Rightarrow> gs_cie_common \<Rightarrow> cie_cache_one_step_t \<Rightarrow>
     gs_matrix3 option \<Rightarrow> gs_range list option \<Rightarrow> profile_table_t list"
where
  "iccbased_tables ext pcs pciec one_step pmat pprange =
     (let ncomps = gs_color_space_num_components pcs;
          desc = memcpy (replicate (12 + DESC_LENGTH + 1 + 11 + 67) 0) 0 desc_data
                   (length desc_data);
          tables3 = [add_table ''desc'' desc (word_of_nat (length desc)),
                     add_table_xyz3 ''wtpt'' white_d50,
                     add_table ''cprt'' cprt_data (word_of_nat (length cprt_data))]
      in case (if one_step = ONE_STEP_ABC \<or> one_step = ONE_STEP_LMN then pmat else None) of
           Some mat \<Rightarrow>
             (let tr = add_trc ext ''rTRC'' pciec one_step;
                  tg = add_trc ext ''gTRC'' pciec one_step;
                  tb = add_trc ext ''bTRC'' pciec one_step;
                  trc = (case pprange of
                           None \<Rightarrow> [tr, tg, tb]
                         | Some rs \<Rightarrow> [tr\<lparr>ranges := Some rs\<rparr>,
                                       tg\<lparr>ranges := Some (drop 1 rs)\<rparr>,
                                       tb\<lparr>ranges := Some (drop 2 rs)\<rparr>])
              in tables3 @ trc @
                 [add_table_xyz3 ''rXYZ'' (adjust_wp (cu mat) (points_WhitePoint pciec) white_d50),
                  add_table_xyz3 ''gXYZ'' (adjust_wp (cv mat) (points_WhitePoint pciec) white_d50),
                  add_table_xyz3 ''bXYZ'' (adjust_wp (cw mat) (points_WhitePoint pciec) white_d50)])
         | None \<Rightarrow>
             (let pnt = snd (add_a2b0 ncomps pcs)
              in tables3 @ [pnt\<lparr>ranges := pprange\<rparr>]))"

text \<open>
  The header before the total size is known: zeros, \<open>header_data\<close>, the data colour space
  name at 16 and, at 68, the twelve bytes of the white point tag from its offset 8.
\<close>

definition iccbased_header :: "string \<Rightarrow> profile_table_t list \<Rightarrow> byte list" where
  "iccbased_header dcsname tables =
     (let header0 = memcpy (replicate 128 0) 0 header_data (length header_data);
          header1 = memcpy header0 16 (bytes_of_string dcsname) 4;
          wtpt = data (tables ! 1)
      in memcpy header1 68 (drop 8 wtpt) 12)"

text \<open>
  The loop that fills the tag directory: for each table its four-character tag
  (\<open>memcpy(p, tables[i].tag, 4)\<close>, here \<open>tag_bytes\<close>), the running offset and the declared
  length; the offset advances by the length rounded up to 4.  The result is the directory
  entries and the final offset.
\<close>

definition tag_bytes :: "profile_table_t \<Rightarrow> byte list" where
  "tag_bytes t = map (\<lambda>k. byte_of_char (tag t ! k)) [0, 1, 2, 3]"

fun profile_directory :: "profile_table_t list \<Rightarrow> uint \<Rightarrow> byte list \<times> uint" where
  "profile_directory [] offset = ([], offset)"
| "profile_directory (t # ts) offset =
     (case profile_directory ts (offset + round_up (tbl_length t) 4) of
        (entries, offset') \<Rightarrow>
          (tag_bytes t @ set_uint32 offset @ set_uint32 (tbl_length t) @ entries, offset'))"

text \<open>A call through the function pointer \<open>write\<close>.\<close>

definition call_write ::
  "collaborators \<Rightarrow> gx_device_pdf \<Rightarrow> cos_stream_t \<Rightarrow> profile_table_t \<Rightarrow> table_writer \<Rightarrow>
     gs_cie_common \<Rightarrow> (gs_error + unit) \<times> gx_device_pdf \<times> cos_stream_t"
where
  "call_write ext pdev pcstrm pnt wr pciec =
     (case wr of
        Write_trc_abc pabc \<Rightarrow> write_trc_abc ext pdev pcstrm pnt pabc
      | Write_trc_lmn pc \<Rightarrow> write_trc_lmn ext pdev pcstrm pnt pc
      | Write_a2b0 pa2b \<Rightarrow> write_a2b0 ext pdev pcstrm pnt pa2b pciec)"

text \<open>
  The loop that writes the tables: the literal bytes, the writer's output if there is a
  writer, and \<open>-(int)length & 3\<close> zero bytes of padding.
\<close>

fun write_tables ::
  "collaborators \<Rightarrow> gx_device_pdf \<Rightarrow> cos_stream_t \<Rightarrow> profile_table_t list \<Rightarrow> gs_cie_common \<Rightarrow>
     (gs_error + unit) \<times> gx_device_pdf \<times> cos_stream_t"
where
  "write_tables ext pdev pcstrm [] pciec = (Inr (), pdev, pcstrm)"
| "write_tables ext pdev pcstrm (t # ts) pciec =
     (case cos_stream_add_bytes pdev pcstrm (data t) (unat (data_length t)) of
        (Inl e, pdev1, pcstrm1) \<Rightarrow> (Inl e, pdev1, pcstrm1)
      | (Inr _, pdev1, pcstrm1) \<Rightarrow>
          (case (case write_proc t of
                   None \<Rightarrow> (Inr (), pdev1, pcstrm1)
                 | Some wr \<Rightarrow> call_write ext pdev1 pcstrm1 t wr pciec) of
             (Inl e, pdev2, pcstrm2) \<Rightarrow> (Inl e, pdev2, pcstrm2)
           | (Inr _, pdev2, pcstrm2) \<Rightarrow>
               (case cos_stream_add_bytes pdev2 pcstrm2 [0, 0, 0]
                       (unat ((- tbl_length t) AND 3)) of
                  (Inl e, pdev3, pcstrm3) \<Rightarrow> (Inl e, pdev3, pcstrm3)
                | (Inr _, pdev3, pcstrm3) \<Rightarrow> write_tables ext pdev3 pcstrm3 ts pciec)))"

text \<open>
  The block of \<open>pdf_convert_cie_to_iccbased\<close> under the comment \<open>Write the profile\<close>,
  for the header and the tables that the function has built by then: the directory is the
  table count followed by the entries of the loop, which starts at the offset
  \<open>sizeof(header) + table_size\<close>; the final offset is stored in the first four bytes of
  the header; then the header (128 bytes), the directory (\<open>table_size\<close> bytes) and the
  tables are added to the stream.
\<close>

definition write_profile ::
  "collaborators \<Rightarrow> gx_device_pdf \<Rightarrow> cos_stream_t \<Rightarrow> byte list \<Rightarrow> profile_table_t list \<Rightarrow>
     gs_cie_common \<Rightarrow> (gs_error + unit) \<times> gx_device_pdf \<times> cos_stream_t"
where
  "write_profile ext pdev pcstrm header0 tables pciec =
     (let num_tables = length tables;
          table_size = 4 + word_of_nat num_tables * 12;
          directory = profile_directory tables (128 + table_size);
          bytes' = set_uint32 (word_of_nat num_tables) @ fst directory;
          header' = memcpy header0 0 (set_uint32 (snd directory)) 4
      in case cos_stream_add_bytes pdev pcstrm header' 128 of
           (Inl e, pdev2, pcstrm2) \<Rightarrow> (Inl e, pdev2, pcstrm2)
         | (Inr _, pdev2, pcstrm2) \<Rightarrow>
             (case cos_stream_add_bytes pdev2 pcstrm2 bytes' (unat table_size) of
                (Inl e, pdev3, pcstrm3) \<Rightarrow> (Inl e, pdev3, pcstrm3)
              | (Inr _, pdev3, pcstrm3) \<Rightarrow> write_tables ext pdev3 pcstrm3 tables pciec))"

text \<open>
  \<open>pdf_convert_cie_to_iccbased\<close>.  The parameter \<open>prange\<close> is only handed to
  \<open>pdf_make_iccbased\<close>, which does not use it.
\<close>

definition pdf_convert_cie_to_iccbased ::
  "collaborators \<Rightarrow> gx_device_pdf \<Rightarrow> cos_array_t \<Rightarrow> gs_color_space \<Rightarrow> string \<Rightarrow>
     gs_cie_common \<Rightarrow> cie_cache_one_step_t \<Rightarrow> gs_matrix3 option \<Rightarrow> gs_range list option \<Rightarrow>
     (gs_error + unit) \<times> gx_device_pdf \<times> cos_array_t"
where
  "pdf_convert_cie_to_iccbased ext pdev pca pcs dcsname pciec one_step pmat pprange =
     (let ncomps = gs_color_space_num_components pcs;
          alt_space = pdf_cspace_init_Device ext ncomps
      in case pdf_make_iccbased pdev pca ncomps alt_space of
           (Inl e, pdev1, pca1) \<Rightarrow> (Inl e, pdev1, pca1)
         | (Inr pcstrm, pdev1, pca1) \<Rightarrow>
             (let tables = iccbased_tables ext pcs pciec one_step pmat pprange;
                  header0 = iccbased_header dcsname tables
              in case write_profile ext pdev1 pcstrm header0 tables pciec of
                   (Inl e, pdev4, pcstrm4) \<Rightarrow> (Inl e, pdev4, pca1)
                 | (Inr _, pdev4, pcstrm4) \<Rightarrow>
                     (case pdf_finish_iccbased pdev4 pcstrm4 of
                        (code, pdev5) \<Rightarrow> (code, pdev5, pca1))))"

text \<open>
  What the writers hand to the stream when no write fails (the theorems below say so): the
  output of a writer, the output for one table (literal bytes, writer output, padding), and
  the whole profile (header with the total size, directory, tables).
\<close>

definition writer_output ::
  "collaborators \<Rightarrow> profile_table_t \<Rightarrow> table_writer \<Rightarrow> gs_cie_common \<Rightarrow> byte list"
where
  "writer_output ext pnt wr pciec =
     (case wr of
        Write_trc_abc pabc \<Rightarrow>
          take (gx_cie_cache_size ext * 2)
            (trc_samples ext (DecodeABC_procs pabc ! rgb_to_index pnt) pnt)
      | Write_trc_lmn pc \<Rightarrow>
          take (gx_cie_cache_size ext * 2)
            (trc_samples ext (DecodeLMN_procs pc ! rgb_to_index pnt) pnt)
      | Write_a2b0 pa2b \<Rightarrow>
          take (nat (uint (header pa2b ! 8) * 4)) v01 @
          concat (map (a2b0_entry ext pnt pa2b pciec) [0 ..< nat (count pa2b)]) @
          take 12 v01)"

definition table_output :: "collaborators \<Rightarrow> gs_cie_common \<Rightarrow> profile_table_t \<Rightarrow> byte list" where
  "table_output ext pciec t =
     take (unat (data_length t)) (data t) @
     (case write_proc t of None \<Rightarrow> [] | Some wr \<Rightarrow> writer_output ext t wr pciec) @
     take (unat ((- tbl_length t) AND 3)) [0, 0, 0]"

definition iccbased_profile ::
  "collaborators \<Rightarrow> gs_color_space \<Rightarrow> string \<Rightarrow> gs_cie_common \<Rightarrow> cie_cache_one_step_t \<Rightarrow>
     gs_matrix3 option \<Rightarrow> gs_range list option \<Rightarrow> byte list"
where
  "iccbased_profile ext pcs dcsname pciec one_step pmat pprange =
     (let tables = iccbased_tables ext pcs pciec one_step pmat pprange;
          table_size = 4 + word_of_nat (length tables) * 12;
          directory = profile_directory tables (128 + table_size)
      in take 128 (memcpy (iccbased_header dcsname tables) 0 (set_uint32 (snd directory)) 4) @
         take (unat table_size) (set_uint32 (word_of_nat (length tables)) @ fst directory) @
         concat (map (table_output ext pciec) tables))"

subsection \<open>Entry points\<close>

text \<open>
  The decision of \<open>pdf_iccbased_color_space\<close> whether the colour-management service must
  produce an earlier version of the profile; \<open>major\<close> and \<open>minor\<close> are what
  \<open>gsicc_getprofilevers\<close> stored, \<open>minor\<close> already shifted right by 4.
\<close>

definition downgrade_icc :: "real \<Rightarrow> byte \<Rightarrow> byte \<Rightarrow> bool" where
  "downgrade_icc level major minor =
     (if level < 1.5 then major > 2
      else if level = 1.5 then major > 4 \<or> minor > 0
      else if level = 1.6 then major > 4 \<or> minor > 1
      else major > 4 \<or> minor > 2)"

text \<open>The message that \<open>pdf_iccbased_color_space\<close> prints for a profile it cannot embed.\<close>

definition unsuitable_profile_message :: string where
  "unsuitable_profile_message =
     [CHR 0x0A] @
     '' An ICC profile which is not suitable for use in PDF has been identified.'' @ [CHR 0x0A] @
     '' All colours using this profile will be converted into device space'' @ [CHR 0x0A] @
     '' instead and the profile will not be used.'' @ [CHR 0x0A]"

text \<open>
  The end of \<open>pdf_iccbased_color_space\<close>, after the bytes have been handed to the stream with
  result \<open>code\<close>: the stream joins the resource chain (whatever \<open>code\<close> is), and is finished
  if \<open>code\<close> is not an error.
\<close>

definition pdf_iccbased_register ::
  "(gs_error + unit) \<times> gx_device_pdf \<times> cos_stream_t \<Rightarrow> cos_array_t \<Rightarrow>
     (gs_error + unit) \<times> gx_device_pdf \<times> cos_array_t"
where
  "pdf_iccbased_register streamed pca =
     (case streamed of
        (code, pdev2, pcstrm2) \<Rightarrow>
          (case pdf_alloc_resource pdev2 pcstrm2 of
             (code1, pdev3) \<Rightarrow>
               (case code of
                  Inl e \<Rightarrow> (Inl e, pdev3, pca)
                | Inr _ \<Rightarrow>
                    (case pdf_finish_iccbased pdev3 pcstrm2 of
                       (code', pdev4) \<Rightarrow> (code', pdev4, pca)))))"

text \<open>
  \<open>pdf_iccbased_color_space\<close>; \<open>pgs\<close> is \<open>None\<close> for a null pointer.  The parameter \<open>pvalue\<close>
  is not used by the body.
\<close>

definition pdf_iccbased_color_space ::
  "collaborators \<Rightarrow> gx_device_pdf \<Rightarrow> gs_gstate option \<Rightarrow> gs_color_space \<Rightarrow> cos_array_t \<Rightarrow>
     (gs_error + unit) \<times> gx_device_pdf \<times> cos_array_t"
where
  "pdf_iccbased_color_space ext pdev pgs pcs pca =
     (let profile = cmm_icc_profile_data pcs;
          embeddable =
            (case data_cs profile of
               gsCIEXYZ \<Rightarrow> True
             | gsCIELAB \<Rightarrow> True
             | gsRGB \<Rightarrow> True
             | gsGRAY \<Rightarrow> True
             | gsCMYK \<Rightarrow> True
             | gsUNDEFINED \<Rightarrow> False
             | gsNCHANNEL \<Rightarrow> False
             | gsNAMED \<Rightarrow> False)
      in if \<not> embeddable
         then (Inl gs_error_rangecheck, emprintf pdev unsuitable_profile_message, pca)
         else
           (case pdf_make_iccbased pdev pca (num_comps profile) (base_space pcs) of
              (Inl e, pdev1, pca1) \<Rightarrow> (Inl e, pdev1, pca1)
            | (Inr pcstrm, pdev1, pca1) \<Rightarrow>
                (let major = fst (gsicc_getprofilevers ext profile);
                     minor = drop_bit 4 (snd (gsicc_getprofilevers ext profile))
                 in if CompatibilityLevel pdev1 < 1.3
                    then (Inl gs_error_rangecheck, pdev1, pca1)
                    else if downgrade_icc (CompatibilityLevel pdev1) major minor
                    then
                      (case pgs of
                         None \<Rightarrow> (Inl gs_error_undefined, pdev1, pca1)
                       | Some gs \<Rightarrow>
                           (let profile' =
                                  (if \<not> profile_handle profile
                                   then gsicc_initialize_default_profile ext profile
                                   else profile);
                                v2_buffer = gsicc_create_getv2buffer ext gs profile'
                            in pdf_iccbased_register
                                 (cos_stream_add_bytes pdev1 pcstrm v2_buffer (length v2_buffer))
                                 pca1))
                    else
                      pdf_iccbased_register
                        (cos_stream_add_bytes pdev1 pcstrm (buffer profile) (buffer_size profile))
                        pca1)))"

text \<open>\<open>pdf_convert_cie_space\<close>: convert a CIE-based space to Lab or ICCBased.\<close>

definition pdf_convert_cie_space ::
  "collaborators \<Rightarrow> gx_device_pdf \<Rightarrow> cos_array_t \<Rightarrow> gs_color_space \<Rightarrow> string \<Rightarrow>
     gs_cie_common \<Rightarrow> gs_range list \<Rightarrow> cie_cache_one_step_t \<Rightarrow> gs_matrix3 option \<Rightarrow>
     gs_range list option \<Rightarrow> (gs_error + unit) \<times> gx_device_pdf \<times> cos_array_t"
where
  "pdf_convert_cie_space ext pdev pca pcs dcsname pciec prange one_step pmat pprange =
     (if CompatibilityLevel pdev < 1.3
      then pdf_convert_cie_to_lab ext pdev pca pcs pciec prange
      else pdf_convert_cie_to_iccbased ext pdev pca pcs dcsname pciec one_step pmat pprange)"

text \<open>The first two tables of every synthesized profile: the description and the white point.\<close>

definition desc_table :: profile_table_t where
  "desc_table = add_table ''desc'' (memcpy (replicate 96 0) 0 desc_data 18) 96"

definition wtpt_table :: profile_table_t where
  "wtpt_table = add_table_xyz3 ''wtpt'' white_d50"

subsection \<open>Concrete inputs\<close>

text \<open>
  Inputs for the examples below.  \<open>ext0\<close> reads the version of a profile from bytes 8 and 9 of
  its buffer, concretizes a CIEBasedA value \<open>a\<close> to \<open>Y = a\<close> and passes multi-channel values
  through, and has the cache size 512.
\<close>

definition ext0 :: collaborators where
  "ext0 =
     \<lparr>gsicc_getprofilevers = (\<lambda>p. (buffer p ! 8, buffer p ! 9)),
      gsicc_initialize_default_profile = (\<lambda>p. p\<lparr>profile_handle := True\<rparr>),
      gsicc_create_getv2buffer = (\<lambda>gs p. take 8 (buffer p) @ [2, 0x20, 0, 0]),
      gx_psconcretize_CIEA = (\<lambda>cc pcs. [0, cc ! 0, 0]),
      gx_psconcretize_CIEABC = (\<lambda>cc pcs. cc),
      gx_psconcretize_CIEDEF = (\<lambda>cc pcs. cc),
      gx_psconcretize_CIEDEFG = (\<lambda>cc pcs. take 3 cc),
      pdf_cspace_init_Device =
        (\<lambda>n. if n = 1 then Some gs_color_space_index_DeviceGray
             else if n = 3 then Some gs_color_space_index_DeviceRGB
             else if n = 4 then Some gs_color_space_index_DeviceCMYK
             else None),
      gx_cie_cache_size = 512\<rparr>"

text \<open>A device at a compatibility level, with every collaborator call succeeding.\<close>

definition pdev0 :: "real \<Rightarrow> gx_device_pdf" where
  "pdev0 level =
     \<lparr>CompatibilityLevel = level, pending = [], next_id = 1, resources = [], written = [],
      messages = []\<rparr>"

text \<open>A twelve-byte profile buffer with a data colour space and the two version bytes.\<close>

definition profile0 :: "gsicc_colorbuffer_t \<Rightarrow> byte \<Rightarrow> byte \<Rightarrow> cmm_profile_t" where
  "profile0 cs major minor =
     \<lparr>data_cs = cs, num_comps = 3,
      buffer = [0, 0, 0, 12, 0, 0, 0, 0, major, minor, 0, 0], buffer_size = 12,
      profile_handle = True\<rparr>"

definition cs0 :: "gs_color_space_index \<Rightarrow> int \<Rightarrow> cmm_profile_t \<Rightarrow> gs_color_space" where
  "cs0 idx n p =
     \<lparr>gs_color_space_get_index = idx, gs_color_space_num_components = n,
      cmm_icc_profile_data = p, base_space = None\<rparr>"

text \<open>A CIE description with a white point and identity decoding procedures.\<close>

definition cie0 :: "real \<Rightarrow> real \<Rightarrow> real \<Rightarrow> gs_cie_common" where
  "cie0 a b c =
     \<lparr>points_WhitePoint = \<lparr>u = a, v = b, w = c\<rparr>,
      DecodeLMN_procs = [\<lambda>r. r, \<lambda>r. r, \<lambda>r. r],
      DecodeABC_procs = [\<lambda>r. r, \<lambda>r. r, \<lambda>r. r]\<rparr>"

text \<open>Three tables with the declared lengths 96, 20 and 13.\<close>

definition tables3 :: "profile_table_t list" where
  "tables3 =
     [add_table ''desc'' (replicate 96 0) 96,
      add_table_xyz3 ''wtpt'' white_d50,
      add_table ''cprt'' cprt_data 13]"

section \<open>Properties\<close>

subsection \<open>The piecewise cube root\<close>

lemma cube_powr_third: "0 \<le> x \<Longrightarrow> (x ^ 3) powr (1 / 3) = (x::real)"
proof (cases "x = 0")
  case True
  then show ?thesis by simp
next
  case False
  assume "0 \<le> x"
  with False have pos: "0 < x" by simp
  have "(x ^ 3) powr (1 / 3) = (x powr 3) powr (1 / 3)"
    using powr_realpow [OF pos, of 3] by simp
  also have "\<dots> = x powr 1"
    by (simp add: powr_powr)
  finally show ?thesis using pos by simp
qed

lemma lab_g_inverse_0: "lab_g_inverse 0 = 4 / 29"
  by (simp add: lab_g_inverse_def)

lemma lab_g_inverse_1: "lab_g_inverse 1 = 1"
  by (simp add: lab_g_inverse_def)

lemma lab_g_inverse_8: "lab_g_inverse 8 = 2"
proof -
  have "((2::real) ^ 3) powr (1 / 3) = 2"
    by (rule cube_powr_third) simp
  then show ?thesis by (simp add: lab_g_inverse_def)
qed

lemma linear_branch_at_breakpoint: "((6 / 29) ^ 3 :: real) * (841 / 108) + 4 / 29 = 6 / 29"
  by (simp add: power3_eq_cube)

lemma lab_g_inverse_at_breakpoint: "lab_g_inverse ((6 / 29) ^ 3) = 6 / 29"
  using cube_powr_third [of "6 / 29"] by (simp add: lab_g_inverse_def power3_eq_cube)

lemma lab_g_inverse_continuous_left: "continuous (at_left ((6 / 29) ^ 3)) lab_g_inverse"
proof -
  let ?c = "(6 / 29) ^ 3 :: real"
  have ev: "\<forall>\<^sub>F x in at_left ?c. x * (841 / 108) + 4 / 29 = lab_g_inverse x"
  proof -
    have "\<forall>\<^sub>F x in at_left ?c. x \<in> {0<..<?c}"
      by (rule eventually_at_left_real) simp
    then show ?thesis
      by (rule eventually_mono) (auto simp: lab_g_inverse_def power3_eq_cube)
  qed
  have "((\<lambda>x. x * (841 / 108) + 4 / 29) \<longlongrightarrow> ?c * (841 / 108) + 4 / 29) (at_left ?c)"
    by (intro tendsto_intros)
  then have "(lab_g_inverse \<longlongrightarrow> ?c * (841 / 108) + 4 / 29) (at_left ?c)"
    using tendsto_cong [OF ev] by blast
  then show ?thesis
    by (simp only: continuous_within lab_g_inverse_at_breakpoint linear_branch_at_breakpoint)
qed

lemma lab_g_inverse_continuous_right: "continuous (at_right ((6 / 29) ^ 3)) lab_g_inverse"
proof -
  let ?c = "(6 / 29) ^ 3 :: real"
  have ev: "\<forall>\<^sub>F x in at_right ?c. x powr (1 / 3) = lab_g_inverse x"
  proof -
    have "\<forall>\<^sub>F x in at_right ?c. x \<in> {?c<..<1}"
      by (rule eventually_at_right_real) (simp add: power3_eq_cube)
    then show ?thesis
      by (rule eventually_mono) (auto simp: lab_g_inverse_def power3_eq_cube)
  qed
  have "((\<lambda>x. x powr (1 / 3)) \<longlongrightarrow> ?c powr (1 / 3)) (at_right ?c)"
    by (intro tendsto_intros) simp_all
  then have "(lab_g_inverse \<longlongrightarrow> ?c powr (1 / 3)) (at_right ?c)"
    using tendsto_cong [OF ev] by blast
  moreover have "?c powr (1 / 3) = 6 / 29"
    by (rule cube_powr_third) simp
  ultimately show ?thesis
    by (simp only: continuous_within lab_g_inverse_at_breakpoint)
qed

subsection \<open>The piecewise cube root in double arithmetic\<close>

text \<open>The error of one rounding, for values between \<open>1/512\<close> and \<open>512\<close>.\<close>

lemma normal_range:
  assumes "1 / 512 \<le> (y::real)" "y \<le> 512"
  shows "1 / 2 ^ 1022 \<le> \<bar>y\<bar> \<and> \<bar>y\<bar> < 2 ^ 1024"
proof -
  have "(1::real) / 2 ^ 1022 \<le> 1 / 2 ^ 9"
    by (intro divide_left_mono power_increasing) simp_all
  moreover have "(2::real) ^ 9 < 2 ^ 1024"
    by (rule power_strict_increasing) simp_all
  ultimately show ?thesis using assms by simp
qed

lemma rnd_step:
  assumes R: "double_rounding rnd"
    and d: "\<bar>y - z\<bar> \<le> e" and lo: "1 / 512 \<le> z - e" and hi: "z + e \<le> 512"
  shows "\<bar>rnd y - z\<bar> \<le> e + (z + e) / 2 ^ 53"
proof -
  from d have y: "z - e \<le> y" "y \<le> z + e" by (simp_all add: abs_le_iff)
  with lo hi have r: "1 / 512 \<le> y" "y \<le> 512" by simp_all
  from normal_range [OF r] R have "\<bar>rnd y - y\<bar> \<le> \<bar>y\<bar> / 2 ^ 53"
    unfolding double_rounding_def by blast
  moreover have "\<bar>y\<bar> / 2 ^ 53 \<le> (z + e) / 2 ^ 53"
    using r y by (simp add: divide_right_mono)
  ultimately show ?thesis using d by linarith
qed

lemma rnd_const:
  assumes R: "double_rounding rnd" and "1 / 512 \<le> z" "z \<le> 512"
  shows "\<bar>rnd z - z\<bar> \<le> z / 2 ^ 53"
  using rnd_step [OF R, of z z 0] assms by simp

lemma exp_5_lower: "113 \<le> exp (5 :: real)"
proof -
  have "(1 + 5 / 64 :: real) \<le> exp (5 / 64)"
    by (rule exp_ge_add_one_self)
  then have "(1 + 5 / 64 :: real) ^ 64 \<le> exp (5 / 64) ^ 64"
    by (rule power_mono) simp
  also have "\<dots> = exp (of_nat 64 * (5 / 64 :: real))"
    by (rule exp_of_nat_mult [symmetric])
  also have "\<dots> = exp 5" by simp
  finally have "(1 + 5 / 64 :: real) ^ 64 \<le> exp 5" .
  moreover have "(113 :: real) \<le> (1 + 5 / 64) ^ 64" by (simp add: power_divide)
  ultimately show ?thesis by linarith
qed

lemma ln_range:
  assumes "1 / 113 \<le> (x::real)" "x \<le> 1"
  shows "- 5 \<le> ln x" "ln x \<le> 0"
proof -
  have pos: "0 < x" using assms by simp
  have "exp (- 5 :: real) \<le> 1 / 113"
    using exp_5_lower by (simp add: exp_minus field_simps)
  then have "exp (- 5) \<le> x" using assms by linarith
  then show "- 5 \<le> ln x" using pos by (simp add: ln_ge_iff)
  show "ln x \<le> 0" using assms pos by simp
qed

lemma powr_small_exponent:
  assumes x: "1 / 113 \<le> (x::real)" "x \<le> 1" and d: "\<bar>d\<bar> \<le> 1 / 25"
  shows "1 - 5 * \<bar>d\<bar> \<le> x powr d" "x powr d \<le> 1 + 6 * \<bar>d\<bar>"
proof -
  have pos: "0 < x" using x by simp
  note l = ln_range [OF x]
  have m: "\<bar>d * ln x\<bar> \<le> 5 * \<bar>d\<bar>"
  proof -
    have "\<bar>d * ln x\<bar> = \<bar>d\<bar> * \<bar>ln x\<bar>" by (rule abs_mult)
    also have "\<dots> \<le> \<bar>d\<bar> * 5"
      by (rule mult_left_mono) (use l in simp_all)
    finally show ?thesis by simp
  qed
  have e: "x powr d = exp (d * ln x)" using pos by (simp add: powr_def)
  have "1 + d * ln x \<le> exp (d * ln x)" by (rule exp_ge_add_one_self)
  with m show "1 - 5 * \<bar>d\<bar> \<le> x powr d" unfolding e by linarith
  have "exp (d * ln x) \<le> exp (5 * \<bar>d\<bar>)" using m by simp
  also have "\<dots> \<le> 1 + 5 * \<bar>d\<bar> + (5 * \<bar>d\<bar>)\<^sup>2"
    by (rule exp_bound) (use d in simp_all)
  also have "\<dots> \<le> 1 + 6 * \<bar>d\<bar>"
  proof -
    have "(5 * \<bar>d\<bar>)\<^sup>2 = 25 * \<bar>d\<bar> * \<bar>d\<bar>" by (simp add: power2_eq_square)
    also have "\<dots> \<le> 25 * \<bar>d\<bar> * (1 / 25)"
      by (rule mult_left_mono) (use d in simp_all)
    finally show ?thesis by simp
  qed
  finally show "x powr d \<le> 1 + 6 * \<bar>d\<bar>" unfolding e .
qed

text \<open>The linear branch near the breakpoint lies within \<open>0.78 * 2^-53\<close> of \<open>6/29\<close>.\<close>

lemma product_error:
  assumes "\<bar>x\<bar> \<le> X" "\<bar>a - A\<bar> \<le> ea" "\<bar>x - t\<bar> \<le> et" "0 \<le> A"
  shows "\<bar>x * a - t * A\<bar> \<le> X * ea + A * (et :: real)"
proof -
  have X: "0 \<le> X" using assms(1) abs_ge_zero [of x] by linarith
  have "x * a - t * A = x * (a - A) + A * (x - t)" by (simp add: algebra_simps)
  then have "\<bar>x * a - t * A\<bar> \<le> \<bar>x * (a - A)\<bar> + \<bar>A * (x - t)\<bar>"
    by (simp only: abs_triangle_ineq)
  also have "\<bar>x * (a - A)\<bar> = \<bar>x\<bar> * \<bar>a - A\<bar>" by (rule abs_mult)
  also have "\<bar>A * (x - t)\<bar> = A * \<bar>x - t\<bar>" using assms(4) by (simp add: abs_mult)
  finally have "\<bar>x * a - t * A\<bar> \<le> \<bar>x\<bar> * \<bar>a - A\<bar> + A * \<bar>x - t\<bar>" .
  moreover have "\<bar>x\<bar> * \<bar>a - A\<bar> \<le> X * ea"
    by (rule mult_mono) (use assms X in simp_all)
  moreover have "A * \<bar>x - t\<bar> \<le> A * et"
    by (rule mult_left_mono) (use assms in simp_all)
  ultimately show ?thesis by linarith
qed

lemma linear_branch_error:
  assumes R: "double_rounding rnd"
    and x: "\<bar>x - 216 / 24389\<bar> \<le> 4 * (216 / 24389) / 2 ^ 53"
  shows "\<bar>rnd (rnd (x * rnd (841 / 108)) + rnd (4 / 29)) - 6 / 29\<bar> \<le> (78 / 100) / 2 ^ 53"
proof -
  define a where "a = rnd (841 / 108)"
  have a: "\<bar>a - 841 / 108\<bar> \<le> (841 / 108) / 2 ^ 53"
    unfolding a_def by (rule rnd_const [OF R]) simp_all
  have "4 * (216 / 24389) / 2 ^ 53 \<le> (1 / 1000 :: real)" by simp
  with x have xb: "\<bar>x\<bar> \<le> 1 / 100" by linarith
  have t: "(216 / 24389) * (841 / 108) = (2 / 29 :: real)" by simp
  have "(1 / 100) * ((841 / 108) / 2 ^ 53) + (841 / 108) * (4 * (216 / 24389) / 2 ^ 53)
          \<le> ((36 / 100) / 2 ^ 53 :: real)"
    by simp
  from order_trans [OF product_error [OF xb a x] this]
  have p: "\<bar>x * a - 2 / 29\<bar> \<le> (36 / 100) / 2 ^ 53"
    unfolding t by simp
  have "(36 / 100) / 2 ^ 53 + (2 / 29 + (36 / 100) / 2 ^ 53) / 2 ^ 53
          \<le> ((43 / 100) / 2 ^ 53 :: real)"
    by simp
  from order_trans [OF rnd_step [OF R p] this]
  have q: "\<bar>rnd (x * a) - 2 / 29\<bar> \<le> (43 / 100) / 2 ^ 53"
    by simp
  have b: "\<bar>rnd (4 / 29) - 4 / 29\<bar> \<le> (4 / 29) / 2 ^ 53"
    by (rule rnd_const [OF R]) simp_all
  have "(43 / 100) / 2 ^ 53 + (4 / 29) / 2 ^ 53 \<le> ((57 / 100) / 2 ^ 53 :: real)"
    by simp
  with q b have s: "\<bar>(rnd (x * a) + rnd (4 / 29)) - 6 / 29\<bar> \<le> (57 / 100) / 2 ^ 53"
    by linarith
  have "(57 / 100) / 2 ^ 53 + (6 / 29 + (57 / 100) / 2 ^ 53) / 2 ^ 53
          \<le> ((78 / 100) / 2 ^ 53 :: real)"
    by simp
  from order_trans [OF rnd_step [OF R s] this]
  show ?thesis unfolding a_def by simp
qed

text \<open>
  The cube-root branch at the breakpoint as the machine computes it lies within
  \<open>0.96 * 2^-53\<close> of \<open>6/29\<close>.
\<close>

lemma product_bounds:
  assumes "a1 \<le> A" "A \<le> a2" "b1 \<le> B" "B \<le> b2" "0 \<le> a1" "0 \<le> (b1::real)"
  shows "a1 * b1 \<le> A * B" "A * B \<le> a2 * b2"
proof -
  show "a1 * b1 \<le> A * B" by (rule mult_mono) (use assms in simp_all)
  show "A * B \<le> a2 * b2" by (rule mult_mono) (use assms in simp_all)
qed

lemma cube_root_near_breakpoint:
  assumes c: "\<bar>c - 216 / 24389\<bar> \<le> (216 / 24389) / 2 ^ 53"
  shows "(6 / 29) * (1 - (1 / 2) / 2 ^ 53) \<le> (c::real) powr (1 / 3)"
    and "c powr (1 / 3) \<le> (6 / 29) * (1 + (1 / 2) / 2 ^ 53)"
proof -
  let ?lo = "(6 / 29) * (1 - (1 / 2) / 2 ^ 53) :: real"
  let ?hi = "(6 / 29) * (1 + (1 / 2) / 2 ^ 53) :: real"
  have lo3: "?lo ^ 3 \<le> 216 / 24389 - (216 / 24389) / 2 ^ 53"
    by (simp add: power3_eq_cube)
  have hi3: "216 / 24389 + (216 / 24389) / 2 ^ 53 \<le> ?hi ^ 3"
    by (simp add: power3_eq_cube)
  from c lo3 have l: "?lo ^ 3 \<le> c" by linarith
  from c hi3 have h: "c \<le> ?hi ^ 3" by linarith
  have lo0: "0 \<le> ?lo" by simp
  have hi0: "0 \<le> ?hi" by simp
  have c0: "0 \<le> c" using l zero_le_power [OF lo0, of 3] by linarith
  have "(?lo ^ 3) powr (1 / 3) \<le> c powr (1 / 3)"
    by (rule powr_mono2) (use l lo0 in simp_all)
  then show "?lo \<le> c powr (1 / 3)"
    by (simp only: cube_powr_third [OF lo0])
  have "c powr (1 / 3) \<le> (?hi ^ 3) powr (1 / 3)"
    by (rule powr_mono2) (use h c0 in simp_all)
  then show "c powr (1 / 3) \<le> ?hi"
    by (simp only: cube_powr_third [OF hi0])
qed

lemma cube_branch_error:
  assumes R: "double_rounding rnd" and P: "pow_accurate pw"
  shows "\<bar>pw (rnd (216 / 24389)) (rnd (1 / 3)) - 6 / 29\<bar> \<le> (96 / 100) / 2 ^ 53"
proof -
  define c where "c = rnd (216 / 24389)"
  define e3 where "e3 = rnd (1 / 3)"
  define d where "d = e3 - 1 / 3"
  have c: "\<bar>c - 216 / 24389\<bar> \<le> (216 / 24389) / 2 ^ 53"
    unfolding c_def by (rule rnd_const [OF R]) simp_all
  have e3: "\<bar>d\<bar> \<le> (1 / 3) / 2 ^ 53"
    unfolding d_def e3_def by (rule rnd_const [OF R]) simp_all
  have "(216 / 24389) / 2 ^ 53 \<le> (1 / 1000000 :: real)" by simp
  with c have cr: "1 / 113 \<le> c" "c \<le> 1" by linarith+
  have "(1 / 3) / 2 ^ 53 \<le> (1 / 25 :: real)" by simp
  with e3 have d25: "\<bar>d\<bar> \<le> 1 / 25" by linarith
  note A = cube_root_near_breakpoint [OF c]
  note B0 = powr_small_exponent [OF cr d25]
  have B: "1 - (5 / 3) / 2 ^ 53 \<le> c powr d" "c powr d \<le> 1 + 2 / 2 ^ 53"
    using B0 e3 by linarith+
  have split: "c powr e3 = c powr (1 / 3) * c powr d"
    unfolding d_def by (simp add: powr_add [symmetric])
  have a0: "0 \<le> (6 / 29) * (1 - (1 / 2) / 2 ^ 53 :: real)" by simp
  have b0: "0 \<le> (1 - (5 / 3) / 2 ^ 53 :: real)" by simp
  note Q = product_bounds [OF A B a0 b0]
  have n1: "6 / 29 - (54 / 100) / 2 ^ 53
              \<le> (6 / 29) * (1 - (1 / 2) / 2 ^ 53) * (1 - (5 / 3) / 2 ^ 53 :: real)"
    by simp
  have n2: "(6 / 29) * (1 + (1 / 2) / 2 ^ 53) * (1 + 2 / 2 ^ 53)
              \<le> (6 / 29 + (54 / 100) / 2 ^ 53 :: real)"
    by simp
  from Q n1 n2 have P0: "\<bar>c powr e3 - 6 / 29\<bar> \<le> (54 / 100) / 2 ^ 53"
    unfolding split by linarith
  have n3: "(1 / 512 :: real) \<le> 6 / 29 - (54 / 100) / 2 ^ 53"
           "6 / 29 + (54 / 100) / 2 ^ 53 \<le> (512 :: real)"
    by simp_all
  from P0 n3 have rg: "1 / 512 \<le> c powr e3" "c powr e3 \<le> 512" by linarith+
  have cpos: "0 < c" using cr by simp
  from normal_range [OF rg] have "1 / 2 ^ 1022 \<le> c powr e3 \<and> c powr e3 < 2 ^ 1024"
    by simp
  with P cpos have pe: "\<bar>pw c e3 - c powr e3\<bar> \<le> (c powr e3) / 2 ^ 52"
    unfolding pow_accurate_def by blast
  have "(c powr e3) / 2 ^ 52 \<le> (6 / 29 + (54 / 100) / 2 ^ 53) / 2 ^ 52"
    by (rule divide_right_mono) (use P0 in linarith, simp)
  moreover have "(6 / 29 + (54 / 100) / 2 ^ 53) / 2 ^ 52 \<le> ((42 / 100) / 2 ^ 53 :: real)"
    by simp
  ultimately have "\<bar>pw c e3 - c powr e3\<bar> \<le> (42 / 100) / 2 ^ 53"
    using pe by linarith
  moreover have "(42 / 100) / 2 ^ 53 + (54 / 100) / 2 ^ 53 = ((96 / 100) / 2 ^ 53 :: real)"
    by simp
  ultimately show ?thesis using P0 unfolding c_def e3_def by linarith
qed

text \<open>\<open>round_to_double\<close> is a rounding as \<open>double_rounding\<close> requires.\<close>

lemma round_to_double_error: "\<bar>round_to_double x - x\<bar> \<le> \<bar>x\<bar> / 2 ^ 53"
proof (cases "x = 0")
  case True
  then show ?thesis by (simp add: round_to_double_def)
next
  case False
  define e where "e = \<lfloor>log 2 \<bar>x\<bar>\<rfloor>"
  define s where "s = 2 powr (real_of_int e - 52)"
  have s0: "0 < s" by (simp add: s_def)
  have rd: "round_to_double x = real_of_int (round (x / s)) * s"
    using False by (simp add: round_to_double_def s_def e_def)
  have "round_to_double x - x = (real_of_int (round (x / s)) - x / s) * s"
    using s0 by (simp add: rd algebra_simps)
  then have "\<bar>round_to_double x - x\<bar> = \<bar>real_of_int (round (x / s)) - x / s\<bar> * s"
    using s0 by (simp add: abs_mult)
  also have "\<dots> \<le> (1 / 2) * s"
    by (rule mult_right_mono) (use s0 of_int_round_abs_le [of "x / s"] in simp_all)
  finally have a: "\<bar>round_to_double x - x\<bar> \<le> (1 / 2) * s" .
  have "real_of_int e \<le> log 2 \<bar>x\<bar>" by (simp add: e_def)
  then have "2 powr real_of_int e \<le> 2 powr log 2 \<bar>x\<bar>" by simp
  also have "\<dots> = \<bar>x\<bar>" using False by simp
  finally have b: "2 powr real_of_int e \<le> \<bar>x\<bar>" .
  have "s = 2 powr real_of_int e / 2 powr 52" by (simp add: s_def powr_diff)
  also have "(2::real) powr 52 = 2 ^ 52" by (simp add: powr_numeral)
  finally have "(1 / 2) * s = 2 powr real_of_int e / 2 ^ 53" by simp
  also have "\<dots> \<le> \<bar>x\<bar> / 2 ^ 53" using b by (simp add: divide_right_mono)
  finally show ?thesis using a by linarith
qed

lemma double_rounding_round_to_double: "double_rounding round_to_double"
  unfolding double_rounding_def by (intro allI impI) (rule round_to_double_error)

lemma pow_accurate_round_to_double: "pow_accurate (\<lambda>x y. round_to_double (x powr y))"
  unfolding pow_accurate_def
proof (intro allI impI)
  fix x y :: real
  assume "0 < x \<and> 1 / 2 ^ 1022 \<le> x powr y \<and> x powr y < 2 ^ 1024"
  then have p: "0 < x powr y" by simp
  have "\<bar>round_to_double (x powr y) - x powr y\<bar> \<le> \<bar>x powr y\<bar> / 2 ^ 53"
    by (rule round_to_double_error)
  moreover have "\<bar>x powr y\<bar> / 2 ^ 53 \<le> (x powr y) / 2 ^ 52"
    using p by (simp add: field_simps)
  ultimately show "\<bar>round_to_double (x powr y) - x powr y\<bar> \<le> (x powr y) / 2 ^ 52"
    by linarith
qed

lemma lab_g_inverse_fp_near_breakpoint:
  assumes R: "double_rounding rnd" and P: "pow_accurate pw"
  shows "let t = rnd ((6 * 6 * 6) / (29 * 29 * 29));
             cube = pw t (rnd (1 / 3));
             linear = rnd (rnd (t * rnd (841 / 108)) + rnd (4 / 29))
         in lab_g_inverse_fp rnd pw t = cube \<and>
            \<bar>cube - 6 / 29\<bar> \<le> 1 / 2 ^ 53 \<and>
            \<bar>linear - 6 / 29\<bar> \<le> 1 / 2 ^ 53 \<and>
            \<bar>cube - linear\<bar> \<le> 1 / 2 ^ 52 \<and>
            (\<forall>x. t * (1 - 1 / 2 ^ 52) \<le> x \<and> x < t \<longrightarrow>
                 lab_g_inverse_fp rnd pw x = rnd (rnd (x * rnd (841 / 108)) + rnd (4 / 29)) \<and>
                 \<bar>lab_g_inverse_fp rnd pw x - lab_g_inverse_fp rnd pw t\<bar> \<le> 1 / 2 ^ 52)"
proof -
  define t where "t = rnd (216 / 24389)"
  define cube where "cube = pw t (rnd (1 / 3))"
  define lin where "lin = (\<lambda>x. rnd (rnd (x * rnd (841 / 108)) + rnd (4 / 29)))"
  have t: "\<bar>t - 216 / 24389\<bar> \<le> (216 / 24389) / 2 ^ 53"
    unfolding t_def by (rule rnd_const [OF R]) simp_all
  have c1: "lab_g_inverse_fp rnd pw t = cube"
    by (simp add: lab_g_inverse_fp_def t_def cube_def)
  have ce: "\<bar>cube - 6 / 29\<bar> \<le> (96 / 100) / 2 ^ 53"
    unfolding cube_def t_def by (rule cube_branch_error [OF R P])
  have n0: "(216 / 24389) / 2 ^ 53 \<le> (4 * (216 / 24389) / 2 ^ 53 :: real)" by simp
  have le: "\<bar>lin x - 6 / 29\<bar> \<le> (78 / 100) / 2 ^ 53"
    if "\<bar>x - 216 / 24389\<bar> \<le> 4 * (216 / 24389) / 2 ^ 53" for x
    unfolding lin_def by (rule linear_branch_error [OF R that])
  have n1: "(96 / 100) / 2 ^ 53 \<le> (1 / 2 ^ 53 :: real)"
    "(78 / 100) / 2 ^ 53 \<le> (1 / 2 ^ 53 :: real)"
    "(96 / 100) / 2 ^ 53 + (78 / 100) / 2 ^ 53 \<le> (1 / 2 ^ 52 :: real)"
    by simp_all
  have c2: "\<bar>cube - 6 / 29\<bar> \<le> 1 / 2 ^ 53" using ce n1 by linarith
  have lt: "\<bar>lin t - 6 / 29\<bar> \<le> (78 / 100) / 2 ^ 53"
    by (rule le) (use t n0 in linarith)
  have c3: "\<bar>lin t - 6 / 29\<bar> \<le> 1 / 2 ^ 53" using lt n1 by linarith
  have c4: "\<bar>cube - lin t\<bar> \<le> 1 / 2 ^ 52" using ce lt n1 by linarith
  have c5: "\<forall>x. t * (1 - 1 / 2 ^ 52) \<le> x \<and> x < t \<longrightarrow>
                 lab_g_inverse_fp rnd pw x = lin x \<and>
                 \<bar>lab_g_inverse_fp rnd pw x - lab_g_inverse_fp rnd pw t\<bar> \<le> 1 / 2 ^ 52"
  proof (intro allI impI, elim conjE)
    fix x assume lo: "t * (1 - 1 / 2 ^ 52) \<le> x" and hi: "x < t"
    have b: "lab_g_inverse_fp rnd pw x = lin x"
      using hi by (simp add: lab_g_inverse_fp_def t_def lin_def)
    have tl: "216 / 24389 - (216 / 24389) / 2 ^ 53 \<le> t" "t \<le> 216 / 24389 + (216 / 24389) / 2 ^ 53"
      using t by linarith+
    have tpos: "0 \<le> t"
    proof -
      have "(0::real) \<le> 216 / 24389 - (216 / 24389) / 2 ^ 53" by simp
      with tl show ?thesis by linarith
    qed
    have "(216 / 24389 - (216 / 24389) / 2 ^ 53) * (1 - 1 / 2 ^ 52) \<le> t * (1 - 1 / 2 ^ 52)"
      by (rule mult_right_mono) (use tl in simp_all)
    moreover have "216 / 24389 - 4 * (216 / 24389) / 2 ^ 53
                     \<le> (216 / 24389 - (216 / 24389) / 2 ^ 53) * (1 - 1 / 2 ^ 52 :: real)"
      by simp
    ultimately have "216 / 24389 - 4 * (216 / 24389) / 2 ^ 53 \<le> x" using lo by linarith
    moreover have "x \<le> 216 / 24389 + 4 * (216 / 24389) / 2 ^ 53"
      using hi tl n0 by linarith
    ultimately have "\<bar>x - 216 / 24389\<bar> \<le> 4 * (216 / 24389) / 2 ^ 53" by linarith
    from le [OF this] ce n1 have "\<bar>lin x - cube\<bar> \<le> 1 / 2 ^ 52" by linarith
    with b c1 show "lab_g_inverse_fp rnd pw x = lin x \<and>
                 \<bar>lab_g_inverse_fp rnd pw x - lab_g_inverse_fp rnd pw t\<bar> \<le> 1 / 2 ^ 52"
      by simp
  qed
  have eq: "((6 * 6 * 6) / (29 * 29 * 29) :: real) = 216 / 24389" by simp
  from c1 c2 c3 c4 c5 show ?thesis
    unfolding Let_def eq lin_def cube_def t_def
    by (intro conjI) assumption+
qed

lemma lab_g_inverse_fp_exact: "lab_g_inverse_fp (\<lambda>r. r) (powr) x = lab_g_inverse x"
  by (simp add: lab_g_inverse_fp_def lab_g_inverse_def)

text \<open>
  Claim C9.  In exact arithmetic \<open>lab_g_inverse\<close> is the cube root from \<open>(6/29)^3\<close> on and
  the linear function below it; at the breakpoint \<open>t = (6/29)^3\<close> the cube-root branch yields
  \<open>6/29\<close> and the linear branch yields \<open>(6/29)^3 * 841/108 + 4/29\<close>, which is \<open>6/29\<close> as
  well, so the function takes the value \<open>6/29\<close> there and is continuous at the breakpoint.
  In the arithmetic of the machine (\<open>lab_g_inverse_fp\<close>, which without rounding is
  \<open>lab_g_inverse\<close>): for every rounding to the nearest \<open>double\<close> and every \<open>pow\<close> that is
  accurate to one unit in the last place, at the breakpoint as the machine computes it,
  \<open>t = rnd (216 / 24389)\<close>, the function takes the cube-root branch; the values of the two
  branches there lie within \<open>2^-53\<close> of \<open>6/29\<close> and within \<open>2^-52\<close>, the machine epsilon of
  a \<open>double\<close>, of each other; and just below the breakpoint, from \<open>t * (1 - 2^-52)\<close> on,
  the function takes the linear branch and its value lies within \<open>2^-52\<close> of its value at
  the breakpoint.
\<close>

theorem lab_g_inverse_breakpoint:
  "(\<forall>x. x \<ge> (6 / 29) ^ 3 \<longrightarrow> lab_g_inverse x = x powr (1 / 3)) \<and>
   (\<forall>x. x < (6 / 29) ^ 3 \<longrightarrow> lab_g_inverse x = x * (841 / 108) + 4 / 29) \<and>
   ((6 / 29) ^ 3) powr (1 / 3) = (6 / 29 :: real) \<and>
   ((6 / 29) ^ 3 :: real) * (841 / 108) + 4 / 29 = 6 / 29 \<and>
   lab_g_inverse ((6 / 29) ^ 3) = 6 / 29 \<and>
   isCont lab_g_inverse ((6 / 29) ^ 3) \<and>
   (\<forall>x. lab_g_inverse_fp (\<lambda>r. r) (powr) x = lab_g_inverse x) \<and>
   (\<forall>rnd pw. double_rounding rnd \<and> pow_accurate pw \<longrightarrow>
      (let t = rnd ((6 * 6 * 6) / (29 * 29 * 29));
           cube = pw t (rnd (1 / 3));
           linear = rnd (rnd (t * rnd (841 / 108)) + rnd (4 / 29))
       in lab_g_inverse_fp rnd pw t = cube \<and>
          \<bar>cube - 6 / 29\<bar> \<le> 1 / 2 ^ 53 \<and>
          \<bar>linear - 6 / 29\<bar> \<le> 1 / 2 ^ 53 \<and>
          \<bar>cube - linear\<bar> \<le> 1 / 2 ^ 52 \<and>
          (\<forall>x. t * (1 - 1 / 2 ^ 52) \<le> x \<and> x < t \<longrightarrow>
               lab_g_inverse_fp rnd pw x = rnd (rnd (x * rnd (841 / 108)) + rnd (4 / 29)) \<and>
               \<bar>lab_g_inverse_fp rnd pw x - lab_g_inverse_fp rnd pw t\<bar> \<le> 1 / 2 ^ 52)))"
proof -
  have c1: "\<forall>x. x \<ge> (6 / 29) ^ 3 \<longrightarrow> lab_g_inverse x = x powr (1 / 3)"
    by (simp add: lab_g_inverse_def power3_eq_cube)
  have c2: "\<forall>x. x < (6 / 29) ^ 3 \<longrightarrow> lab_g_inverse x = x * (841 / 108) + 4 / 29"
    by (simp add: lab_g_inverse_def power3_eq_cube)
  have c3: "((6 / 29) ^ 3) powr (1 / 3) = (6 / 29 :: real)"
    by (rule cube_powr_third) simp
  note c4 = linear_branch_at_breakpoint
  note c5 = lab_g_inverse_at_breakpoint
  have c6: "isCont lab_g_inverse ((6 / 29) ^ 3)"
    using lab_g_inverse_continuous_left lab_g_inverse_continuous_right continuous_at_split
    by blast
  have c7: "\<forall>x. lab_g_inverse_fp (\<lambda>r. r) (powr) x = lab_g_inverse x"
    by (simp add: lab_g_inverse_fp_exact)
  have c8: "\<forall>rnd pw. double_rounding rnd \<and> pow_accurate pw \<longrightarrow>
      (let t = rnd ((6 * 6 * 6) / (29 * 29 * 29));
           cube = pw t (rnd (1 / 3));
           linear = rnd (rnd (t * rnd (841 / 108)) + rnd (4 / 29))
       in lab_g_inverse_fp rnd pw t = cube \<and>
          \<bar>cube - 6 / 29\<bar> \<le> 1 / 2 ^ 53 \<and>
          \<bar>linear - 6 / 29\<bar> \<le> 1 / 2 ^ 53 \<and>
          \<bar>cube - linear\<bar> \<le> 1 / 2 ^ 52 \<and>
          (\<forall>x. t * (1 - 1 / 2 ^ 52) \<le> x \<and> x < t \<longrightarrow>
               lab_g_inverse_fp rnd pw x = rnd (rnd (x * rnd (841 / 108)) + rnd (4 / 29)) \<and>
               \<bar>lab_g_inverse_fp rnd pw x - lab_g_inverse_fp rnd pw t\<bar> \<le> 1 / 2 ^ 52))"
    by (intro allI impI, elim conjE) (rule lab_g_inverse_fp_near_breakpoint)
  from c1 c2 c3 c4 c5 c6 c7 c8 show ?thesis by (intro conjI)
qed

text \<open>
  The inputs \<open>8\<close> and \<open>0\<close> on the two sides of the breakpoint, and the arithmetic with the
  rounding \<open>round_to_double\<close> and the correctly rounded power.
\<close>

theorem lab_g_inverse_breakpoint_witness:
  "(8::real) \<ge> (6 / 29) ^ 3 \<and> lab_g_inverse 8 = 8 powr (1 / 3) \<and> lab_g_inverse 8 = 2 \<and>
   (0::real) < (6 / 29) ^ 3 \<and> lab_g_inverse 0 = 0 * (841 / 108) + 4 / 29 \<and>
   double_rounding round_to_double \<and>
   pow_accurate (\<lambda>x y. round_to_double (x powr y)) \<and>
   lab_g_inverse_fp round_to_double (\<lambda>x y. round_to_double (x powr y))
       (round_to_double ((6 * 6 * 6) / (29 * 29 * 29)))
     = round_to_double (round_to_double ((6 * 6 * 6) / (29 * 29 * 29)) powr
         round_to_double (1 / 3)) \<and>
   \<bar>round_to_double (round_to_double ((6 * 6 * 6) / (29 * 29 * 29)) powr
        round_to_double (1 / 3)) -
    round_to_double (round_to_double (round_to_double ((6 * 6 * 6) / (29 * 29 * 29)) *
        round_to_double (841 / 108)) + round_to_double (4 / 29))\<bar> \<le> 1 / 2 ^ 52 \<and>
   round_to_double ((6 * 6 * 6) / (29 * 29 * 29)) * (1 - 1 / 2 ^ 52)
     < round_to_double ((6 * 6 * 6) / (29 * 29 * 29)) \<and>
   \<bar>lab_g_inverse_fp round_to_double (\<lambda>x y. round_to_double (x powr y))
        (round_to_double ((6 * 6 * 6) / (29 * 29 * 29)) * (1 - 1 / 2 ^ 52)) -
    lab_g_inverse_fp round_to_double (\<lambda>x y. round_to_double (x powr y))
        (round_to_double ((6 * 6 * 6) / (29 * 29 * 29)))\<bar> \<le> 1 / 2 ^ 52"
proof -
  note t = lab_g_inverse_breakpoint
  from t have a: "\<forall>x. x \<ge> (6 / 29) ^ 3 \<longrightarrow> lab_g_inverse x = x powr (1 / 3)"
    by (elim conjE)
  from t have b: "\<forall>x. x < (6 / 29) ^ 3 \<longrightarrow> lab_g_inverse x = x * (841 / 108) + 4 / 29"
    by (elim conjE)
  have h8: "(8::real) \<ge> (6 / 29) ^ 3" by (simp add: power3_eq_cube)
  have h0: "(0::real) < (6 / 29) ^ 3" by simp
  note a8 = a [rule_format, OF h8]
  note b0 = b [rule_format, OF h0]
  note R = double_rounding_round_to_double
  note P = pow_accurate_round_to_double
  from t have "\<forall>rnd pw. double_rounding rnd \<and> pow_accurate pw \<longrightarrow>
      (let t = rnd ((6 * 6 * 6) / (29 * 29 * 29));
           cube = pw t (rnd (1 / 3));
           linear = rnd (rnd (t * rnd (841 / 108)) + rnd (4 / 29))
       in lab_g_inverse_fp rnd pw t = cube \<and>
          \<bar>cube - 6 / 29\<bar> \<le> 1 / 2 ^ 53 \<and>
          \<bar>linear - 6 / 29\<bar> \<le> 1 / 2 ^ 53 \<and>
          \<bar>cube - linear\<bar> \<le> 1 / 2 ^ 52 \<and>
          (\<forall>x. t * (1 - 1 / 2 ^ 52) \<le> x \<and> x < t \<longrightarrow>
               lab_g_inverse_fp rnd pw x = rnd (rnd (x * rnd (841 / 108)) + rnd (4 / 29)) \<and>
               \<bar>lab_g_inverse_fp rnd pw x - lab_g_inverse_fp rnd pw t\<bar> \<le> 1 / 2 ^ 52))"
    by (elim conjE)
  note f = this [rule_format, OF conjI [OF R P], unfolded Let_def]
  from f have f1: "lab_g_inverse_fp round_to_double (\<lambda>x y. round_to_double (x powr y))
       (round_to_double ((6 * 6 * 6) / (29 * 29 * 29)))
     = round_to_double (round_to_double ((6 * 6 * 6) / (29 * 29 * 29)) powr
         round_to_double (1 / 3))"
    by (elim conjE)
  from f have f2: "\<bar>round_to_double (round_to_double ((6 * 6 * 6) / (29 * 29 * 29)) powr
        round_to_double (1 / 3)) -
    round_to_double (round_to_double (round_to_double ((6 * 6 * 6) / (29 * 29 * 29)) *
        round_to_double (841 / 108)) + round_to_double (4 / 29))\<bar> \<le> 1 / 2 ^ 52"
    by (elim conjE)
  let ?T = "round_to_double ((6 * 6 * 6) / (29 * 29 * 29))"
  let ?f = "lab_g_inverse_fp round_to_double (\<lambda>x y. round_to_double (x powr y))"
  from f have f3: "\<forall>x. ?T * (1 - 1 / 2 ^ 52) \<le> x \<and> x < ?T \<longrightarrow>
      ?f x = round_to_double (round_to_double (x * round_to_double (841 / 108)) +
               round_to_double (4 / 29)) \<and>
      \<bar>?f x - ?f ?T\<bar> \<le> 1 / 2 ^ 52"
    by (elim conjE)
  have Tpos: "0 < ?T"
  proof -
    have "\<bar>?T - (6 * 6 * 6) / (29 * 29 * 29)\<bar> \<le> \<bar>(6 * 6 * 6) / (29 * 29 * 29)\<bar> / 2 ^ 53"
      by (rule round_to_double_error)
    moreover have "\<bar>(6 * 6 * 6) / (29 * 29 * 29)\<bar> / 2 ^ 53 < ((6 * 6 * 6) / (29 * 29 * 29) :: real)"
      by simp
    ultimately show ?thesis by linarith
  qed
  have h: "?T * (1 - 1 / 2 ^ 52) < ?T"
  proof -
    have "?T * (1 - 1 / 2 ^ 52) < ?T * 1"
      by (rule mult_strict_left_mono [OF _ Tpos]) simp
    then show ?thesis by simp
  qed
  from f3 [rule_format, OF conjI [OF order_refl h]]
  have f4: "\<bar>?f (?T * (1 - 1 / 2 ^ 52)) - ?f ?T\<bar> \<le> 1 / 2 ^ 52"
    by (elim conjE)
  from h8 a8 lab_g_inverse_8 h0 b0 R P f1 f2 h f4 show ?thesis by (intro conjI)
qed

subsection \<open>The Lab encoding\<close>

lemma lab_g_inverse_unit:
  assumes "0 \<le> t" "t \<le> 1"
  shows "4 / 29 \<le> lab_g_inverse t \<and> lab_g_inverse t \<le> 1"
proof (cases "t \<ge> (6 * 6 * 6) / (29 * 29 * 29)")
  case True
  have "((6 / 29) ^ 3) powr (1 / 3) \<le> t powr (1 / 3)"
    using True by (intro powr_mono2) (simp_all add: power3_eq_cube)
  then have lo: "6 / 29 \<le> t powr (1 / 3)"
    using cube_powr_third [of "6 / 29"] by simp
  have "t powr (1 / 3) \<le> 1 powr (1 / 3)"
    using assms by (intro powr_mono2) simp_all
  then have hi: "t powr (1 / 3) \<le> 1" by simp
  from lo hi True show ?thesis by (simp add: lab_g_inverse_def)
next
  case False
  with assms show ?thesis by (simp add: lab_g_inverse_def)
qed

text \<open>
  Claim C5, as the code has it.  For a white point \<open>(Xn, Yn, Zn)\<close> with positive components,
  \<open>xyz_to_lab\<close> computes \<open>L* = 116 f(Y/Yn) - 16\<close> clamped into \<open>[0, 100]\<close>, and from the clamped
  \<open>L*\<close> the value \<open>lunit = (L* + 16) / 116\<close>; then \<open>a* = 500 (f(X/Xn) - lunit)\<close> and
  \<open>b* = 200 (lunit - f(Z/Zn))\<close>, neither of them clamped, where \<open>f\<close> is \<open>lab_g_inverse\<close>.
  Whenever \<open>0 \<le> Y/Yn \<le> 1\<close> the clamp does nothing and \<open>lunit = f(Y/Yn)\<close>.  The result array holds
  \<open>a*\<close>, \<open>L*\<close>, \<open>b*\<close> in this order.
\<close>

theorem xyz_to_lab_formula:
  assumes "0 < u (points_WhitePoint pciec)" "0 < v (points_WhitePoint pciec)"
    "0 < w (points_WhitePoint pciec)"
  shows "let Xn = u (points_WhitePoint pciec); Yn = v (points_WhitePoint pciec);
             Zn = w (points_WhitePoint pciec);
             L = max 0 (min 100 (116 * lab_g_inverse (Y / Yn) - 16));
             lunit = (L + 16) / 116
         in xyz_to_lab [X, Y, Z] pciec =
              [500 * (lab_g_inverse (X / Xn) - lunit), L, 200 * (lunit - lab_g_inverse (Z / Zn))]
            \<and> 0 \<le> L \<and> L \<le> 100
            \<and> (0 \<le> Y / Yn \<and> Y / Yn \<le> 1 \<longrightarrow> lunit = lab_g_inverse (Y / Yn))"
proof -
  have "0 \<le> Y / v (points_WhitePoint pciec) \<Longrightarrow> Y / v (points_WhitePoint pciec) \<le> 1 \<Longrightarrow>
     max 0 (min 100 (116 * lab_g_inverse (Y / v (points_WhitePoint pciec)) - 16))
       = 116 * lab_g_inverse (Y / v (points_WhitePoint pciec)) - 16"
    using lab_g_inverse_unit [of "Y / v (points_WhitePoint pciec)"] by simp
  then show ?thesis
    by (auto simp: xyz_to_lab_def Let_def max_def min_def)
qed

text \<open>
  The formula at the unit white point: \<open>(1, 1, 0)\<close> gives \<open>b* = 5000/29\<close>, and \<open>(1, 8, 1)\<close>,
  whose \<open>L*\<close> is clamped from 216 to 100, gives \<open>a* = 0\<close>.
\<close>

theorem xyz_to_lab_formula_witness:
  "xyz_to_lab [1, 1, 0] (cie0 1 1 1) = [0, 100, 5000 / 29] \<and>
   xyz_to_lab [1, 8, 1] (cie0 1 1 1) = [0, 100, 0]"
  using xyz_to_lab_formula [where pciec = "cie0 1 1 1" and X = 1 and Y = 1 and Z = 0]
    xyz_to_lab_formula [where pciec = "cie0 1 1 1" and X = 1 and Y = 8 and Z = 1]
  by (simp add: cie0_def Let_def lab_g_inverse_0 lab_g_inverse_1 lab_g_inverse_8)

text \<open>
  The claim as it is written gives \<open>b* = -200 (f(Y/Yn) - f(Z/Zn))\<close> and
  \<open>a* = 500 (f(X/Xn) - f(Y/Yn))\<close> also for ratios \<open>Y/Yn > 1\<close>.  At the unit white point, the
  code's \<open>b*\<close> of \<open>(1, 1, 0)\<close> is \<open>5000/29\<close> where the claim's formula gives \<open>-5000/29\<close>, and
  the code's \<open>a*\<close> of \<open>(1, 8, 1)\<close> is \<open>0\<close> where the claim's formula gives \<open>-500\<close>.
\<close>

theorem xyz_to_lab_claimed_counterexample:
  "xyz_to_lab [1, 1, 0] (cie0 1 1 1) ! 2 = 5000 / 29 \<and>
   - 200 * (lab_g_inverse (1 / 1) - lab_g_inverse (0 / 1)) = - 5000 / 29 \<and>
   xyz_to_lab [1, 8, 1] (cie0 1 1 1) ! 0 = 0 \<and>
   500 * (lab_g_inverse (1 / 1) - lab_g_inverse (8 / 1)) = - 500"
  by (simp add: xyz_to_lab_def cie0_def Let_def lab_g_inverse_0 lab_g_inverse_1 lab_g_inverse_8)

subsection \<open>The policy of \<open>pdf_convert_cie_space\<close>\<close>

text \<open>
  Claim C10.  For every input \<open>pdf_convert_cie_to_lab\<close> returns the range-check error and
  leaves the device and the array as they were: no collaborator is called, nothing is
  allocated or emitted.  So at a compatibility level below 1.3 \<open>pdf_convert_cie_space\<close> fails
  with the range-check error and produces no Lab output.
\<close>

theorem pdf_convert_cie_to_lab_rangecheck:
  "pdf_convert_cie_to_lab ext pdev pca pcs pciec prange = (Inl gs_error_rangecheck, pdev, pca) \<and>
   (CompatibilityLevel pdev < 1.3 \<longrightarrow>
      pdf_convert_cie_space ext pdev pca pcs dcsname pciec prange one_step pmat pprange
        = (Inl gs_error_rangecheck, pdev, pca))"
  by (simp add: pdf_convert_cie_to_lab_def pdf_convert_cie_space_def)

text \<open>A CIEBasedA space with white point \<open>(0.9505, 1, 1.089)\<close> at level 1.2.\<close>

theorem pdf_convert_cie_to_lab_rangecheck_witness:
  "CompatibilityLevel (pdev0 1.2) < 1.3 \<and>
   pdf_convert_cie_space ext0 (pdev0 1.2) [] (cs0 gs_color_space_index_CIEA 1 (profile0 gsGRAY 2 0))
      ''GRAY'' (cie0 0.9505 1 1.089) [\<lparr>rmin = 0, rmax = 1\<rparr>] ONE_STEP_NOT None None
     = (Inl gs_error_rangecheck, pdev0 1.2, [])"
  using pdf_convert_cie_to_lab_rangecheck [of ext0 "pdev0 1.2" "[]"
      "cs0 gs_color_space_index_CIEA 1 (profile0 gsGRAY 2 0)" "cie0 0.9505 1 1.089"
      "[\<lparr>rmin = 0, rmax = 1\<rparr>]" "''GRAY''" ONE_STEP_NOT None None]
  by (simp add: pdev0_def)

text \<open>
  Claim C1, as the code has it.  At a compatibility level below 1.3 \<open>pdf_convert_cie_space\<close>
  takes the Lab branch \<open>pdf_convert_cie_to_lab\<close>, which is not implemented: the result is the
  range-check error, the array is unchanged (no \<open>/Lab\<close> signature, no range annotation) and
  no object is written (no tag-table profile).  At a level of 1.3 or more it is the result of
  the profile synthesis \<open>pdf_convert_cie_to_iccbased\<close>.
\<close>

theorem pdf_convert_cie_space_dispatch:
  "(CompatibilityLevel pdev < 1.3 \<longrightarrow>
      pdf_convert_cie_space ext pdev pca pcs dcsname pciec prange one_step pmat pprange
        = pdf_convert_cie_to_lab ext pdev pca pcs pciec prange
      \<and> fst (pdf_convert_cie_space ext pdev pca pcs dcsname pciec prange one_step pmat pprange)
          = Inl gs_error_rangecheck
      \<and> snd (snd (pdf_convert_cie_space ext pdev pca pcs dcsname pciec prange one_step pmat pprange))
          = pca
      \<and> written (fst (snd (pdf_convert_cie_space ext pdev pca pcs dcsname pciec prange one_step
             pmat pprange))) = written pdev) \<and>
   (CompatibilityLevel pdev \<ge> 1.3 \<longrightarrow>
      pdf_convert_cie_space ext pdev pca pcs dcsname pciec prange one_step pmat pprange
        = pdf_convert_cie_to_iccbased ext pdev pca pcs dcsname pciec one_step pmat pprange)"
  by (simp add: pdf_convert_cie_to_lab_def pdf_convert_cie_space_def)

text \<open>The same CIEBasedA space at the levels 1.2 and 1.3.\<close>

theorem pdf_convert_cie_space_dispatch_witness:
  "CompatibilityLevel (pdev0 1.2) < 1.3 \<and>
   pdf_convert_cie_space ext0 (pdev0 1.2) [] (cs0 gs_color_space_index_CIEA 1 (profile0 gsGRAY 2 0))
      ''GRAY'' (cie0 0.9505 1 1.089) [\<lparr>rmin = 0, rmax = 1\<rparr>] ONE_STEP_NOT None None
     = (Inl gs_error_rangecheck, pdev0 1.2, []) \<and>
   CompatibilityLevel (pdev0 1.3) \<ge> 1.3 \<and>
   pdf_convert_cie_space ext0 (pdev0 1.3) [] (cs0 gs_color_space_index_CIEA 1 (profile0 gsGRAY 2 0))
      ''GRAY'' (cie0 0.9505 1 1.089) [\<lparr>rmin = 0, rmax = 1\<rparr>] ONE_STEP_NOT None None
     = pdf_convert_cie_to_iccbased ext0 (pdev0 1.3) []
         (cs0 gs_color_space_index_CIEA 1 (profile0 gsGRAY 2 0))
         ''GRAY'' (cie0 0.9505 1 1.089) ONE_STEP_NOT None None"
  using pdf_convert_cie_space_dispatch [of "pdev0 1.2" ext0 "[]"
      "cs0 gs_color_space_index_CIEA 1 (profile0 gsGRAY 2 0)" "''GRAY''" "cie0 0.9505 1 1.089"
      "[\<lparr>rmin = 0, rmax = 1\<rparr>]" ONE_STEP_NOT None None]
    pdf_convert_cie_space_dispatch [of "pdev0 1.3" ext0 "[]"
      "cs0 gs_color_space_index_CIEA 1 (profile0 gsGRAY 2 0)" "''GRAY''" "cie0 0.9505 1 1.089"
      "[\<lparr>rmin = 0, rmax = 1\<rparr>]" ONE_STEP_NOT None None]
  by (simp add: pdev0_def pdf_convert_cie_to_lab_def)

text \<open>
  The claim as it is written promises a Lab colour space below 1.3.  For the CIEBasedA space
  with white point \<open>(0.9505, 1, 1.089)\<close> at level 1.2 the result is the range-check error and
  the array holds no \<open>/Lab\<close>.
\<close>

theorem pdf_convert_cie_space_lab_counterexample:
  "pdf_convert_cie_space ext0 (pdev0 1.2) []
      (cs0 gs_color_space_index_CIEA 1 (profile0 gsGRAY 2 0))
      ''GRAY'' (cie0 0.9505 1 1.089) [\<lparr>rmin = 0, rmax = 1\<rparr>] ONE_STEP_NOT None None
     = (Inl gs_error_rangecheck, pdev0 1.2, []) \<and>
   cos_c_string_value ''/Lab'' \<notin> set (snd (snd (pdf_convert_cie_space ext0 (pdev0 1.2) []
      (cs0 gs_color_space_index_CIEA 1 (profile0 gsGRAY 2 0))
      ''GRAY'' (cie0 0.9505 1 1.089) [\<lparr>rmin = 0, rmax = 1\<rparr>] ONE_STEP_NOT None None)))"
  by (simp add: pdf_convert_cie_to_lab_def pdf_convert_cie_space_def pdev0_def)

subsection \<open>The pass-through embedder \<open>pdf_iccbased_color_space\<close>\<close>

lemmas eval_defs = ext0_def pdev0_def cs0_def profile0_def
  pdf_iccbased_color_space_def pdf_make_iccbased_def pdf_make_iccbased_alternate_def
  pdf_iccbased_register_def pdf_finish_iccbased_def downgrade_icc_def
  collaborator_call_def cos_array_add_def cos_stream_alloc_def cos_dict_put_def
  cos_stream_add_bytes_def pdf_obj_ref_def cos_write_object_def pdf_alloc_resource_def
  pdf_color_space_named_def emprintf_def

text \<open>
  Claim C8.  If the declared data colour space of the profile is not one of XYZ, Lab, RGB,
  Gray, CMYK (so it is undefined, N-channel or named), \<open>pdf_iccbased_color_space\<close> returns
  the range-check error and embeds nothing: the array, the objects written, the resource
  chain and the script of collaborator calls are unchanged (only a message is printed).
  Hence a call that succeeds, or that writes an object, has a profile of one of the five
  allowed spaces.
\<close>

theorem pdf_iccbased_color_space_allow_list:
  "(data_cs (cmm_icc_profile_data pcs) \<notin> {gsCIEXYZ, gsCIELAB, gsRGB, gsGRAY, gsCMYK} \<longrightarrow>
      fst (pdf_iccbased_color_space ext pdev pgs pcs pca) = Inl gs_error_rangecheck \<and>
      snd (snd (pdf_iccbased_color_space ext pdev pgs pcs pca)) = pca \<and>
      written (fst (snd (pdf_iccbased_color_space ext pdev pgs pcs pca))) = written pdev \<and>
      resources (fst (snd (pdf_iccbased_color_space ext pdev pgs pcs pca))) = resources pdev \<and>
      pending (fst (snd (pdf_iccbased_color_space ext pdev pgs pcs pca))) = pending pdev) \<and>
   (fst (pdf_iccbased_color_space ext pdev pgs pcs pca) = Inr () \<or>
    written (fst (snd (pdf_iccbased_color_space ext pdev pgs pcs pca))) \<noteq> written pdev \<longrightarrow>
      data_cs (cmm_icc_profile_data pcs) \<in> {gsCIEXYZ, gsCIELAB, gsRGB, gsGRAY, gsCMYK})"
  by (cases "data_cs (cmm_icc_profile_data pcs)")
     (simp_all add: pdf_iccbased_color_space_def emprintf_def)

text \<open>A profile declared as a named space is rejected; the same profile declared RGB is embedded.\<close>

theorem pdf_iccbased_color_space_allow_list_witness:
  "fst (pdf_iccbased_color_space ext0 (pdev0 1.7) None
          (cs0 gs_color_space_index_ICC 3 (profile0 gsNAMED 4 0x20)) []) = Inl gs_error_rangecheck \<and>
   snd (snd (pdf_iccbased_color_space ext0 (pdev0 1.7) None
          (cs0 gs_color_space_index_ICC 3 (profile0 gsNAMED 4 0x20)) [])) = [] \<and>
   written (fst (snd (pdf_iccbased_color_space ext0 (pdev0 1.7) None
          (cs0 gs_color_space_index_ICC 3 (profile0 gsNAMED 4 0x20)) []))) = [] \<and>
   fst (pdf_iccbased_color_space ext0 (pdev0 1.7) None
          (cs0 gs_color_space_index_ICC 3 (profile0 gsRGB 4 0x20)) []) = Inr () \<and>
   data_cs (cmm_icc_profile_data (cs0 gs_color_space_index_ICC 3 (profile0 gsRGB 4 0x20))) = gsRGB"
  using pdf_iccbased_color_space_allow_list [of "cs0 gs_color_space_index_ICC 3 (profile0 gsNAMED 4 0x20)"
      ext0 "pdev0 1.7" None "[]"]
    pdf_iccbased_color_space_allow_list [of "cs0 gs_color_space_index_ICC 3 (profile0 gsRGB 4 0x20)"
      ext0 "pdev0 1.7" None "[]"]
  by (simp add: eval_defs)

text \<open>The collaborators leave the compatibility level of the device alone.\<close>

lemma collaborator_call_level:
  "collaborator_call pdev = (r, pdev') \<Longrightarrow> CompatibilityLevel pdev' = CompatibilityLevel pdev"
  by (auto simp: collaborator_call_def split: list.splits)

lemma cos_array_add_level:
  "cos_array_add pdev pca val = (r, pdev', pca') \<Longrightarrow>
     CompatibilityLevel pdev' = CompatibilityLevel pdev"
  by (auto simp: cos_array_add_def split: prod.splits option.splits
        dest: collaborator_call_level)

lemma cos_stream_alloc_level:
  "cos_stream_alloc pdev = (r, pdev') \<Longrightarrow> CompatibilityLevel pdev' = CompatibilityLevel pdev"
  by (auto simp: cos_stream_alloc_def split: prod.splits option.splits
        dest: collaborator_call_level)

lemma cos_dict_put_level:
  "cos_dict_put pdev pcd key val = (r, pdev', pcd') \<Longrightarrow>
     CompatibilityLevel pdev' = CompatibilityLevel pdev"
  by (auto simp: cos_dict_put_def split: prod.splits option.splits
        dest: collaborator_call_level)

lemma pdf_color_space_named_level:
  "pdf_color_space_named pdev alt = (r, pdev') \<Longrightarrow>
     CompatibilityLevel pdev' = CompatibilityLevel pdev"
  by (auto simp: pdf_color_space_named_def split: prod.splits option.splits
        dest: collaborator_call_level)

lemma pdf_make_iccbased_alternate_level:
  "pdf_make_iccbased_alternate pdev pcstrm n alt = (r, pdev', pcstrm') \<Longrightarrow>
     CompatibilityLevel pdev' = CompatibilityLevel pdev"
proof (cases alt)
  case None
  then show "pdf_make_iccbased_alternate pdev pcstrm n alt = (r, pdev', pcstrm') \<Longrightarrow>
     CompatibilityLevel pdev' = CompatibilityLevel pdev"
    by (auto simp: pdf_make_iccbased_alternate_def split: if_splits)
next
  case (Some a)
  assume eq: "pdf_make_iccbased_alternate pdev pcstrm n alt = (r, pdev', pcstrm')"
  show "CompatibilityLevel pdev' = CompatibilityLevel pdev"
  proof (cases "a = gs_color_space_index_DeviceGray \<or> a = gs_color_space_index_DeviceRGB \<or>
                a = gs_color_space_index_DeviceCMYK")
    case True
    with Some eq show ?thesis
      by (auto simp: pdf_make_iccbased_alternate_def)
  next
    case False
    with Some have "pdf_make_iccbased_alternate pdev pcstrm n alt =
        (case pdf_color_space_named pdev a of
             (Inl e, pdev1) \<Rightarrow> (Inl e, pdev1, pcstrm)
           | (Inr val, pdev1) \<Rightarrow>
               (case cos_dict_put pdev1 (cos_stream_dict pcstrm) ''/Alternate'' val of
                  (code, pdev2, pcd) \<Rightarrow> (code, pdev2, pcstrm\<lparr>cos_stream_dict := pcd\<rparr>)))"
      by (cases a) (simp_all add: pdf_make_iccbased_alternate_def)
    with eq show ?thesis
      by (auto split: prod.splits sum.splits
            dest!: pdf_color_space_named_level cos_dict_put_level)
  qed
qed

lemma pdf_make_iccbased_level:
  "pdf_make_iccbased pdev pca n alt = (r, pdev1, pca1) \<Longrightarrow>
     CompatibilityLevel pdev1 = CompatibilityLevel pdev"
  by (auto simp: pdf_make_iccbased_def split: prod.splits sum.splits option.splits
        dest!: cos_array_add_level cos_stream_alloc_level cos_dict_put_level
               pdf_make_iccbased_alternate_level)

text \<open>
  With every collaborator call succeeding, the end of the embedder registers the stream and
  writes it out with the bytes just added.
\<close>

lemma pdf_iccbased_register_ok:
  assumes "pending pdev1 = []"
  shows "pdf_iccbased_register (cos_stream_add_bytes pdev1 pcstrm bs n) pca1 =
     (Inr (),
      pdev1\<lparr>next_id := next_id pdev1 + 1,
             resources := resources pdev1 @
               [(stream_id pcstrm,
                 pcstrm\<lparr>cos_stream_bytes := cos_stream_bytes pcstrm @ take n bs\<rparr>)],
             written := written pdev1 @
               [pcstrm\<lparr>cos_stream_bytes := cos_stream_bytes pcstrm @ take n bs,
                        stream_id := next_id pdev1\<rparr>]\<rparr>,
      pca1)"
  using assms
  by (simp add: pdf_iccbased_register_def cos_stream_add_bytes_def collaborator_call_def
        pdf_alloc_resource_def pdf_finish_iccbased_def pdf_obj_ref_def cos_write_object_def)

lemma downgrade_icc_bands:
  "level < 1.5 \<Longrightarrow> downgrade_icc level major minor = (\<not> major \<le> 2)"
  "downgrade_icc 1.5 major minor = (\<not> (major \<le> 4 \<and> minor \<le> 0))"
  "downgrade_icc 1.6 major minor = (\<not> (major \<le> 4 \<and> minor \<le> 1))"
  "1.7 \<le> level \<Longrightarrow> downgrade_icc level major minor = (\<not> (major \<le> 4 \<and> minor \<le> 2))"
  by (auto simp: downgrade_icc_def not_le word_gt_0)

lemma pdf_iccbased_color_space_after_make:
  assumes emb: "data_cs (cmm_icc_profile_data pcs) \<in> {gsCIEXYZ, gsCIELAB, gsRGB, gsGRAY, gsCMYK}"
    and mk: "pdf_make_iccbased pdev pca (num_comps (cmm_icc_profile_data pcs)) (base_space pcs)
               = (Inr pcstrm, pdev1, pca1)"
  shows "pdf_iccbased_color_space ext pdev pgs pcs pca =
      (if CompatibilityLevel pdev < 1.3 then (Inl gs_error_rangecheck, pdev1, pca1)
       else if downgrade_icc (CompatibilityLevel pdev)
                 (fst (gsicc_getprofilevers ext (cmm_icc_profile_data pcs)))
                 (drop_bit 4 (snd (gsicc_getprofilevers ext (cmm_icc_profile_data pcs))))
       then (case pgs of
               None \<Rightarrow> (Inl gs_error_undefined, pdev1, pca1)
             | Some gs \<Rightarrow>
                 pdf_iccbased_register
                   (cos_stream_add_bytes pdev1 pcstrm
                      (gsicc_create_getv2buffer ext gs
                         (if profile_handle (cmm_icc_profile_data pcs) then cmm_icc_profile_data pcs
                          else gsicc_initialize_default_profile ext (cmm_icc_profile_data pcs)))
                      (length (gsicc_create_getv2buffer ext gs
                         (if profile_handle (cmm_icc_profile_data pcs) then cmm_icc_profile_data pcs
                          else gsicc_initialize_default_profile ext (cmm_icc_profile_data pcs)))))
                   pca1)
       else pdf_iccbased_register
              (cos_stream_add_bytes pdev1 pcstrm (buffer (cmm_icc_profile_data pcs))
                 (buffer_size (cmm_icc_profile_data pcs))) pca1)"
proof -
  have lvl: "CompatibilityLevel pdev1 = CompatibilityLevel pdev"
    using mk by (rule pdf_make_iccbased_level)
  have emb': "(case data_cs (cmm_icc_profile_data pcs) of
               gsCIEXYZ \<Rightarrow> True | gsCIELAB \<Rightarrow> True | gsRGB \<Rightarrow> True | gsGRAY \<Rightarrow> True
             | gsCMYK \<Rightarrow> True | gsUNDEFINED \<Rightarrow> False | gsNCHANNEL \<Rightarrow> False
             | gsNAMED \<Rightarrow> False) = True"
    using emb by auto
  show ?thesis
    by (simp add: pdf_iccbased_color_space_def Let_def emb' mk lvl split: option.splits)
qed

text \<open>
  Claim C3, as the code has it.  Let the profile's data colour space be allowed and let
  \<open>pdf_make_iccbased\<close> have succeeded with the stream \<open>pcstrm\<close>; \<open>major\<close> is the major version
  and \<open>minor\<close> the minor version (the high nibble of the second version byte).  Below level
  1.3 the embedder returns the range-check error.  From 1.3 on the original bytes are handed
  to the stream if the version fits the ceiling of the level (\<open>major \<le> 2\<close> in \<open>[1.3, 1.5)\<close>;
  \<open>major \<le> 4\<close> and \<open>minor \<le> 0\<close> at 1.5; \<open>minor \<le> 1\<close> at 1.6; \<open>minor \<le> 2\<close> from 1.7 on).  If the
  version exceeds the ceiling and a graphics state is supplied, the buffer that the
  colour-management collaborator produces is handed to the stream instead; without a
  graphics state the embedder returns the error \<open>undefined\<close> and no buffer is requested.
  When no collaborator call fails, the object written holds exactly the bytes handed over.
\<close>

theorem pdf_iccbased_color_space_version_gate:
  assumes emb: "data_cs (cmm_icc_profile_data pcs) \<in> {gsCIEXYZ, gsCIELAB, gsRGB, gsGRAY, gsCMYK}"
    and mk: "pdf_make_iccbased pdev pca (num_comps (cmm_icc_profile_data pcs)) (base_space pcs)
               = (Inr pcstrm, pdev1, pca1)"
  shows
    "let profile = cmm_icc_profile_data pcs;
         level = CompatibilityLevel pdev;
         major = fst (gsicc_getprofilevers ext profile);
         minor = drop_bit 4 (snd (gsicc_getprofilevers ext profile));
         result = pdf_iccbased_color_space ext pdev pgs pcs pca;
         original = pdf_iccbased_register
                      (cos_stream_add_bytes pdev1 pcstrm (buffer profile) (buffer_size profile)) pca1;
         v2_buffer = (\<lambda>gs. gsicc_create_getv2buffer ext gs
                       (if profile_handle profile then profile
                        else gsicc_initialize_default_profile ext profile));
         downgraded = (\<lambda>gs. pdf_iccbased_register
                        (cos_stream_add_bytes pdev1 pcstrm (v2_buffer gs) (length (v2_buffer gs)))
                        pca1);
         gate = (\<lambda>fits.
                   (fits \<longrightarrow> result = original) \<and>
                   (\<not> fits \<longrightarrow>
                      (case pgs of
                         Some gs \<Rightarrow> result = downgraded gs
                       | None \<Rightarrow> result = (Inl gs_error_undefined, pdev1, pca1))))
     in (level < 1.3 \<longrightarrow> result = (Inl gs_error_rangecheck, pdev1, pca1)) \<and>
        (1.3 \<le> level \<and> level < 1.5 \<longrightarrow> gate (major \<le> 2)) \<and>
        (level = 1.5 \<longrightarrow> gate (major \<le> 4 \<and> minor \<le> 0)) \<and>
        (level = 1.6 \<longrightarrow> gate (major \<le> 4 \<and> minor \<le> 1)) \<and>
        (1.7 \<le> level \<longrightarrow> gate (major \<le> 4 \<and> minor \<le> 2)) \<and>
        (pending pdev1 = [] \<longrightarrow>
           written (fst (snd original)) = written pdev1 @
             [pcstrm\<lparr>cos_stream_bytes := cos_stream_bytes pcstrm @
                        take (buffer_size profile) (buffer profile),
                      stream_id := next_id pdev1\<rparr>] \<and>
           (\<forall>gs. written (fst (snd (downgraded gs))) = written pdev1 @
             [pcstrm\<lparr>cos_stream_bytes := cos_stream_bytes pcstrm @ v2_buffer gs,
                      stream_id := next_id pdev1\<rparr>]))"
proof -
  define profile where "profile = cmm_icc_profile_data pcs"
  define level where "level = CompatibilityLevel pdev"
  define major where "major = fst (gsicc_getprofilevers ext profile)"
  define minor where "minor = drop_bit 4 (snd (gsicc_getprofilevers ext profile))"
  define result where "result = pdf_iccbased_color_space ext pdev pgs pcs pca"
  define original where "original = pdf_iccbased_register
      (cos_stream_add_bytes pdev1 pcstrm (buffer profile) (buffer_size profile)) pca1"
  define v2_buffer where "v2_buffer = (\<lambda>gs. gsicc_create_getv2buffer ext gs
      (if profile_handle profile then profile else gsicc_initialize_default_profile ext profile))"
  define downgraded where "downgraded = (\<lambda>gs. pdf_iccbased_register
      (cos_stream_add_bytes pdev1 pcstrm (v2_buffer gs) (length (v2_buffer gs))) pca1)"
  define gate where "gate = (\<lambda>fits.
      (fits \<longrightarrow> result = original) \<and>
      (\<not> fits \<longrightarrow>
         (case pgs of
            Some gs \<Rightarrow> result = downgraded gs
          | None \<Rightarrow> result = (Inl gs_error_undefined, pdev1, pca1))))"
  have res: "result =
      (if level < 1.3 then (Inl gs_error_rangecheck, pdev1, pca1)
       else if downgrade_icc level major minor
       then (case pgs of
               None \<Rightarrow> (Inl gs_error_undefined, pdev1, pca1)
             | Some gs \<Rightarrow> downgraded gs)
       else original)"
    unfolding result_def level_def major_def minor_def downgraded_def original_def
      v2_buffer_def profile_def
    by (rule pdf_iccbased_color_space_after_make [OF emb mk])
  have gate_iff: "gate (\<not> downgrade_icc level major minor)" if "\<not> level < 1.3"
    using that by (cases pgs) (simp_all add: gate_def res)
  have c1: "level < 1.3 \<longrightarrow> result = (Inl gs_error_rangecheck, pdev1, pca1)"
    by (simp add: res)
  have c2: "1.3 \<le> level \<and> level < 1.5 \<longrightarrow> gate (major \<le> 2)"
  proof
    assume l: "1.3 \<le> level \<and> level < 1.5"
    then have "gate (\<not> downgrade_icc level major minor)"
      by (intro gate_iff) simp
    with l show "gate (major \<le> 2)"
      by (simp only: downgrade_icc_bands(1) not_not)
  qed
  have c3: "level = 1.5 \<longrightarrow> gate (major \<le> 4 \<and> minor \<le> 0)"
  proof
    assume l: "level = 1.5"
    then have "gate (\<not> downgrade_icc level major minor)"
      by (intro gate_iff) simp
    then show "gate (major \<le> 4 \<and> minor \<le> 0)"
      unfolding l by (simp only: downgrade_icc_bands(2) not_not)
  qed
  have c4: "level = 1.6 \<longrightarrow> gate (major \<le> 4 \<and> minor \<le> 1)"
  proof
    assume l: "level = 1.6"
    then have "gate (\<not> downgrade_icc level major minor)"
      by (intro gate_iff) simp
    then show "gate (major \<le> 4 \<and> minor \<le> 1)"
      unfolding l by (simp only: downgrade_icc_bands(3) not_not)
  qed
  have c5: "1.7 \<le> level \<longrightarrow> gate (major \<le> 4 \<and> minor \<le> 2)"
  proof
    assume l: "1.7 \<le> level"
    then have "gate (\<not> downgrade_icc level major minor)"
      by (intro gate_iff) simp
    with l show "gate (major \<le> 4 \<and> minor \<le> 2)"
      by (simp only: downgrade_icc_bands(4) not_not)
  qed
  have c6: "pending pdev1 = [] \<longrightarrow>
           written (fst (snd original)) = written pdev1 @
             [pcstrm\<lparr>cos_stream_bytes := cos_stream_bytes pcstrm @
                        take (buffer_size profile) (buffer profile),
                      stream_id := next_id pdev1\<rparr>] \<and>
           (\<forall>gs. written (fst (snd (downgraded gs))) = written pdev1 @
             [pcstrm\<lparr>cos_stream_bytes := cos_stream_bytes pcstrm @ v2_buffer gs,
                      stream_id := next_id pdev1\<rparr>])"
    by (simp add: original_def downgraded_def pdf_iccbased_register_ok)
  from c1 c2 c3 c4 c5 c6 show ?thesis
    unfolding Let_def gate_def downgraded_def v2_buffer_def original_def result_def minor_def
      major_def level_def profile_def
    by (intro conjI) assumption+
qed

text \<open>
  A profile of version 4.2 is streamed unmodified at level 1.7, is replaced by the
  collaborator's buffer at level 1.5, and is rejected at level 1.2.
\<close>

theorem pdf_iccbased_color_space_version_gate_witness:
  "pdf_iccbased_color_space ext0 (pdev0 1.7) None
      (cs0 gs_color_space_index_ICC 3 (profile0 gsRGB 4 0x20)) []
     = (Inr (),
        \<lparr>CompatibilityLevel = 1.7, pending = [], next_id = 2,
          resources = [(0, \<lparr>cos_stream_dict = [(''/N'', cos_int_value 3)],
                             cos_stream_bytes = [0, 0, 0, 12, 0, 0, 0, 0, 4, 0x20, 0, 0],
                             stream_id = 0\<rparr>)],
          written = [\<lparr>cos_stream_dict = [(''/N'', cos_int_value 3)],
                      cos_stream_bytes = [0, 0, 0, 12, 0, 0, 0, 0, 4, 0x20, 0, 0],
                      stream_id = 1\<rparr>],
          messages = []\<rparr>,
        [cos_c_string_value ''/ICCBased'', COS_OBJECT_stream]) \<and>
   pdf_iccbased_color_space ext0 (pdev0 1.5) (Some Gs_gstate)
      (cs0 gs_color_space_index_ICC 3 (profile0 gsRGB 4 0x20)) []
     = (Inr (),
        \<lparr>CompatibilityLevel = 1.5, pending = [], next_id = 2,
          resources = [(0, \<lparr>cos_stream_dict = [(''/N'', cos_int_value 3)],
                             cos_stream_bytes = [0, 0, 0, 12, 0, 0, 0, 0, 2, 0x20, 0, 0],
                             stream_id = 0\<rparr>)],
          written = [\<lparr>cos_stream_dict = [(''/N'', cos_int_value 3)],
                      cos_stream_bytes = [0, 0, 0, 12, 0, 0, 0, 0, 2, 0x20, 0, 0],
                      stream_id = 1\<rparr>],
          messages = []\<rparr>,
        [cos_c_string_value ''/ICCBased'', COS_OBJECT_stream]) \<and>
   pdf_iccbased_color_space ext0 (pdev0 1.2) None
      (cs0 gs_color_space_index_ICC 3 (profile0 gsRGB 4 0x20)) []
     = (Inl gs_error_rangecheck, pdev0 1.2, [cos_c_string_value ''/ICCBased'', COS_OBJECT_stream])"
proof -
  let ?pcs = "cs0 gs_color_space_index_ICC 3 (profile0 gsRGB 4 0x20)"
  let ?strm = "\<lparr>cos_stream_dict = [(''/N'', cos_int_value 3)], cos_stream_bytes = [],
                 stream_id = 0\<rparr>"
  let ?pca = "[cos_c_string_value ''/ICCBased'', COS_OBJECT_stream]"
  have emb: "data_cs (cmm_icc_profile_data ?pcs) \<in> {gsCIEXYZ, gsCIELAB, gsRGB, gsGRAY, gsCMYK}"
    by (simp add: cs0_def profile0_def)
  have mk: "pdf_make_iccbased (pdev0 level) [] (num_comps (cmm_icc_profile_data ?pcs))
              (base_space ?pcs) = (Inr ?strm, pdev0 level, ?pca)" for level
    by (simp add: eval_defs)
  show ?thesis
    using pdf_iccbased_color_space_version_gate
            [OF emb mk [of "1.7"], where ext = ext0 and pgs = None]
      pdf_iccbased_color_space_version_gate
            [OF emb mk [of "1.5"], where ext = ext0 and pgs = "Some Gs_gstate"]
      pdf_iccbased_color_space_version_gate
            [OF emb mk [of "1.2"], where ext = ext0 and pgs = None]
    by (simp add: Let_def eval_defs)
qed

text \<open>
  The claim as it is written has a downgraded buffer requested and streamed whenever the
  ceiling is exceeded.  A profile of version 4.2 exceeds the ceiling of level 1.5; without a
  graphics state the result is the error \<open>undefined\<close> and nothing is written.
\<close>

theorem pdf_iccbased_color_space_downgrade_counterexample:
  "\<not> (4 \<le> (4 :: byte) \<and> drop_bit 4 (0x20 :: byte) \<le> 0) \<and>
   pdf_iccbased_color_space ext0 (pdev0 1.5) None
      (cs0 gs_color_space_index_ICC 3 (profile0 gsRGB 4 0x20)) []
     = (Inl gs_error_undefined, pdev0 1.5, [cos_c_string_value ''/ICCBased'', COS_OBJECT_stream]) \<and>
   written (fst (snd (pdf_iccbased_color_space ext0 (pdev0 1.5) None
      (cs0 gs_color_space_index_ICC 3 (profile0 gsRGB 4 0x20)) []))) = []"
  by (simp add: eval_defs)

subsection \<open>The concretization \<open>cie_to_xyz\<close>\<close>



text \<open>
  \<open>cie_to_xyz\<close> copies \<open>Y\<close> (\<open>out[1] = xyz_float[1]\<close>) where \<open>adjust_wp\<close> scales all three
  components.  The two agree for a white point with \<open>Y = 1\<close>; for the white point
  \<open>(1, 2, 1)\<close> and \<open>Y = 1\<close>, \<open>cie_to_xyz\<close> returns \<open>Y = 1\<close> and \<open>adjust_wp\<close> gives \<open>1/2\<close>.
\<close>

lemma cie_to_xyz_luminance_unscaled:
  "cie_to_xyz ext0 [1] (cs0 gs_color_space_index_CIEA 1 (profile0 gsGRAY 2 0)) (cie0 1 2 1)
     = (0, [0.9642, 1, 0.8249]) \<and>
   adjust_wp \<lparr>u = 1, v = 1, w = 1\<rparr> (points_WhitePoint (cie0 1 2 1)) white_d50
     = \<lparr>u = 0.9642, v = 1 / 2, w = 0.8249\<rparr>"
  by (simp add: cie_to_xyz_def Let_def cie0_def cs0_def ext0_def white_d50_def adjust_wp_def)

subsection \<open>The sampled lookup table\<close>

text \<open>The integer part of an \<open>n\<close>-th root lies between consecutive \<open>n\<close>-th powers.\<close>

lemma power_powr_inverse:
  assumes "0 \<le> a" "0 < n"
  shows "(a ^ n) powr (1 / real n) = (a::real)"
proof (cases "a = 0")
  case True
  with assms show ?thesis by simp
next
  case False
  with assms have pos: "0 < a" by simp
  have "(a ^ n) powr (1 / real n) = (a powr real n) powr (1 / real n)"
    using powr_realpow [OF pos, of n] by simp
  also have "\<dots> = a powr 1"
    using assms by (simp add: powr_powr)
  finally show ?thesis using pos by simp
qed

lemma floor_powr_inverse:
  assumes "0 < n" "real_of_int a ^ n \<le> x" "x < (real_of_int a + 1) ^ n" "0 \<le> a"
  shows "\<lfloor>x powr (1 / real n)\<rfloor> = a"
proof -
  have x0: "0 \<le> x" using assms by (meson order_trans zero_le_power of_int_0_le_iff)
  have "(real_of_int a ^ n) powr (1 / real n) \<le> x powr (1 / real n)"
    using assms by (intro powr_mono2) simp_all
  then have lo: "real_of_int a \<le> x powr (1 / real n)"
    using power_powr_inverse [of "real_of_int a" n] assms by simp
  have "x powr (1 / real n) < ((real_of_int a + 1) ^ n) powr (1 / real n)"
    using assms x0 by (intro powr_less_mono2) simp_all
  then have hi: "x powr (1 / real n) < real_of_int a + 1"
    using power_powr_inverse [of "real_of_int a + 1" n] assms by simp
  from lo hi show ?thesis by linarith
qed

lemma num_points_1: "\<lfloor>MAX_CLUT_ENTRIES powr (1 / real_of_int 1)\<rfloor> = 2500"
  by (simp add: MAX_CLUT_ENTRIES_def)

lemma num_points_3: "\<lfloor>MAX_CLUT_ENTRIES powr (1 / real_of_int 3)\<rfloor> = 13"
  using floor_powr_inverse [of 3 13 2500] by (simp add: MAX_CLUT_ENTRIES_def)

lemma num_points_4: "\<lfloor>MAX_CLUT_ENTRIES powr (1 / real_of_int 4)\<rfloor> = 7"
  using floor_powr_inverse [of 4 7 2500] by (simp add: MAX_CLUT_ENTRIES_def)

lemma c_int_powr:
  assumes "0 < s"
  shows "c_int (real_of_int s powr real_of_int (int n)) = s ^ n"
proof -
  have e: "real_of_int s powr real_of_int (int n) = real_of_int (s ^ n)"
    using assms by (simp add: powr_realpow)
  have nn: "0 \<le> real_of_int (s ^ n)"
    using assms by simp
  show ?thesis
    unfolding c_int_def e using nn by (simp only: if_True floor_of_int)
qed

lemma add_a2b0_1:
  "add_a2b0 1 pcs =
     (\<lparr>header = (a2b0_data[8 := 1])[10 := 255], a2b0_pcs = pcs, num_points = 255, count = 255\<rparr>,
      \<lparr>tag = ''A2B0'', data = (a2b0_data[8 := 1])[10 := 255], tbl_length = 1598,
        data_length = 52, write_proc = Some (Write_a2b0
          \<lparr>header = (a2b0_data[8 := 1])[10 := 255], a2b0_pcs = pcs, num_points = 255, count = 255\<rparr>),
        ranges = None\<rparr>)"
  using c_int_powr [of 255 1] num_points_1
  by (simp add: add_a2b0_def Let_def add_table_def NUM_IN_ENTRIES_def NUM_OUT_ENTRIES_def)

lemma add_a2b0_3:
  "add_a2b0 3 pcs =
     (\<lparr>header = (a2b0_data[8 := 3])[10 := 13], a2b0_pcs = pcs, num_points = 13, count = 2197\<rparr>,
      \<lparr>tag = ''A2B0'', data = (a2b0_data[8 := 3])[10 := 13], tbl_length = 13258,
        data_length = 52, write_proc = Some (Write_a2b0
          \<lparr>header = (a2b0_data[8 := 3])[10 := 13], a2b0_pcs = pcs, num_points = 13, count = 2197\<rparr>),
        ranges = None\<rparr>)"
  using c_int_powr [of 13 3] num_points_3
  by (simp add: add_a2b0_def Let_def add_table_def NUM_IN_ENTRIES_def NUM_OUT_ENTRIES_def)

lemma add_a2b0_4:
  "add_a2b0 4 pcs =
     (\<lparr>header = (a2b0_data[8 := 4])[10 := 7], a2b0_pcs = pcs, num_points = 7, count = 2401\<rparr>,
      \<lparr>tag = ''A2B0'', data = (a2b0_data[8 := 4])[10 := 7], tbl_length = 14486,
        data_length = 52, write_proc = Some (Write_a2b0
          \<lparr>header = (a2b0_data[8 := 4])[10 := 7], a2b0_pcs = pcs, num_points = 7, count = 2401\<rparr>),
        ranges = None\<rparr>)"
  using c_int_powr [of 7 4] num_points_4
  by (simp add: add_a2b0_def Let_def add_table_def NUM_IN_ENTRIES_def NUM_OUT_ENTRIES_def)

text \<open>When no collaborator call fails, the writers append what they are given.\<close>

lemma collaborator_call_ok: "pending pdev = [] \<Longrightarrow> collaborator_call pdev = (None, pdev)"
  by (simp add: collaborator_call_def)

lemma cos_stream_add_bytes_ok:
  "pending pdev = [] \<Longrightarrow>
     cos_stream_add_bytes pdev pcstrm dat n =
       (Inr (), pdev, pcstrm\<lparr>cos_stream_bytes := cos_stream_bytes pcstrm @ take n dat\<rparr>)"
  by (simp add: cos_stream_add_bytes_def collaborator_call_ok)

lemma gx_cie_to_xyz_alloc_ok:
  "pending pdev = [] \<Longrightarrow> gx_cie_to_xyz_alloc pdev = (Inr Gs_gstate, pdev)"
  by (simp add: gx_cie_to_xyz_alloc_def collaborator_call_ok)

lemma write_a2b0_entries_ok:
  "pending pdev = [] \<Longrightarrow>
     write_a2b0_entries entry pdev pcstrm is =
       (Inr (), pdev,
        pcstrm\<lparr>cos_stream_bytes :=
                 cos_stream_bytes pcstrm @ concat (map (\<lambda>i. take 6 (entry i)) is)\<rparr>)"
  by (induction "is" arbitrary: pcstrm) (simp_all add: cos_stream_add_bytes_ok)

lemma length_set_sample16: "length (set_sample16 r) = 2"
  by (simp add: set_sample16_def Let_def)

lemma length_a2b0_entry: "length (a2b0_entry ext pnt pa2b pciec i) = 6"
  by (simp add: a2b0_entry_def Let_def length_set_sample16)

lemma write_a2b0_ok:
  assumes "pending pdev = []"
  shows "write_a2b0 ext pdev pcstrm pnt pa2b pciec =
       (Inr (), pdev,
        pcstrm\<lparr>cos_stream_bytes :=
                 cos_stream_bytes pcstrm @ take (nat (uint (header pa2b ! 8) * 4)) v01 @
                 concat (map (a2b0_entry ext pnt pa2b pciec) [0 ..< nat (count pa2b)]) @
                 take 12 v01\<rparr>)"
  using assms
  by (simp add: write_a2b0_def Let_def cos_stream_add_bytes_ok gx_cie_to_xyz_alloc_ok
        write_a2b0_entries_ok length_a2b0_entry)

lemma length_concat_a2b0_entries:
  "length (concat (map (a2b0_entry ext pnt pa2b pciec) is)) = 6 * length is"
  by (induction "is") (simp_all add: length_a2b0_entry)

lemma length_a2b0_data: "length a2b0_data = 52"
  by (simp add: a2b0_data_def bytes_of_string_def)

text \<open>
  Claim C6.  For a channel count \<open>k\<close> of 1, 3 or 4, \<open>add_a2b0\<close> chooses the number of sample
  points per axis \<open>s = min(floor(2500^(1/k)), 255)\<close>, which is 255, 13 and 7; then
  \<open>s^k \<le> 2500\<close> and \<open>s \<le> 255\<close>.  The value \<open>s\<close> is stored in byte 10 of the \<open>mft2\<close> header (and
  \<open>k\<close> in byte 8), the entry count is \<open>s^k\<close>, and \<open>write_a2b0\<close>, when no write fails, appends
  the input table, \<open>s^k\<close> entries of six bytes each, and the output table.
\<close>

theorem add_a2b0_sample_count:
  "k \<in> {1, 3, 4} \<longrightarrow>
     (let a2b = fst (add_a2b0 k pcs);
          s = num_points a2b
      in s = min \<lfloor>MAX_CLUT_ENTRIES powr (1 / real_of_int k)\<rfloor> 255 \<and>
         s = (if k = 1 then 255 else if k = 3 then 13 else 7) \<and>
         s ^ nat k \<le> 2500 \<and> s \<le> 255 \<and>
         header a2b ! 10 = word_of_int s \<and> uint (header a2b ! 10) = s \<and>
         uint (header a2b ! 8) = k \<and>
         count a2b = s ^ nat k \<and>
         write_proc (snd (add_a2b0 k pcs)) = Some (Write_a2b0 a2b) \<and>
         (\<forall>ext pdev pcstrm pnt pciec.
            pending pdev = [] \<longrightarrow>
              write_a2b0 ext pdev pcstrm pnt a2b pciec =
                (Inr (), pdev,
                 pcstrm\<lparr>cos_stream_bytes :=
                          cos_stream_bytes pcstrm @ take (nat (k * 4)) v01 @
                          concat (map (a2b0_entry ext pnt a2b pciec) [0 ..< nat (s ^ nat k)]) @
                          take 12 v01\<rparr>) \<and>
              length (map (a2b0_entry ext pnt a2b pciec) [0 ..< nat (s ^ nat k)]) = nat (s ^ nat k) \<and>
              length (concat (map (a2b0_entry ext pnt a2b pciec) [0 ..< nat (s ^ nat k)]))
                = 6 * nat (s ^ nat k)))"
proof
  assume "k \<in> {1, 3, 4}"
  then consider "k = 1" | "k = 3" | "k = 4" by auto
  then show "let a2b = fst (add_a2b0 k pcs);
          s = num_points a2b
      in s = min \<lfloor>MAX_CLUT_ENTRIES powr (1 / real_of_int k)\<rfloor> 255 \<and>
         s = (if k = 1 then 255 else if k = 3 then 13 else 7) \<and>
         s ^ nat k \<le> 2500 \<and> s \<le> 255 \<and>
         header a2b ! 10 = word_of_int s \<and> uint (header a2b ! 10) = s \<and>
         uint (header a2b ! 8) = k \<and>
         count a2b = s ^ nat k \<and>
         write_proc (snd (add_a2b0 k pcs)) = Some (Write_a2b0 a2b) \<and>
         (\<forall>ext pdev pcstrm pnt pciec.
            pending pdev = [] \<longrightarrow>
              write_a2b0 ext pdev pcstrm pnt a2b pciec =
                (Inr (), pdev,
                 pcstrm\<lparr>cos_stream_bytes :=
                          cos_stream_bytes pcstrm @ take (nat (k * 4)) v01 @
                          concat (map (a2b0_entry ext pnt a2b pciec) [0 ..< nat (s ^ nat k)]) @
                          take 12 v01\<rparr>) \<and>
              length (map (a2b0_entry ext pnt a2b pciec) [0 ..< nat (s ^ nat k)]) = nat (s ^ nat k) \<and>
              length (concat (map (a2b0_entry ext pnt a2b pciec) [0 ..< nat (s ^ nat k)]))
                = 6 * nat (s ^ nat k))"
  proof cases
    case 1
    then show ?thesis
      using num_points_1
      by (simp add: Let_def add_a2b0_1 write_a2b0_ok length_concat_a2b0_entries length_a2b0_data)
  next
    case 2
    then show ?thesis
      using num_points_3
      by (simp add: Let_def add_a2b0_3 write_a2b0_ok length_concat_a2b0_entries length_a2b0_data)
  next
    case 3
    then show ?thesis
      using num_points_4
      by (simp add: Let_def add_a2b0_4 write_a2b0_ok length_concat_a2b0_entries length_a2b0_data)
  qed
qed

text \<open>Three channels give 13 points and 2197 entries, four channels 7 points and 2401 entries.\<close>

theorem add_a2b0_sample_count_witness:
  "(3 :: int) \<in> {1, 3, 4} \<and>
   num_points (fst (add_a2b0 3 (cs0 gs_color_space_index_CIEABC 3 (profile0 gsRGB 2 0)))) = 13 \<and>
   count (fst (add_a2b0 3 (cs0 gs_color_space_index_CIEABC 3 (profile0 gsRGB 2 0)))) = 2197 \<and>
   header (fst (add_a2b0 3 (cs0 gs_color_space_index_CIEABC 3 (profile0 gsRGB 2 0)))) ! 10 = 13 \<and>
   (4 :: int) \<in> {1, 3, 4} \<and>
   num_points (fst (add_a2b0 4 (cs0 gs_color_space_index_CIEDEFG 4 (profile0 gsCMYK 2 0)))) = 7 \<and>
   count (fst (add_a2b0 4 (cs0 gs_color_space_index_CIEDEFG 4 (profile0 gsCMYK 2 0)))) = 2401 \<and>
   length (cos_stream_bytes (snd (snd (write_a2b0 ext0 (pdev0 1.3)
       \<lparr>cos_stream_dict = [], cos_stream_bytes = [], stream_id = 0\<rparr>
       (snd (add_a2b0 4 (cs0 gs_color_space_index_CIEDEFG 4 (profile0 gsCMYK 2 0))))
       (fst (add_a2b0 4 (cs0 gs_color_space_index_CIEDEFG 4 (profile0 gsCMYK 2 0))))
       (cie0 0.9505 1 1.089))))) = 16 + 6 * 2401 + 12"
  using add_a2b0_sample_count [of 3 "cs0 gs_color_space_index_CIEABC 3 (profile0 gsRGB 2 0)"]
    add_a2b0_sample_count [of 4 "cs0 gs_color_space_index_CIEDEFG 4 (profile0 gsCMYK 2 0)"]
  by (simp add: Let_def pdev0_def v01_def add_a2b0_3 add_a2b0_4 write_a2b0_ok
        length_concat_a2b0_entries length_a2b0_data)

subsection \<open>The tag directory\<close>

lemma get_set_uint32: "get_uint32 (set_uint32 x) = x"
  unfolding get_uint32_def set_uint32_def
  apply simp
  apply (rule bit_word_eqI)
  apply (auto simp: bit_simps)
  subgoal for n by (cases "16 \<le> n") auto
  subgoal for n by (cases "16 \<le> n"; cases "24 \<le> n") auto
  done

lemma length_set_uint32: "length (set_uint32 x) = 4"
  by (simp add: set_uint32_def)

lemma length_tag_bytes: "length (tag_bytes t) = 4"
  by (simp add: tag_bytes_def)

lemma profile_directory_length:
  "length (fst (profile_directory ts off)) = 12 * length ts"
  by (induction ts arbitrary: off) (simp_all add: split_beta length_set_uint32 length_tag_bytes)

lemma profile_directory_total:
  "snd (profile_directory ts off) = off + sum_list (map (\<lambda>t. round_up (tbl_length t) 4) ts)"
  by (induction ts arbitrary: off) (simp_all add: split_beta add.assoc)

lemma profile_directory_Cons:
  "fst (profile_directory (t # ts) off) =
     (tag_bytes t @ set_uint32 off @ set_uint32 (tbl_length t)) @
     fst (profile_directory ts (off + round_up (tbl_length t) 4))"
  by (simp add: split_beta)

lemma drop_prefix: "length e = n \<Longrightarrow> drop (n + m) (e @ r) = drop m r"
  by simp

lemma profile_directory_entry:
  "i < length ts \<Longrightarrow>
     take 12 (drop (12 * i) (fst (profile_directory ts off))) =
       tag_bytes (ts ! i) @
       set_uint32 (off + sum_list (map (\<lambda>t. round_up (tbl_length t) 4) (take i ts))) @
       set_uint32 (tbl_length (ts ! i))"
proof (induction ts arbitrary: off i)
  case Nil
  then show ?case by simp
next
  case (Cons t ts)
  have len: "length (tag_bytes t @ set_uint32 off @ set_uint32 (tbl_length t)) = 12"
    by (simp add: length_set_uint32 length_tag_bytes)
  show ?case
  proof (cases i)
    case 0
    then show ?thesis
      unfolding profile_directory_Cons using len by simp
  next
    case (Suc j)
    with Cons.prems have j: "j < length ts" by simp
    have i12: "12 * i = 12 + 12 * j" using Suc by simp
    have "drop (12 * i) (fst (profile_directory (t # ts) off)) =
          drop (12 * j) (fst (profile_directory ts (off + round_up (tbl_length t) 4)))"
      unfolding profile_directory_Cons i12 by (rule drop_prefix [OF len])
    then show ?thesis
      using Cons.IH [OF j, of "off + round_up (tbl_length t) 4"] Suc
      by (simp add: add.assoc)
  qed
qed


lemma unat_round_up_4:
  assumes "unat l + 3 < 2 ^ 32"
  shows "unat (round_up l 4) = (unat l + 3) div 4 * 4"
proof -
  have a: "unat (l + 3) = unat l + 3"
    using assms by (simp add: unat_add_lem [THEN iffD1])
  have b: "unat ((l + 3) div 4) = (unat l + 3) div 4"
    by (simp add: unat_div a)
  have "(unat l + 3) div 4 * 4 \<le> unat l + 3" by simp
  with assms have c: "unat ((l + 3) div 4) * unat (4 :: uint) < 2 ^ LENGTH(32)"
    by (simp add: b)
  have "unat ((l + 3) div 4 * 4) = unat ((l + 3) div 4) * unat (4 :: uint)"
    using c by (simp add: unat_mult_lem [THEN iffD1])
  then show ?thesis by (simp add: round_up_def b)
qed

lemma padded_bound:
  assumes "(unat (l :: uint) + 3) div 4 * 4 < 2 ^ 32"
  shows "unat l + 3 < 2 ^ 32"
proof -
  have "unat l + 3 < (unat l + 3) div 4 * 4 + 4"
    by (metis add.commute div_mult_mod_eq add_less_cancel_left
        pos_mod_bound zero_less_numeral nat_add_left_cancel_less mod_less_divisor)
  moreover have "(unat l + 3) div 4 * 4 + 4 \<le> 2 ^ 32"
  proof -
    have "4 dvd (unat l + 3) div 4 * 4" by simp
    moreover have "(4::nat) dvd 2 ^ 32" by simp
    ultimately show ?thesis using assms by presburger
  qed
  ultimately show ?thesis by linarith
qed

lemma unat_offset_sum:
  "unat off + sum_list (map (\<lambda>t. (unat (tbl_length t) + 3) div 4 * 4) ts) < 2 ^ 32 \<Longrightarrow>
     unat (off + sum_list (map (\<lambda>t. round_up (tbl_length t) 4) ts)) =
       unat off + sum_list (map (\<lambda>t. (unat (tbl_length t) + 3) div 4 * 4) ts)"
proof (induction ts arbitrary: off)
  case Nil
  then show ?case by simp
next
  case (Cons t ts)
  let ?p = "(unat (tbl_length t) + 3) div 4 * 4"
  from Cons.prems have small: "?p < 2 ^ 32" by simp
  have rt: "unat (round_up (tbl_length t) 4) = ?p"
    by (rule unat_round_up_4) (rule padded_bound [OF small])
  from Cons.prems have "unat off + ?p < 2 ^ 32" by simp
  then have st: "unat (off + round_up (tbl_length t) 4) = unat off + ?p"
    using rt by (simp add: unat_add_lem [THEN iffD1])
  have "unat (off + round_up (tbl_length t) 4) +
          sum_list (map (\<lambda>t. (unat (tbl_length t) + 3) div 4 * 4) ts) < 2 ^ 32"
    using Cons.prems st by simp
  from Cons.IH [OF this] st show ?case
    by (simp add: add.assoc)
qed


lemma entry_fields:
  assumes "take 12 xs = a @ b @ c" "length a = 4" "length b = 4" "length c = 4"
  shows "take 4 xs = a" "take 4 (drop 4 xs) = b" "take 4 (drop 8 xs) = c"
proof -
  have "take 4 xs = take 4 (take 12 xs)" by simp
  then show "take 4 xs = a" using assms by simp
  have "take 4 (drop 4 xs) = take 4 (drop 4 (take 12 xs))" by (simp add: drop_take)
  then show "take 4 (drop 4 xs) = b" using assms by simp
  have "take 4 (drop 8 xs) = take 4 (drop 8 (take 12 xs))" by (simp add: drop_take)
  then show "take 4 (drop 8 xs) = c" using assms by simp
qed

lemma directory_entry_fields:
  assumes "i < length ts"
  shows "take 4 (drop (4 + 12 * i) (set_uint32 n @ fst (profile_directory ts off)))
           = tag_bytes (ts ! i)"
    and "take 4 (drop (4 + 12 * i + 4) (set_uint32 n @ fst (profile_directory ts off)))
           = set_uint32 (off + sum_list (map (\<lambda>t. round_up (tbl_length t) 4) (take i ts)))"
    and "take 4 (drop (4 + 12 * i + 8) (set_uint32 n @ fst (profile_directory ts off)))
           = set_uint32 (tbl_length (ts ! i))"
proof -
  let ?D = "fst (profile_directory ts off)"
  let ?xs = "drop (12 * i) ?D"
  note e = profile_directory_entry [OF assms, of off]
  note f = entry_fields [OF e length_tag_bytes length_set_uint32 length_set_uint32]
  have d0: "drop (4 + 12 * i) (set_uint32 n @ ?D) = ?xs"
    by (rule drop_prefix [OF length_set_uint32])
  have d4: "drop (4 + 12 * i + 4) (set_uint32 n @ ?D) = drop 4 ?xs"
    using drop_prefix [where e = "set_uint32 n" and n = 4 and m = "12 * i + 4" and r = ?D,
        OF length_set_uint32]
    by (simp add: add.commute add.left_commute)
  have d8: "drop (4 + 12 * i + 8) (set_uint32 n @ ?D) = drop 8 ?xs"
    using drop_prefix [where e = "set_uint32 n" and n = 4 and m = "12 * i + 8" and r = ?D,
        OF length_set_uint32]
    by (simp add: add.commute add.left_commute)
  show "take 4 (drop (4 + 12 * i) (set_uint32 n @ ?D)) = tag_bytes (ts ! i)"
    unfolding d0 by (rule f(1))
  show "take 4 (drop (4 + 12 * i + 4) (set_uint32 n @ ?D))
          = set_uint32 (off + sum_list (map (\<lambda>t. round_up (tbl_length t) 4) (take i ts)))"
    unfolding d4 by (rule f(2))
  show "take 4 (drop (4 + 12 * i + 8) (set_uint32 n @ ?D)) = set_uint32 (tbl_length (ts ! i))"
    unfolding d8 by (rule f(3))
qed

lemma sum_list_last:
  "ts \<noteq> [] \<Longrightarrow>
     sum_list (map f ts) = sum_list (map f (take (length ts - 1) ts)) + (f (last ts) :: uint)"
proof -
  assume "ts \<noteq> []"
  then have "ts = butlast ts @ [last ts]" by simp
  then have "sum_list (map f ts) = sum_list (map f (butlast ts @ [last ts]))" by simp
  then show ?thesis by (simp add: butlast_conv_take)
qed

lemma unat_directory_start:
  assumes "132 + 12 * N < (2::nat) ^ 32"
  shows "unat (128 + (4 + word_of_nat N * 12) :: uint) = 128 + (4 + 12 * N)"
proof -
  have "(128 + (4 + word_of_nat N * 12) :: uint) = word_of_nat (132 + 12 * N)"
    by simp
  moreover have "unat (word_of_nat (132 + 12 * N) :: uint) = 132 + 12 * N"
    using assms by (simp add: unat_of_nat del: of_nat_add of_nat_mult)
  ultimately show ?thesis by (simp add: mult.commute)
qed

lemma memcpy_size_field: "take 4 (memcpy hdr 0 (set_uint32 x) 4) = set_uint32 x"
  by (simp add: memcpy_def length_set_uint32)

subsection \<open>The bytes of the synthesized profile\<close>

text \<open>
  When no collaborator call fails, \<open>pdf_convert_cie_to_iccbased\<close> writes out the stream that
  \<open>pdf_make_iccbased\<close> made, with the bytes \<open>iccbased_profile\<close> appended.
\<close>

lemma call_write_ok:
  "pending pdev = [] \<Longrightarrow>
     call_write ext pdev pcstrm pnt wr pciec =
       (Inr (), pdev,
        pcstrm\<lparr>cos_stream_bytes := cos_stream_bytes pcstrm @ writer_output ext pnt wr pciec\<rparr>)"
  by (cases wr)
     (simp_all add: call_write_def writer_output_def write_trc_abc_def write_trc_lmn_def
        write_a2b0_ok cos_stream_add_bytes_ok Let_def)

lemma write_tables_ok:
  "pending pdev = [] \<Longrightarrow>
     write_tables ext pdev pcstrm ts pciec =
       (Inr (), pdev,
        pcstrm\<lparr>cos_stream_bytes :=
                 cos_stream_bytes pcstrm @ concat (map (table_output ext pciec) ts)\<rparr>)"
proof (induction ts arbitrary: pcstrm)
  case Nil
  then show ?case by simp
next
  case (Cons t ts)
  show ?case
  proof (cases "write_proc t")
    case None
    with Cons show ?thesis
      by (simp add: cos_stream_add_bytes_ok table_output_def)
  next
    case (Some wr)
    with Cons show ?thesis
      by (simp add: cos_stream_add_bytes_ok call_write_ok table_output_def)
  qed
qed

lemma pdf_finish_iccbased_ok:
  "pending pdev = [] \<Longrightarrow>
     pdf_finish_iccbased pdev pcstrm =
       (Inr (), pdev\<lparr>next_id := next_id pdev + 1,
                      written := written pdev @ [pcstrm\<lparr>stream_id := next_id pdev\<rparr>]\<rparr>)"
  by (simp add: pdf_finish_iccbased_def pdf_obj_ref_def cos_write_object_def collaborator_call_def)

lemma write_profile_ok:
  "pending pdev = [] \<Longrightarrow>
     write_profile ext pdev pcstrm header0 tables pciec =
       (Inr (), pdev,
        pcstrm\<lparr>cos_stream_bytes := cos_stream_bytes pcstrm @
          (take 128 (memcpy header0 0
             (set_uint32 (snd (profile_directory tables
                (128 + (4 + word_of_nat (length tables) * 12))))) 4) @
           take (unat (4 + word_of_nat (length tables) * 12 :: uint))
             (set_uint32 (word_of_nat (length tables)) @
              fst (profile_directory tables (128 + (4 + word_of_nat (length tables) * 12)))) @
           concat (map (table_output ext pciec) tables))\<rparr>)"
  by (simp add: write_profile_def Let_def cos_stream_add_bytes_ok write_tables_ok)

lemma pdf_convert_cie_to_iccbased_ok:
  assumes mk: "pdf_make_iccbased pdev pca (gs_color_space_num_components pcs)
                 (pdf_cspace_init_Device ext (gs_color_space_num_components pcs))
               = (Inr pcstrm, pdev1, pca1)"
    and ok: "pending pdev1 = []"
  shows "pdf_convert_cie_to_iccbased ext pdev pca pcs dcsname pciec one_step pmat pprange =
     (Inr (),
      pdev1\<lparr>next_id := next_id pdev1 + 1,
             written := written pdev1 @
               [pcstrm\<lparr>cos_stream_bytes := cos_stream_bytes pcstrm @
                          iccbased_profile ext pcs dcsname pciec one_step pmat pprange,
                        stream_id := next_id pdev1\<rparr>]\<rparr>,
      pca1)"
  using ok
  by (simp add: pdf_convert_cie_to_iccbased_def Let_def mk write_profile_ok
        pdf_finish_iccbased_ok iccbased_profile_def)

subsection \<open>The white point of the synthesized profile\<close>

text \<open>
  The constants \<open>0.9642f\<close> and \<open>0.8249f\<close> of the source are the binary32 numbers
  \<open>1011037 / 2^20\<close> and \<open>13839525 / 2^24\<close>; \<open>set_XYZ\<close> encodes them to the same bytes as the
  decimal numbers of the model.
\<close>

lemma set_XYZ_binary32:
  "set_XYZ (1011037 / 1048576) = set_XYZ 0.9642"
  "set_XYZ (13839525 / 16777216) = set_XYZ 0.8249"
  by (simp_all add: set_XYZ_def c_int_def)

lemma length_desc_data: "length desc_data = 18"
  by (simp add: desc_data_def bytes_of_string_def)

lemma length_cprt_data: "length cprt_data = 13"
  by (simp add: cprt_data_def bytes_of_string_def)

lemma length_header_data: "length header_data = 68"
  by (simp add: header_data_def bytes_of_string_def)

lemma iccbased_tables_prefix:
  "\<exists>rest. iccbased_tables ext pcs pciec one_step pmat pprange =
            [desc_table, wtpt_table, add_table ''cprt'' cprt_data 13] @ rest \<and>
          length rest \<le> 6"
  by (auto simp: iccbased_tables_def Let_def desc_table_def wtpt_table_def DESC_LENGTH_def
        length_desc_data length_cprt_data memcpy_def split: option.splits)

lemma wtpt_table_data:
  "data wtpt_table =
     bytes_of_string ''XYZ '' @ [0, 0, 0, 0, 0, 0, 0xF6, 0xD5, 0, 1, 0, 0, 0, 0, 0xD3, 0x2C]"
  by (simp add: wtpt_table_def add_table_xyz3_def add_table_def white_d50_def set_XYZ_def
        set_uint32_def c_int_def)

lemma wtpt_table_fields:
  "tag wtpt_table = ''wtpt''" "tbl_length wtpt_table = 20" "data_length wtpt_table = 20"
  "write_proc wtpt_table = None" "length (data wtpt_table) = 20"
  by (simp_all add: wtpt_table_data bytes_of_string_def)
     (simp_all add: wtpt_table_def add_table_xyz3_def add_table_def)

lemma desc_table_fields:
  "tbl_length desc_table = 96" "data_length desc_table = 96"
  "write_proc desc_table = None" "length (data desc_table) = 96"
  by (simp_all add: desc_table_def add_table_def memcpy_def length_desc_data)

lemma table_output_wtpt: "table_output ext pciec wtpt_table = data wtpt_table"
  by (simp add: table_output_def wtpt_table_fields)

lemma table_output_desc: "table_output ext pciec desc_table = data desc_table"
  by (simp add: table_output_def desc_table_fields)

lemma length_iccbased_header:
  assumes "length dcsname = 4" "tables ! 1 = wtpt_table"
  shows "length (iccbased_header dcsname tables) = 128"
  using assms
  by (simp add: iccbased_header_def Let_def memcpy_def length_header_data bytes_of_string_def
        wtpt_table_fields)

lemma iccbased_header_illuminant:
  assumes "length dcsname = 4" "tables ! 1 = wtpt_table"
  shows "take 12 (drop 68 (memcpy (iccbased_header dcsname tables) 0 (set_uint32 x) 4))
           = drop 8 (data wtpt_table)"
  using assms
  by (simp add: iccbased_header_def Let_def memcpy_def length_header_data bytes_of_string_def
        wtpt_table_fields length_set_uint32)

lemma s15Fixed16_D50:
  "get_s15Fixed16 [0, 0, 0xF6, 0xD5] = 63189 / 65536"
  "get_s15Fixed16 [0, 1, 0, 0] = 1"
  "get_s15Fixed16 [0, 0, 0xD3, 0x2C] = 54060 / 65536"
  by (simp_all add: get_s15Fixed16_def get_uint32_def)


lemma iccbased_profile_layout:
  assumes dn: "length dcsname = 4"
  shows "\<exists>H D rest N.
           iccbased_profile ext pcs dcsname pciec one_step pmat pprange
             = H @ D @ data desc_table @ data wtpt_table @ rest \<and>
           iccbased_tables ext pcs pciec one_step pmat pprange ! 1 = wtpt_table \<and>
           length H = 128 \<and> length D = 4 + 12 * N \<and> 3 \<le> N \<and> N \<le> 9 \<and>
           take 12 (drop 68 H) = drop 8 (data wtpt_table) \<and>
           take 4 (drop 16 D) = tag_bytes wtpt_table \<and>
           get_uint32 (take 4 (drop 20 D)) = word_of_nat (228 + 12 * N)"
proof -
  let ?tables = "iccbased_tables ext pcs pciec one_step pmat pprange"
  obtain rest where T: "?tables = [desc_table, wtpt_table, add_table ''cprt'' cprt_data 13] @ rest"
    and r: "length rest \<le> 6"
    using iccbased_tables_prefix by blast
  define N where "N = length ?tables"
  have N: "N = 3 + length rest" by (simp add: N_def T)
  have N9: "3 \<le> N" "N \<le> 9" using N r by simp_all
  have t1: "?tables ! 1 = wtpt_table" by (simp add: T)
  have t1S: "?tables ! Suc 0 = wtpt_table" by (simp add: T)
  define start :: uint where "start = 128 + (4 + word_of_nat N * 12)"
  define dir where "dir = profile_directory ?tables start"
  define H where "H = take 128 (memcpy (iccbased_header dcsname ?tables) 0 (set_uint32 (snd dir)) 4)"
  define D where "D = set_uint32 (word_of_nat N) @ fst dir"
  have lenD: "length D = 4 + 12 * N"
    by (simp add: D_def dir_def length_set_uint32 profile_directory_length N_def)
  have ts: "unat (4 + word_of_nat N * 12 :: uint) = 4 + 12 * N"
  proof -
    have "(4 + word_of_nat N * 12 :: uint) = word_of_nat (4 + 12 * N)" by simp
    moreover have "unat (word_of_nat (4 + 12 * N) :: uint) = 4 + 12 * N"
      using N9 by (simp add: unat_of_nat del: of_nat_add of_nat_mult)
    ultimately show ?thesis by (simp add: mult.commute)
  qed
  have lenhdr: "length (memcpy (iccbased_header dcsname ?tables) 0 (set_uint32 (snd dir)) 4) = 128"
    using length_iccbased_header [OF dn t1]
    by (simp add: memcpy_def length_set_uint32)
  have lenH: "length H = 128"
    by (simp add: H_def lenhdr)
  have ill: "take 12 (drop 68 H) = drop 8 (data wtpt_table)"
    unfolding H_def using lenhdr iccbased_header_illuminant [OF dn t1, of "snd dir"]
    by simp
  have i1: "1 < length ?tables" using N9 by (simp add: N_def)
  have tagf: "take 4 (drop 16 D) = tag_bytes wtpt_table"
    using directory_entry_fields(1) [OF i1, of "word_of_nat N" start]
    by (simp add: D_def dir_def t1S)
  have "take 4 (drop 20 D) =
          set_uint32 (start + sum_list (map (\<lambda>t. round_up (tbl_length t) 4) (take 1 ?tables)))"
    using directory_entry_fields(2) [OF i1, of "word_of_nat N" start]
    by (simp add: D_def dir_def)
  also have "take 1 ?tables = [desc_table]" by (simp add: T)
  finally have "get_uint32 (take 4 (drop 20 D)) = start + round_up 96 4"
    by (simp add: get_set_uint32 desc_table_fields)
  also have "\<dots> = word_of_nat (228 + 12 * N)"
    by (simp add: start_def round_up_def)
  finally have offf: "get_uint32 (take 4 (drop 20 D)) = word_of_nat (228 + 12 * N)" .
  have prof: "iccbased_profile ext pcs dcsname pciec one_step pmat pprange
       = H @ D @ data desc_table @ data wtpt_table @
         concat (map (table_output ext pciec) (add_table ''cprt'' cprt_data 13 # rest))"
  proof -
    have "concat (map (table_output ext pciec) ?tables) =
          data desc_table @ data wtpt_table @
          concat (map (table_output ext pciec) (add_table ''cprt'' cprt_data 13 # rest))"
      by (simp add: T table_output_desc table_output_wtpt)
    moreover have "take (unat (4 + word_of_nat N * 12 :: uint)) D = D"
      by (simp add: ts lenD)
    ultimately show ?thesis
      by (simp add: iccbased_profile_def Let_def H_def D_def dir_def start_def N_def)
  qed
  from prof t1 lenH lenD N9 ill tagf offf show ?thesis by blast
qed


lemma tag_bytes_wtpt: "tag_bytes wtpt_table = bytes_of_string ''wtpt''"
  by (simp add: tag_bytes_def wtpt_table_fields bytes_of_string_def)

lemma iccbased_profile_white_point:
  assumes dn: "length dcsname = 4"
    and profile_def: "profile = iccbased_profile ext pcs dcsname pciec one_step pmat pprange"
    and wtpt_offset_def:
      "wtpt_offset = unat (get_uint32 (take 4 (drop (128 + 4 + 12 + 4) profile)))"
  shows "iccbased_tables ext pcs pciec one_step pmat pprange ! 1 = wtpt_table"
    and "take 4 (drop (128 + 4 + 12) profile) = bytes_of_string ''wtpt''"
    and "take 20 (drop wtpt_offset profile) = data wtpt_table"
    and "take 4 (drop (wtpt_offset + 8) profile) = [0, 0, 0xF6, 0xD5]"
    and "take 4 (drop (wtpt_offset + 12) profile) = [0, 1, 0, 0]"
    and "take 4 (drop (wtpt_offset + 16) profile) = [0, 0, 0xD3, 0x2C]"
    and "take 12 (drop 68 profile) = take 12 (drop (wtpt_offset + 8) profile)"
proof -
  from iccbased_profile_layout [OF dn, of ext pcs pciec one_step pmat pprange]
  obtain H D rest N where all:
    "iccbased_profile ext pcs dcsname pciec one_step pmat pprange
             = H @ D @ data desc_table @ data wtpt_table @ rest \<and>
           iccbased_tables ext pcs pciec one_step pmat pprange ! 1 = wtpt_table \<and>
           length H = 128 \<and> length D = 4 + 12 * N \<and> 3 \<le> N \<and> N \<le> 9 \<and>
           take 12 (drop 68 H) = drop 8 (data wtpt_table) \<and>
           take 4 (drop 16 D) = tag_bytes wtpt_table \<and>
           get_uint32 (take 4 (drop 20 D)) = word_of_nat (228 + 12 * N)"
    by (elim exE) (erule that)
  from all have P: "profile = H @ D @ data desc_table @ data wtpt_table @ rest"
    unfolding profile_def by (elim conjE)
  from all have t1: "iccbased_tables ext pcs pciec one_step pmat pprange ! 1 = wtpt_table"
    by (elim conjE)
  from all have lenH: "length H = 128" by (elim conjE)
  from all have lenD: "length D = 4 + 12 * N" by (elim conjE)
  from all have N3: "3 \<le> N" by (elim conjE)
  from all have N9: "N \<le> 9" by (elim conjE)
  note N = N3 N9
  from all have ill: "take 12 (drop 68 H) = drop 8 (data wtpt_table)" by (elim conjE)
  from all have tagf: "take 4 (drop 16 D) = tag_bytes wtpt_table" by (elim conjE)
  from all have offf: "get_uint32 (take 4 (drop 20 D)) = word_of_nat (228 + 12 * N)"
    by (elim conjE)
  show "iccbased_tables ext pcs pciec one_step pmat pprange ! 1 = wtpt_table" by (rule t1)
  have "take 4 (drop (128 + 4 + 12) profile) = take 4 (drop 16 D)"
    using lenH lenD N by (simp add: P)
  then show "take 4 (drop (128 + 4 + 12) profile) = bytes_of_string ''wtpt''"
    by (simp add: tagf tag_bytes_wtpt)
  have "take 4 (drop (128 + 4 + 12 + 4) profile) = take 4 (drop 20 D)"
    using lenH lenD N by (simp add: P)
  then have "wtpt_offset = unat (word_of_nat (228 + 12 * N) :: uint)"
    by (simp only: wtpt_offset_def offf)
  also have "\<dots> = 228 + 12 * N"
    using N by (simp add: unat_of_nat del: of_nat_add of_nat_mult)
  finally have off: "wtpt_offset = 228 + 12 * N" .
  have pre: "length (H @ D @ data desc_table) = wtpt_offset"
    by (simp add: lenH lenD desc_table_fields off)
  have P': "profile = (H @ D @ data desc_table) @ data wtpt_table @ rest"
    by (simp add: P)
  have dr: "drop (wtpt_offset + m) profile = drop m (data wtpt_table @ rest)" for m
    unfolding P' by (rule drop_prefix [OF pre])
  from dr [of 0] show "take 20 (drop wtpt_offset profile) = data wtpt_table"
    by (simp add: wtpt_table_fields)
  show w8: "take 4 (drop (wtpt_offset + 8) profile) = [0, 0, 0xF6, 0xD5]"
    unfolding dr by (simp add: wtpt_table_data bytes_of_string_def)
  show "take 4 (drop (wtpt_offset + 12) profile) = [0, 1, 0, 0]"
    unfolding dr by (simp add: wtpt_table_data bytes_of_string_def)
  show "take 4 (drop (wtpt_offset + 16) profile) = [0, 0, 0xD3, 0x2C]"
    unfolding dr by (simp add: wtpt_table_data bytes_of_string_def)
  have "take 12 (drop 68 profile) = take 12 (drop 68 H)"
    using lenH by (simp add: P)
  moreover have "take 12 (drop (wtpt_offset + 8) profile) = drop 8 (data wtpt_table)"
    unfolding dr by (simp add: wtpt_table_fields)
  ultimately show "take 12 (drop 68 profile) = take 12 (drop (wtpt_offset + 8) profile)"
    by (simp add: ill)
qed

text \<open>
  Claim C2, as the code has it.  For every CIE-based space, whatever its white point, and
  every four-character data colour space name: the second table of the profile is \<open>wtpt\<close>; in
  the emitted bytes the second directory entry names \<open>wtpt\<close> and gives the offset at which the
  twenty bytes of the tag stand; its three numbers decode to \<open>63189/65536\<close>, \<open>1\<close> and
  \<open>54060/65536\<close>, which is D50 \<open>(0.9642, 1.0, 0.8249)\<close> truncated to 16 fractional bits (each
  less than \<open>1/65536\<close> away); and the twelve bytes at offset 68 of the header are the same
  twelve bytes.  These are the bytes that \<open>pdf_convert_cie_to_iccbased\<close> writes out when no
  collaborator call fails.
\<close>

theorem iccbased_white_point:
  assumes "length dcsname = 4"
  shows
    "let tables = iccbased_tables ext pcs pciec one_step pmat pprange;
         wtpt = tables ! 1;
         profile = iccbased_profile ext pcs dcsname pciec one_step pmat pprange;
         wtpt_offset = unat (get_uint32 (take 4 (drop (128 + 4 + 12 + 4) profile)))
     in tag wtpt = ''wtpt'' \<and>
        take 4 (drop (128 + 4 + 12) profile) = bytes_of_string ''wtpt'' \<and>
        take 20 (drop wtpt_offset profile) = data wtpt \<and>
        get_s15Fixed16 (take 4 (drop (wtpt_offset + 8) profile)) = 63189 / 65536 \<and>
        get_s15Fixed16 (take 4 (drop (wtpt_offset + 12) profile)) = 1 \<and>
        get_s15Fixed16 (take 4 (drop (wtpt_offset + 16) profile)) = 54060 / 65536 \<and>
        \<bar>63189 / 65536 - u white_d50\<bar> < 1 / 65536 \<and>
        v white_d50 = 1 \<and>
        \<bar>54060 / 65536 - w white_d50\<bar> < 1 / 65536 \<and>
        take 12 (drop 68 profile) = take 12 (drop (wtpt_offset + 8) profile) \<and>
        (\<forall>pdev pca pcstrm pdev1 pca1.
           pdf_make_iccbased pdev pca (gs_color_space_num_components pcs)
               (pdf_cspace_init_Device ext (gs_color_space_num_components pcs))
             = (Inr pcstrm, pdev1, pca1) \<and> pending pdev1 = [] \<longrightarrow>
           pdf_convert_cie_to_iccbased ext pdev pca pcs dcsname pciec one_step pmat pprange =
             (Inr (),
              pdev1\<lparr>next_id := next_id pdev1 + 1,
                     written := written pdev1 @
                       [pcstrm\<lparr>cos_stream_bytes := cos_stream_bytes pcstrm @ profile,
                                stream_id := next_id pdev1\<rparr>]\<rparr>,
              pca1))"
proof -
  define profile where
    "profile = iccbased_profile ext pcs dcsname pciec one_step pmat pprange"
  define wtpt_offset where
    "wtpt_offset = unat (get_uint32 (take 4 (drop (128 + 4 + 12 + 4) profile)))"
  note f = iccbased_profile_white_point [OF assms profile_def wtpt_offset_def]
  have c1: "tag (iccbased_tables ext pcs pciec one_step pmat pprange ! 1) = ''wtpt''"
    by (simp only: f(1) wtpt_table_fields)
  have c2: "take 4 (drop (128 + 4 + 12) profile) = bytes_of_string ''wtpt''"
    by (rule f(2))
  have c3: "take 20 (drop wtpt_offset profile)
              = data (iccbased_tables ext pcs pciec one_step pmat pprange ! 1)"
    by (simp only: f(1) f(3))
  have c4: "get_s15Fixed16 (take 4 (drop (wtpt_offset + 8) profile)) = 63189 / 65536"
    by (simp only: f(4) s15Fixed16_D50)
  have c5: "get_s15Fixed16 (take 4 (drop (wtpt_offset + 12) profile)) = 1"
    by (simp only: f(5) s15Fixed16_D50)
  have c6: "get_s15Fixed16 (take 4 (drop (wtpt_offset + 16) profile)) = 54060 / 65536"
    by (simp only: f(6) s15Fixed16_D50)
  have c7: "\<bar>63189 / 65536 - u white_d50\<bar> < 1 / 65536"
    by (simp add: white_d50_def)
  have c8: "v white_d50 = 1"
    by (simp add: white_d50_def)
  have c9: "\<bar>54060 / 65536 - w white_d50\<bar> < 1 / 65536"
    by (simp add: white_d50_def)
  have c10: "take 12 (drop 68 profile) = take 12 (drop (wtpt_offset + 8) profile)"
    by (rule f(7))
  have c11: "\<forall>pdev pca pcstrm pdev1 pca1.
           pdf_make_iccbased pdev pca (gs_color_space_num_components pcs)
               (pdf_cspace_init_Device ext (gs_color_space_num_components pcs))
             = (Inr pcstrm, pdev1, pca1) \<and> pending pdev1 = [] \<longrightarrow>
           pdf_convert_cie_to_iccbased ext pdev pca pcs dcsname pciec one_step pmat pprange =
             (Inr (),
              pdev1\<lparr>next_id := next_id pdev1 + 1,
                     written := written pdev1 @
                       [pcstrm\<lparr>cos_stream_bytes := cos_stream_bytes pcstrm @ profile,
                                stream_id := next_id pdev1\<rparr>]\<rparr>,
              pca1)"
    unfolding profile_def
    by (intro allI impI, elim conjE) (rule pdf_convert_cie_to_iccbased_ok)
  from c1 c2 c3 c4 c5 c6 c7 c8 c9 c10 c11 show ?thesis
    unfolding Let_def wtpt_offset_def profile_def
    by (intro conjI) assumption+
qed

text \<open>
  The CIEBasedA space with white point \<open>(0.9505, 1, 1.089)\<close> and the data colour space name
  \<open>GRAY\<close>.
\<close>

theorem iccbased_white_point_witness:
  "length ''GRAY'' = 4 \<and>
   tag (iccbased_tables ext0 (cs0 gs_color_space_index_CIEA 1 (profile0 gsGRAY 2 0))
          (cie0 0.9505 1 1.089) ONE_STEP_NOT None None ! 1) = ''wtpt'' \<and>
   take 12 (drop 68 (iccbased_profile ext0 (cs0 gs_color_space_index_CIEA 1 (profile0 gsGRAY 2 0))
      ''GRAY'' (cie0 0.9505 1 1.089) ONE_STEP_NOT None None)) =
   take 12 (drop (unat (get_uint32 (take 4 (drop (128 + 4 + 12 + 4)
      (iccbased_profile ext0 (cs0 gs_color_space_index_CIEA 1 (profile0 gsGRAY 2 0))
         ''GRAY'' (cie0 0.9505 1 1.089) ONE_STEP_NOT None None)))) + 8)
      (iccbased_profile ext0 (cs0 gs_color_space_index_CIEA 1 (profile0 gsGRAY 2 0))
         ''GRAY'' (cie0 0.9505 1 1.089) ONE_STEP_NOT None None)) \<and>
   get_s15Fixed16 (take 4 (drop (unat (get_uint32 (take 4 (drop (128 + 4 + 12 + 4)
      (iccbased_profile ext0 (cs0 gs_color_space_index_CIEA 1 (profile0 gsGRAY 2 0))
         ''GRAY'' (cie0 0.9505 1 1.089) ONE_STEP_NOT None None)))) + 8)
      (iccbased_profile ext0 (cs0 gs_color_space_index_CIEA 1 (profile0 gsGRAY 2 0))
         ''GRAY'' (cie0 0.9505 1 1.089) ONE_STEP_NOT None None))) = 63189 / 65536 \<and>
   pdf_convert_cie_to_iccbased ext0 (pdev0 1.3) []
       (cs0 gs_color_space_index_CIEA 1 (profile0 gsGRAY 2 0))
       ''GRAY'' (cie0 0.9505 1 1.089) ONE_STEP_NOT None None =
     (Inr (),
      (pdev0 1.3)\<lparr>next_id := 2,
         written :=
           [\<lparr>cos_stream_dict = [(''/N'', cos_int_value 1)],
              cos_stream_bytes =
                iccbased_profile ext0 (cs0 gs_color_space_index_CIEA 1 (profile0 gsGRAY 2 0))
                  ''GRAY'' (cie0 0.9505 1 1.089) ONE_STEP_NOT None None,
              stream_id = 1\<rparr>]\<rparr>,
      [cos_c_string_value ''/ICCBased'', COS_OBJECT_stream])"
proof -
  have len: "length ''GRAY'' = 4" by simp
  note t = iccbased_white_point [OF len, of ext0
      "cs0 gs_color_space_index_CIEA 1 (profile0 gsGRAY 2 0)" "cie0 0.9505 1 1.089"
      ONE_STEP_NOT None None, unfolded Let_def]
  from t have a: "tag (iccbased_tables ext0 (cs0 gs_color_space_index_CIEA 1 (profile0 gsGRAY 2 0))
          (cie0 0.9505 1 1.089) ONE_STEP_NOT None None ! 1) = ''wtpt''"
    by (elim conjE)
  from t have b: "take 12 (drop 68 (iccbased_profile ext0 (cs0 gs_color_space_index_CIEA 1 (profile0 gsGRAY 2 0))
      ''GRAY'' (cie0 0.9505 1 1.089) ONE_STEP_NOT None None)) =
   take 12 (drop (unat (get_uint32 (take 4 (drop (128 + 4 + 12 + 4)
      (iccbased_profile ext0 (cs0 gs_color_space_index_CIEA 1 (profile0 gsGRAY 2 0))
         ''GRAY'' (cie0 0.9505 1 1.089) ONE_STEP_NOT None None)))) + 8)
      (iccbased_profile ext0 (cs0 gs_color_space_index_CIEA 1 (profile0 gsGRAY 2 0))
         ''GRAY'' (cie0 0.9505 1 1.089) ONE_STEP_NOT None None))"
    by (elim conjE)
  from t have c: "get_s15Fixed16 (take 4 (drop (unat (get_uint32 (take 4 (drop (128 + 4 + 12 + 4)
      (iccbased_profile ext0 (cs0 gs_color_space_index_CIEA 1 (profile0 gsGRAY 2 0))
         ''GRAY'' (cie0 0.9505 1 1.089) ONE_STEP_NOT None None)))) + 8)
      (iccbased_profile ext0 (cs0 gs_color_space_index_CIEA 1 (profile0 gsGRAY 2 0))
         ''GRAY'' (cie0 0.9505 1 1.089) ONE_STEP_NOT None None))) = 63189 / 65536"
    by (elim conjE)
  have mk: "pdf_make_iccbased (pdev0 1.3) []
      (gs_color_space_num_components (cs0 gs_color_space_index_CIEA 1 (profile0 gsGRAY 2 0)))
      (pdf_cspace_init_Device ext0
         (gs_color_space_num_components (cs0 gs_color_space_index_CIEA 1 (profile0 gsGRAY 2 0))))
     = (Inr \<lparr>cos_stream_dict = [(''/N'', cos_int_value 1)], cos_stream_bytes = [],
              stream_id = 0\<rparr>,
        pdev0 1.3, [cos_c_string_value ''/ICCBased'', COS_OBJECT_stream])"
    by (simp add: eval_defs)
  have pend: "pending (pdev0 1.3) = []"
    by (simp add: pdev0_def)
  from t have "\<forall>pdev pca pcstrm pdev1 pca1.
           pdf_make_iccbased pdev pca
               (gs_color_space_num_components (cs0 gs_color_space_index_CIEA 1 (profile0 gsGRAY 2 0)))
               (pdf_cspace_init_Device ext0
                  (gs_color_space_num_components
                     (cs0 gs_color_space_index_CIEA 1 (profile0 gsGRAY 2 0))))
             = (Inr pcstrm, pdev1, pca1) \<and> pending pdev1 = [] \<longrightarrow>
           pdf_convert_cie_to_iccbased ext0 pdev pca
               (cs0 gs_color_space_index_CIEA 1 (profile0 gsGRAY 2 0))
               ''GRAY'' (cie0 0.9505 1 1.089) ONE_STEP_NOT None None =
             (Inr (),
              pdev1\<lparr>next_id := next_id pdev1 + 1,
                     written := written pdev1 @
                       [pcstrm\<lparr>cos_stream_bytes := cos_stream_bytes pcstrm @
                                  iccbased_profile ext0
                                    (cs0 gs_color_space_index_CIEA 1 (profile0 gsGRAY 2 0))
                                    ''GRAY'' (cie0 0.9505 1 1.089) ONE_STEP_NOT None None,
                                stream_id := next_id pdev1\<rparr>]\<rparr>,
              pca1)"
    by (elim conjE)
  from this [rule_format, OF conjI [OF mk pend]]
  have d: "pdf_convert_cie_to_iccbased ext0 (pdev0 1.3) []
       (cs0 gs_color_space_index_CIEA 1 (profile0 gsGRAY 2 0))
       ''GRAY'' (cie0 0.9505 1 1.089) ONE_STEP_NOT None None =
     (Inr (),
      (pdev0 1.3)\<lparr>next_id := 2,
         written :=
           [\<lparr>cos_stream_dict = [(''/N'', cos_int_value 1)],
              cos_stream_bytes =
                iccbased_profile ext0 (cs0 gs_color_space_index_CIEA 1 (profile0 gsGRAY 2 0))
                  ''GRAY'' (cie0 0.9505 1 1.089) ONE_STEP_NOT None None,
              stream_id = 1\<rparr>]\<rparr>,
      [cos_c_string_value ''/ICCBased'', COS_OBJECT_stream])"
    by (simp add: pdev0_def)
  from len a b c d show ?thesis by (intro conjI)
qed

text \<open>
  The claim as it is written has the tag decode to exactly \<open>0.9642\<close> and \<open>0.8249\<close>.  For the
  same space the encoded numbers decode to \<open>63189/65536\<close> and \<open>54060/65536\<close>, which are not
  these decimal numbers.
\<close>

theorem iccbased_white_point_exact_counterexample:
  "get_s15Fixed16 (take 4 (drop 8 (data
      (iccbased_tables ext0 (cs0 gs_color_space_index_CIEA 1 (profile0 gsGRAY 2 0))
          (cie0 0.9505 1 1.089) ONE_STEP_NOT None None ! 1)))) = 63189 / 65536 \<and>
   (63189 / 65536 :: real) \<noteq> 0.9642 \<and>
   get_s15Fixed16 (take 4 (drop 16 (data
      (iccbased_tables ext0 (cs0 gs_color_space_index_CIEA 1 (profile0 gsGRAY 2 0))
          (cie0 0.9505 1 1.089) ONE_STEP_NOT None None ! 1)))) = 54060 / 65536 \<and>
   (54060 / 65536 :: real) \<noteq> 0.8249"
proof -
  have len: "length ''GRAY'' = 4" by simp
  have t1: "iccbased_tables ext0 (cs0 gs_color_space_index_CIEA 1 (profile0 gsGRAY 2 0))
          (cie0 0.9505 1 1.089) ONE_STEP_NOT None None ! 1 = wtpt_table"
    by (rule iccbased_profile_white_point(1) [OF len refl refl])
  show ?thesis
    unfolding t1 by (simp add: wtpt_table_data bytes_of_string_def s15Fixed16_D50)
qed

subsection \<open>The directory that the profile builder writes\<close>

lemma take_drop_after:
  "length H = h \<Longrightarrow> take k (drop (h + m) (H @ X)) = take k (drop m X)"
  by simp

lemma take_drop_within:
  "m + k \<le> length D \<Longrightarrow> take k (drop m (D @ P)) = take k (drop m D)"
  by simp

lemma unat_table_size:
  assumes "4 + 12 * N < (2::nat) ^ 32"
  shows "unat (4 + word_of_nat N * 12 :: uint) = 4 + 12 * N"
proof -
  have "(4 + word_of_nat N * 12 :: uint) = word_of_nat (4 + 12 * N)"
    by simp
  moreover have "unat (word_of_nat (4 + 12 * N) :: uint) = 4 + 12 * N"
    using assms by (simp add: unat_of_nat del: of_nat_add of_nat_mult)
  ultimately show ?thesis by (simp add: mult.commute)
qed

lemma write_profile_layout:
  assumes ok: "pending pdev = []"
    and hdr: "length header0 = 128"
    and cnt: "4 + 12 * length tables < 2 ^ 32"
  shows "\<exists>H D.
     write_profile ext pdev pcstrm header0 tables pciec =
       (Inr (), pdev, pcstrm\<lparr>cos_stream_bytes := cos_stream_bytes pcstrm @
           (H @ D @ concat (map (table_output ext pciec) tables))\<rparr>) \<and>
     length H = 128 \<and>
     take 4 H = set_uint32 (snd (profile_directory tables
                (128 + (4 + word_of_nat (length tables) * 12)))) \<and>
     drop 4 H = drop 4 header0 \<and>
     D = set_uint32 (word_of_nat (length tables)) @
              fst (profile_directory tables (128 + (4 + word_of_nat (length tables) * 12))) \<and>
     length D = 4 + 12 * length tables"
proof -
  from cnt have ts: "unat (4 + word_of_nat (length tables) * 12 :: uint) = 4 + 12 * length tables"
    by (rule unat_table_size)
  show ?thesis
    apply (rule exI [where x = "memcpy header0 0
             (set_uint32 (snd (profile_directory tables
                (128 + (4 + word_of_nat (length tables) * 12))))) 4"])
    apply (rule exI [where x = "set_uint32 (word_of_nat (length tables)) @
              fst (profile_directory tables (128 + (4 + word_of_nat (length tables) * 12)))"])
    using hdr
    by (simp add: write_profile_ok [OF ok] ts memcpy_def length_set_uint32
          profile_directory_length)
qed

text \<open>
  Claim C4.  Let \<open>write_profile\<close>, the block of \<open>pdf_convert_cie_to_iccbased\<close> that writes
  the profile, run with no failing write on a header of 128 bytes and any sequence of \<open>N\<close>
  tables (with \<open>4 + 12 N\<close> in the range of \<open>uint\<close>; the code has \<open>N \<le> 9\<close>).  In the bytes that
  it appends to the stream (\<open>profile\<close>): the first four bytes, the size field of the header,
  hold the total \<open>128 + (4 + 12 N) + \<Sum>\<^bsub>j\<^esub> round_up(length\<^bsub>j\<^esub>, 4)\<close> and the rest of the header is
  unchanged; the directory starts at 128 with the count \<open>N\<close>; entry \<open>i\<close> holds the tag, then
  the offset \<open>128 + (4 + 12 N) + \<Sum>\<^bsub>j<i\<^esub> round_up(length\<^bsub>j\<^esub>, 4)\<close>, then the declared length; the
  directory occupies exactly \<open>4 + 12 N\<close> bytes, the output of the tables following it; and
  for a non-empty sequence the total is the last tag's offset plus its rounded length.  The
  sums are those of the code, on \<open>uint\<close>; when the total is below \<open>2^32\<close> nothing wraps around
  and the same equations hold for the natural numbers, with
  \<open>round_up(l, 4) = (l + 3) div 4 * 4\<close>.  \<open>pdf_convert_cie_to_iccbased\<close> writes out the
  stream that this block has filled, for the header and the tables that it has built.
\<close>

theorem write_profile_directory:
  assumes ok: "pending pdev = []"
    and hdr: "length header0 = 128"
    and cnt: "4 + 12 * length tables < 2 ^ 32"
  shows
  "let N = length tables;
       start = (128 + (4 + word_of_nat N * 12) :: uint);
       padded = (\<lambda>t. round_up (tbl_length t) 4);
       offset_of = (\<lambda>i. start + sum_list (map padded (take i tables)));
       total = start + sum_list (map padded tables);
       padded_nat = (\<lambda>t. (unat (tbl_length t) + 3) div 4 * 4);
       out = write_profile ext pdev pcstrm header0 tables pciec;
       profile = drop (length (cos_stream_bytes pcstrm)) (cos_stream_bytes (snd (snd out)))
   in fst out = Inr () \<and>
      cos_stream_bytes (snd (snd out)) = cos_stream_bytes pcstrm @ profile \<and>
      get_uint32 (take 4 profile) = total \<and>
      take 124 (drop 4 profile) = drop 4 header0 \<and>
      get_uint32 (take 4 (drop 128 profile)) = word_of_nat N \<and>
      (\<forall>i<N. take 4 (drop (128 + (4 + 12 * i)) profile) = tag_bytes (tables ! i) \<and>
             get_uint32 (take 4 (drop (128 + (4 + 12 * i + 4)) profile)) = offset_of i \<and>
             get_uint32 (take 4 (drop (128 + (4 + 12 * i + 8)) profile))
               = tbl_length (tables ! i)) \<and>
      drop (128 + (4 + 12 * N)) profile = concat (map (table_output ext pciec) tables) \<and>
      (tables \<noteq> [] \<longrightarrow> total = offset_of (N - 1) + padded (last tables)) \<and>
      (132 + 12 * N + sum_list (map padded_nat tables) < 2 ^ 32 \<longrightarrow>
         unat total = 128 + (4 + 12 * N) + sum_list (map padded_nat tables) \<and>
         (\<forall>i<N. unat (offset_of i)
                  = 128 + (4 + 12 * N) + sum_list (map padded_nat (take i tables)))) \<and>
      (\<forall>pdev0 pca pcs dcsname one_step pmat pprange pca1.
         pdf_make_iccbased pdev0 pca (gs_color_space_num_components pcs)
             (pdf_cspace_init_Device ext (gs_color_space_num_components pcs))
           = (Inr pcstrm, pdev, pca1) \<and>
         tables = iccbased_tables ext pcs pciec one_step pmat pprange \<and>
         header0 = iccbased_header dcsname tables \<longrightarrow>
         pdf_convert_cie_to_iccbased ext pdev0 pca pcs dcsname pciec one_step pmat pprange =
           (Inr (),
            pdev\<lparr>next_id := next_id pdev + 1,
                  written := written pdev @ [(snd (snd out))\<lparr>stream_id := next_id pdev\<rparr>]\<rparr>,
            pca1))"
proof -
  define N where "N = length tables"
  define start :: uint where "start = 128 + (4 + word_of_nat N * 12)"
  define padded :: "profile_table_t \<Rightarrow> uint" where
    "padded = (\<lambda>t. round_up (tbl_length t) 4)"
  define offset_of where "offset_of = (\<lambda>i. start + sum_list (map padded (take i tables)))"
  define total where "total = start + sum_list (map padded tables)"
  define padded_nat :: "profile_table_t \<Rightarrow> nat" where
    "padded_nat = (\<lambda>t. (unat (tbl_length t) + 3) div 4 * 4)"
  define out where "out = write_profile ext pdev pcstrm header0 tables pciec"
  define profile where
    "profile = drop (length (cos_stream_bytes pcstrm)) (cos_stream_bytes (snd (snd out)))"
  define P where "P = concat (map (table_output ext pciec) tables)"
  from write_profile_layout [OF ok hdr cnt, of ext pcstrm pciec]
  obtain H D where all:
    "write_profile ext pdev pcstrm header0 tables pciec =
       (Inr (), pdev, pcstrm\<lparr>cos_stream_bytes := cos_stream_bytes pcstrm @
           (H @ D @ concat (map (table_output ext pciec) tables))\<rparr>) \<and>
     length H = 128 \<and>
     take 4 H = set_uint32 (snd (profile_directory tables
                (128 + (4 + word_of_nat (length tables) * 12)))) \<and>
     drop 4 H = drop 4 header0 \<and>
     D = set_uint32 (word_of_nat (length tables)) @
              fst (profile_directory tables (128 + (4 + word_of_nat (length tables) * 12))) \<and>
     length D = 4 + 12 * length tables"
    by (elim exE) (erule that)
  from all have wp:
    "out = (Inr (), pdev, pcstrm\<lparr>cos_stream_bytes := cos_stream_bytes pcstrm @ (H @ D @ P)\<rparr>)"
    unfolding out_def P_def by (elim conjE)
  from all have lH: "length H = 128" by (elim conjE)
  from all have H4: "take 4 H = set_uint32 (snd (profile_directory tables start))"
    unfolding start_def N_def by (elim conjE)
  from all have Hrest: "drop 4 H = drop 4 header0" by (elim conjE)
  from all have D: "D = set_uint32 (word_of_nat N) @ fst (profile_directory tables start)"
    unfolding start_def N_def by (elim conjE)
  from all have lD: "length D = 4 + 12 * N"
    unfolding N_def by (elim conjE)
  have prof: "profile = H @ D @ P"
    by (simp add: profile_def wp)
  have tot: "snd (profile_directory tables start) = total"
    by (simp add: total_def padded_def profile_directory_total)
  have c1: "fst out = Inr ()" by (simp add: wp)
  have c2: "cos_stream_bytes (snd (snd out)) = cos_stream_bytes pcstrm @ profile"
    by (simp add: wp prof)
  have "take 4 profile = take 4 H" using lH by (simp add: prof)
  then have c3: "get_uint32 (take 4 profile) = total"
    by (simp only: H4 tot get_set_uint32)
  have "take 124 (drop 4 profile) = drop 4 H" using lH by (simp add: prof)
  then have c4: "take 124 (drop 4 profile) = drop 4 header0"
    by (simp only: Hrest)
  have dD: "drop 128 profile = D @ P" using lH by (simp add: prof)
  have "take 4 (drop 128 profile) = set_uint32 (word_of_nat N)"
    by (simp add: dD D length_set_uint32)
  then have c5: "get_uint32 (take 4 (drop 128 profile)) = word_of_nat N"
    by (simp only: get_set_uint32)
  have c6: "\<forall>i<N. take 4 (drop (128 + (4 + 12 * i)) profile) = tag_bytes (tables ! i) \<and>
             get_uint32 (take 4 (drop (128 + (4 + 12 * i + 4)) profile)) = offset_of i \<and>
             get_uint32 (take 4 (drop (128 + (4 + 12 * i + 8)) profile))
               = tbl_length (tables ! i)"
  proof (intro allI impI)
    fix i assume iN: "i < N"
    then have i: "i < length tables" by (simp add: N_def)
    have a: "take 4 (drop (128 + m) profile) = take 4 (drop m D)" if "m + 4 \<le> length D" for m
    proof -
      have "take 4 (drop (128 + m) profile) = take 4 (drop m (D @ P))"
        unfolding prof by (rule take_drop_after [OF lH])
      also have "\<dots> = take 4 (drop m D)"
        by (rule take_drop_within) (rule that)
      finally show ?thesis .
    qed
    have b0: "4 + 12 * i + 4 \<le> length D" "4 + 12 * i + 4 + 4 \<le> length D"
      "4 + 12 * i + 8 + 4 \<le> length D"
      using iN lD by simp_all
    show "take 4 (drop (128 + (4 + 12 * i)) profile) = tag_bytes (tables ! i) \<and>
             get_uint32 (take 4 (drop (128 + (4 + 12 * i + 4)) profile)) = offset_of i \<and>
             get_uint32 (take 4 (drop (128 + (4 + 12 * i + 8)) profile))
               = tbl_length (tables ! i)"
      unfolding a [OF b0(1)] a [OF b0(2)] a [OF b0(3)] D offset_of_def padded_def
      by (simp only: directory_entry_fields [OF i] get_set_uint32)
  qed
  have c7: "drop (128 + (4 + 12 * N)) profile = P"
    using lH lD by (simp add: prof)
  have c8: "tables \<noteq> [] \<longrightarrow> total = offset_of (N - 1) + padded (last tables)"
    using sum_list_last [of tables padded]
    by (simp add: total_def offset_of_def N_def add.assoc)
  have c9: "132 + 12 * N + sum_list (map padded_nat tables) < 2 ^ 32 \<longrightarrow>
         unat total = 128 + (4 + 12 * N) + sum_list (map padded_nat tables) \<and>
         (\<forall>i<N. unat (offset_of i)
                  = 128 + (4 + 12 * N) + sum_list (map padded_nat (take i tables)))"
  proof (intro impI conjI allI)
    assume small: "132 + 12 * N + sum_list (map padded_nat tables) < 2 ^ 32"
    then have "132 + 12 * N < (2::nat) ^ 32" by simp
    then have us: "unat start = 128 + (4 + 12 * N)"
      unfolding start_def by (rule unat_directory_start)
    have "unat start + sum_list (map padded_nat tables) < 2 ^ 32"
      using small us by simp
    then show "unat total = 128 + (4 + 12 * N) + sum_list (map padded_nat tables)"
      unfolding total_def padded_def padded_nat_def
      using unat_offset_sum [of start tables] us by simp
    fix i assume "i < N"
    have "sum_list (map padded_nat (take i tables)) \<le> sum_list (map padded_nat tables)"
    proof -
      have "sum_list (map padded_nat tables) =
            sum_list (map padded_nat (take i tables)) + sum_list (map padded_nat (drop i tables))"
        by (metis append_take_drop_id map_append sum_list_append)
      then show ?thesis by simp
    qed
    then have "unat start + sum_list (map padded_nat (take i tables)) < 2 ^ 32"
      using small us by simp
    then show "unat (offset_of i)
                  = 128 + (4 + 12 * N) + sum_list (map padded_nat (take i tables))"
      unfolding offset_of_def padded_def padded_nat_def
      using unat_offset_sum [of start "take i tables"] us by simp
  qed
  have c10: "\<forall>pdev0 pca pcs dcsname one_step pmat pprange pca1.
         pdf_make_iccbased pdev0 pca (gs_color_space_num_components pcs)
             (pdf_cspace_init_Device ext (gs_color_space_num_components pcs))
           = (Inr pcstrm, pdev, pca1) \<and>
         tables = iccbased_tables ext pcs pciec one_step pmat pprange \<and>
         header0 = iccbased_header dcsname tables \<longrightarrow>
         pdf_convert_cie_to_iccbased ext pdev0 pca pcs dcsname pciec one_step pmat pprange =
           (Inr (),
            pdev\<lparr>next_id := next_id pdev + 1,
                  written := written pdev @ [(snd (snd out))\<lparr>stream_id := next_id pdev\<rparr>]\<rparr>,
            pca1)"
  proof (intro allI impI, elim conjE)
    fix pdev0 pca pcs dcsname one_step pmat pprange pca1
    assume mk: "pdf_make_iccbased pdev0 pca (gs_color_space_num_components pcs)
             (pdf_cspace_init_Device ext (gs_color_space_num_components pcs))
           = (Inr pcstrm, pdev, pca1)"
      and t: "tables = iccbased_tables ext pcs pciec one_step pmat pprange"
      and h: "header0 = iccbased_header dcsname tables"
    have w: "write_profile ext pdev pcstrm
               (iccbased_header dcsname (iccbased_tables ext pcs pciec one_step pmat pprange))
               (iccbased_tables ext pcs pciec one_step pmat pprange) pciec =
             (Inr (), pdev, snd (snd out))"
      using wp unfolding out_def h t by simp
    show "pdf_convert_cie_to_iccbased ext pdev0 pca pcs dcsname pciec one_step pmat pprange =
           (Inr (),
            pdev\<lparr>next_id := next_id pdev + 1,
                  written := written pdev @ [(snd (snd out))\<lparr>stream_id := next_id pdev\<rparr>]\<rparr>,
            pca1)"
      using ok
      by (simp add: pdf_convert_cie_to_iccbased_def Let_def mk w pdf_finish_iccbased_ok)
  qed
  from c1 c2 c3 c4 c5 c6 c7 c8 c9 c10 show ?thesis
    unfolding Let_def profile_def out_def padded_nat_def total_def offset_of_def padded_def
      start_def N_def P_def
    by (intro conjI) assumption+
qed

text \<open>
  Three tables of lengths 96, 20 and 13 after a header of zeros: the count is 3, the offsets
  are 168, 264 and 284, and the total is 300, which is also the number of bytes written.  And
  the CIEBasedA space with white point \<open>(0.9505, 1, 1.089)\<close>, for which
  \<open>pdf_convert_cie_to_iccbased\<close> builds four tables.
\<close>

theorem write_profile_directory_witness:
  "pending (pdev0 1.3) = [] \<and> length (replicate 128 (0::byte)) = 128 \<and>
   4 + 12 * length tables3 < (2::nat) ^ 32 \<and>
   fst (write_profile ext0 (pdev0 1.3)
          \<lparr>cos_stream_dict = [], cos_stream_bytes = [], stream_id = 0\<rparr>
          (replicate 128 0) tables3 (cie0 0.9505 1 1.089)) = Inr () \<and>
   length (cos_stream_bytes (snd (snd (write_profile ext0 (pdev0 1.3)
          \<lparr>cos_stream_dict = [], cos_stream_bytes = [], stream_id = 0\<rparr>
          (replicate 128 0) tables3 (cie0 0.9505 1 1.089))))) = 300 \<and>
   get_uint32 (take 4 (cos_stream_bytes (snd (snd (write_profile ext0 (pdev0 1.3)
          \<lparr>cos_stream_dict = [], cos_stream_bytes = [], stream_id = 0\<rparr>
          (replicate 128 0) tables3 (cie0 0.9505 1 1.089)))))) = 300 \<and>
   get_uint32 (take 4 (drop 128 (cos_stream_bytes (snd (snd (write_profile ext0 (pdev0 1.3)
          \<lparr>cos_stream_dict = [], cos_stream_bytes = [], stream_id = 0\<rparr>
          (replicate 128 0) tables3 (cie0 0.9505 1 1.089))))))) = 3 \<and>
   get_uint32 (take 4 (drop 136 (cos_stream_bytes (snd (snd (write_profile ext0 (pdev0 1.3)
          \<lparr>cos_stream_dict = [], cos_stream_bytes = [], stream_id = 0\<rparr>
          (replicate 128 0) tables3 (cie0 0.9505 1 1.089))))))) = 168 \<and>
   get_uint32 (take 4 (drop 148 (cos_stream_bytes (snd (snd (write_profile ext0 (pdev0 1.3)
          \<lparr>cos_stream_dict = [], cos_stream_bytes = [], stream_id = 0\<rparr>
          (replicate 128 0) tables3 (cie0 0.9505 1 1.089))))))) = 264 \<and>
   get_uint32 (take 4 (drop 160 (cos_stream_bytes (snd (snd (write_profile ext0 (pdev0 1.3)
          \<lparr>cos_stream_dict = [], cos_stream_bytes = [], stream_id = 0\<rparr>
          (replicate 128 0) tables3 (cie0 0.9505 1 1.089))))))) = 284 \<and>
   pdf_convert_cie_to_iccbased ext0 (pdev0 1.3) []
       (cs0 gs_color_space_index_CIEA 1 (profile0 gsGRAY 2 0))
       ''GRAY'' (cie0 0.9505 1 1.089) ONE_STEP_NOT None None =
     (Inr (),
      (pdev0 1.3)\<lparr>next_id := 2,
         written :=
           [(snd (snd (write_profile ext0 (pdev0 1.3)
               \<lparr>cos_stream_dict = [(''/N'', cos_int_value 1)], cos_stream_bytes = [],
                  stream_id = 0\<rparr>
               (iccbased_header ''GRAY''
                  (iccbased_tables ext0 (cs0 gs_color_space_index_CIEA 1 (profile0 gsGRAY 2 0))
                     (cie0 0.9505 1 1.089) ONE_STEP_NOT None None))
               (iccbased_tables ext0 (cs0 gs_color_space_index_CIEA 1 (profile0 gsGRAY 2 0))
                  (cie0 0.9505 1 1.089) ONE_STEP_NOT None None)
               (cie0 0.9505 1 1.089))))\<lparr>stream_id := 1\<rparr>]\<rparr>,
      [cos_c_string_value ''/ICCBased'', COS_OBJECT_stream]) \<and>
   get_uint32 (take 4 (drop 128 (cos_stream_bytes (snd (snd (write_profile ext0 (pdev0 1.3)
       \<lparr>cos_stream_dict = [(''/N'', cos_int_value 1)], cos_stream_bytes = [], stream_id = 0\<rparr>
       (iccbased_header ''GRAY''
          (iccbased_tables ext0 (cs0 gs_color_space_index_CIEA 1 (profile0 gsGRAY 2 0))
             (cie0 0.9505 1 1.089) ONE_STEP_NOT None None))
       (iccbased_tables ext0 (cs0 gs_color_space_index_CIEA 1 (profile0 gsGRAY 2 0))
          (cie0 0.9505 1 1.089) ONE_STEP_NOT None None)
       (cie0 0.9505 1 1.089))))))) = 4"
proof -
  let ?S = "\<lparr>cos_stream_dict = [], cos_stream_bytes = [], stream_id = 0\<rparr>"
  let ?out = "write_profile ext0 (pdev0 1.3) ?S (replicate 128 0) tables3 (cie0 0.9505 1 1.089)"
  let ?P = "drop (length (cos_stream_bytes ?S)) (cos_stream_bytes (snd (snd ?out)))"
  let ?start = "128 + (4 + word_of_nat (length tables3) * 12) :: uint"
  have h1: "pending (pdev0 1.3) = []" by (simp add: pdev0_def)
  have h2: "length (replicate 128 (0::byte)) = 128" by simp
  have h3: "4 + 12 * length tables3 < (2::nat) ^ 32" by (simp add: tables3_def)
  note t = write_profile_directory [OF h1 h2 h3, of ext0 ?S "cie0 0.9505 1 1.089",
      unfolded Let_def]
  have P: "?P = cos_stream_bytes (snd (snd ?out))" by simp
  have l3: "length tables3 = 3" by (simp add: tables3_def)
  from t have a: "fst ?out = Inr ()" by (elim conjE)
  from t have b: "get_uint32 (take 4 ?P) =
      ?start + sum_list (map (\<lambda>t. round_up (tbl_length t) 4) tables3)"
    by (elim conjE)
  from t have c: "get_uint32 (take 4 (drop 128 ?P)) = word_of_nat (length tables3)"
    by (elim conjE)
  from t have d: "\<forall>i<length tables3.
      take 4 (drop (128 + (4 + 12 * i)) ?P) = tag_bytes (tables3 ! i) \<and>
      get_uint32 (take 4 (drop (128 + (4 + 12 * i + 4)) ?P)) =
        ?start + sum_list (map (\<lambda>t. round_up (tbl_length t) 4) (take i tables3)) \<and>
      get_uint32 (take 4 (drop (128 + (4 + 12 * i + 8)) ?P)) = tbl_length (tables3 ! i)"
    by (elim conjE)
  have len: "length (cos_stream_bytes (snd (snd ?out))) = 300"
    by (simp add: write_profile_ok [OF h1] tables3_def add_table_def add_table_xyz3_def
          length_set_uint32 split_beta memcpy_def table_output_def cprt_data_def set_XYZ_def
          bytes_of_string_def length_tag_bytes)
  have b': "get_uint32 (take 4 (cos_stream_bytes (snd (snd ?out)))) = 300"
    using b unfolding P by (simp add: tables3_def add_table_def add_table_xyz3_def round_up_def)
  have c': "get_uint32 (take 4 (drop 128 (cos_stream_bytes (snd (snd ?out))))) = 3"
    using c unfolding P l3 by simp
  have d0: "get_uint32 (take 4 (drop 136 (cos_stream_bytes (snd (snd ?out))))) = 168"
    using d [rule_format, of 0] unfolding P l3 by simp
  have d1: "get_uint32 (take 4 (drop 148 (cos_stream_bytes (snd (snd ?out))))) = 264"
    using d [rule_format, of 1] unfolding P l3
    by (simp add: tables3_def add_table_def add_table_xyz3_def round_up_def)
  have d2: "get_uint32 (take 4 (drop 160 (cos_stream_bytes (snd (snd ?out))))) = 284"
    using d [rule_format, of 2] unfolding P l3
    by (simp add: tables3_def add_table_def add_table_xyz3_def round_up_def)
  let ?S1 = "\<lparr>cos_stream_dict = [(''/N'', cos_int_value 1)], cos_stream_bytes = [],
               stream_id = 0\<rparr>"
  let ?cs = "cs0 gs_color_space_index_CIEA 1 (profile0 gsGRAY 2 0)"
  let ?T = "iccbased_tables ext0 ?cs (cie0 0.9505 1 1.089) ONE_STEP_NOT None None"
  let ?out1 = "write_profile ext0 (pdev0 1.3) ?S1 (iccbased_header ''GRAY'' ?T) ?T
                 (cie0 0.9505 1 1.089)"
  have T4: "length ?T = 4"
    by (simp add: iccbased_tables_def Let_def)
  have T1: "?T ! 1 = wtpt_table"
    by (simp add: iccbased_tables_def Let_def wtpt_table_def)
  have g2: "length (iccbased_header ''GRAY'' ?T) = 128"
    by (rule length_iccbased_header [OF _ T1]) simp
  have g3: "4 + 12 * length ?T < (2::nat) ^ 32"
    unfolding T4 by simp
  note r = write_profile_directory [OF h1 g2 g3, of ext0 ?S1 "cie0 0.9505 1 1.089",
      unfolded Let_def]
  have mk: "pdf_make_iccbased (pdev0 1.3) [] (gs_color_space_num_components ?cs)
      (pdf_cspace_init_Device ext0 (gs_color_space_num_components ?cs))
     = (Inr ?S1, pdev0 1.3, [cos_c_string_value ''/ICCBased'', COS_OBJECT_stream])"
    by (simp add: eval_defs)
  from r have "\<forall>pdev0' pca pcs dcsname one_step pmat pprange pca1.
         pdf_make_iccbased pdev0' pca (gs_color_space_num_components pcs)
             (pdf_cspace_init_Device ext0 (gs_color_space_num_components pcs))
           = (Inr ?S1, pdev0 1.3, pca1) \<and>
         ?T = iccbased_tables ext0 pcs (cie0 0.9505 1 1.089) one_step pmat pprange \<and>
         iccbased_header ''GRAY'' ?T = iccbased_header dcsname ?T \<longrightarrow>
         pdf_convert_cie_to_iccbased ext0 pdev0' pca pcs dcsname (cie0 0.9505 1 1.089)
            one_step pmat pprange =
           (Inr (),
            (pdev0 1.3)\<lparr>next_id := next_id (pdev0 1.3) + 1,
                  written := written (pdev0 1.3) @
                    [(snd (snd ?out1))\<lparr>stream_id := next_id (pdev0 1.3)\<rparr>]\<rparr>,
            pca1)"
    by (elim conjE)
  from this [rule_format, OF conjI [OF mk conjI [OF refl refl]]]
  have e: "pdf_convert_cie_to_iccbased ext0 (pdev0 1.3) [] ?cs ''GRAY'' (cie0 0.9505 1 1.089)
             ONE_STEP_NOT None None =
     (Inr (),
      (pdev0 1.3)\<lparr>next_id := 2,
         written := [(snd (snd ?out1))\<lparr>stream_id := 1\<rparr>]\<rparr>,
      [cos_c_string_value ''/ICCBased'', COS_OBJECT_stream])"
    by (simp add: pdev0_def)
  from r have "get_uint32 (take 4 (drop 128 (drop (length (cos_stream_bytes ?S1))
                 (cos_stream_bytes (snd (snd ?out1)))))) = word_of_nat (length ?T)"
    by (elim conjE)
  then have f: "get_uint32 (take 4 (drop 128 (cos_stream_bytes (snd (snd ?out1))))) = 4"
    unfolding T4 by simp
  from h1 h2 h3 a len b' c' d0 d1 d2 e f show ?thesis by (intro conjI)
qed

end
